theory Spec2Isabelle
  imports Main "HOL-Library.Monad_Syntax"
begin

section \<open>Go library functions the builder calls\<close>

text \<open>
  \<^verbatim>\<open>strings.Split(s, sep)\<close> for a one-byte separator: the fields between the occurrences
  of the separator, in order. The empty string has the one field \<^verbatim>\<open>""\<close>.
\<close>

fun strings_Split :: "string \<Rightarrow> char \<Rightarrow> string list" where
  "strings_Split [] sep = [[]]"
| "strings_Split (c # cs) sep =
     (if c = sep then [] # strings_Split cs sep
      else (case strings_Split cs sep of
              [] \<Rightarrow> [[c]]
            | p # ps \<Rightarrow> (c # p) # ps))"

text \<open>
  The digits of \<^verbatim>\<open>strconv.Atoi\<close>, which is defined below, once errors are.
\<close>

definition is_digit :: "char \<Rightarrow> bool" where
  "is_digit c = (c \<in> set ''0123456789'')"

definition digit_val :: "char \<Rightarrow> nat" where
  "digit_val c = of_char c - 48"

definition digits_val :: "string \<Rightarrow> nat" where
  "digits_val ds = foldl (\<lambda>n c. n * 10 + digit_val c) 0 ds"

text \<open>\<^verbatim>\<open>strconv.Itoa\<close>: the decimal digits of an integer, with a minus sign when negative.\<close>

fun nat_digits :: "nat \<Rightarrow> string" where
  "nat_digits n =
     (if n < 10 then [char_of (48 + n)]
      else nat_digits (n div 10) @ [char_of (48 + n mod 10)])"

declare nat_digits.simps [simp del]

definition Itoa :: "int \<Rightarrow> string" where
  "Itoa i = (if i < 0 then CHR ''-'' # nat_digits (nat (- i)) else nat_digits (nat i))"

section \<open>Values, errors and user interface lines\<close>

text \<open>
  The dynamically typed values of Go's \<^verbatim>\<open>map[string]any\<close> as the JSON and protobuf
  decoders produce them. Comparing such a value with a string literal, as the code does
  with \<^verbatim>\<open>status == "success"\<close>, is true only for a string of that content.
\<close>

datatype anyval =
    AString string
  | ANumber int
  | ABool bool
  | ANil
  | AList "anyval list"
  | AMap "(string \<times> anyval) list"

text \<open>
  An \<^verbatim>\<open>error\<close> is either what the remote call returned (\<open>Remote\<close>, its text) or what the
  builder made with \<^verbatim>\<open>fmt.Errorf\<close>: the format string and its arguments, kept apart so
  that no formatting has to be modelled. \<open>ArgS\<close> is a \<^verbatim>\<open>%s\<close> or \<^verbatim>\<open>%v\<close> string argument,
  \<open>ArgD\<close> a \<^verbatim>\<open>%d\<close> integer, \<open>ArgQ\<close> a \<^verbatim>\<open>%q\<close> string, \<open>ArgV\<close> an error printed with \<^verbatim>\<open>%v\<close>,
  \<open>ArgA\<close> a dynamically typed value printed with \<^verbatim>\<open>%v\<close> or \<^verbatim>\<open>%s\<close>, \<open>ArgM\<close> a map printed
  with \<^verbatim>\<open>%v\<close>.
\<close>

datatype arg =
    ArgS string | ArgD int | ArgQ string | ArgV error | ArgA anyval
  | ArgM "(string \<rightharpoonup> anyval) option"
  and error = Remote string | Errorf string "arg list" | NumError string string

text \<open>
  \<^verbatim>\<open>strconv.Atoi\<close>: an optional sign, then one or more decimal digits and nothing else; the
  value must fit Go's \<^verbatim>\<open>int\<close> (64 bits on the platforms the plugin is built for). Every
  other string is an error: \<open>NumError s e\<close> is \<^verbatim>\<open>&strconv.NumError{"Atoi", s, e}\<close>.
\<close>

definition Atoi :: "string \<Rightarrow> error + int" where
  "Atoi s =
     (let neg = (s \<noteq> [] \<and> hd s = CHR ''-'');
          ds = (if s \<noteq> [] \<and> (hd s = CHR ''-'' \<or> hd s = CHR ''+'') then tl s else s)
      in if ds = [] \<or> \<not> list_all is_digit ds then Inl (NumError s ''invalid syntax'')
         else let n = int (digits_val ds)
              in if neg then (if n \<le> 2 ^ 63 then Inr (- n)
                              else Inl (NumError s ''value out of range''))
                 else (if n < 2 ^ 63 then Inr n
                       else Inl (NumError s ''value out of range'')))"

datatype msg = Plain string | Sprintf string "arg list"

datatype ui_line = Say msg | Error msg | Message msg

datatype StepAction = ActionContinue | ActionHalt

section \<open>The address of the remote shell\<close>

text \<open>\<^verbatim>\<open>ParseSSHAddress\<close> (api_client.go): \<^verbatim>\<open>host:port\<close>, split at the colons.\<close>

definition ParseSSHAddress :: "string \<Rightarrow> error + (string \<times> int)" where
  "ParseSSHAddress addr =
     (let parts = strings_Split addr CHR '':''
      in if length parts \<noteq> 2 then Inl (Errorf ''invalid SSH address format: %s'' [ArgS addr])
         else let host = parts ! 0
              in case Atoi (parts ! 1) of
                   Inl err \<Rightarrow> Inl (Errorf ''invalid port in SSH address: %s'' [ArgS (parts ! 1)])
                 | Inr port \<Rightarrow> Inr (host, port))"

section \<open>The data of the fleet service\<close>

text \<open>
  The structs of the REST client (\<^verbatim>\<open>Label\<close>, \<^verbatim>\<open>Application\<close>, \<^verbatim>\<open>ApplicationState\<close>,
  \<^verbatim>\<open>ApplicationResource\<close>, \<^verbatim>\<open>ApplicationResourceAccess\<close>, \<^verbatim>\<open>ApplicationTask\<close>) with the
  fields the steps read or write; the generated protobuf messages of the RPC client carry
  the same fields behind getters. The status of an \<^verbatim>\<open>ApplicationState\<close> is a string in the
  REST client and an enumeration in the RPC client, hence the type parameter.
\<close>

record LabelDefinition =
  Driver :: string

record Label =
  Label_UID :: string
  Label_Name :: string
  Label_Version :: int
  Label_Definitions :: "LabelDefinition list"

record Application =
  App_UID :: string
  App_LabelUID :: string
  App_Metadata :: "string \<rightharpoonup> anyval"

record 's ApplicationState =
  Status :: 's
  Description :: string

record ApplicationResource =
  Res_UID :: string
  Res_IPAddr :: string

record ApplicationResourceAccess =
  Acc_Address :: string
  Acc_Username :: string
  Acc_Password :: string
  Acc_Key :: string

record ApplicationTask =
  Task_UID :: string
  Task_ApplicationUID :: string
  Task_Task :: string
  Task_When :: string
  Task_Options :: "string \<rightharpoonup> anyval"
  Task_Result :: "(string \<rightharpoonup> anyval) option"

text \<open>
  Modelled from the spec: the status enumeration \<^verbatim>\<open>aquariumv2.ApplicationState_Status\<close> of
  the generated RPC bindings, which are not under src/. The spec's data model names its
  members; \<open>UNRECOGNIZED n\<close> stands for every other value of the underlying 32-bit
  integer, the zero value of the type included.
\<close>

datatype ApplicationState_Status =
    ApplicationState_NEW
  | ApplicationState_ELECTED
  | ApplicationState_ALLOCATED
  | ApplicationState_ERROR
  | ApplicationState_DEALLOCATE
  | ApplicationState_DEALLOCATED
  | ApplicationState_RECALLED
  | UNRECOGNIZED int

fun Status_String :: "ApplicationState_Status \<Rightarrow> string" where
  "Status_String ApplicationState_NEW = ''NEW''"
| "Status_String ApplicationState_ELECTED = ''ELECTED''"
| "Status_String ApplicationState_ALLOCATED = ''ALLOCATED''"
| "Status_String ApplicationState_ERROR = ''ERROR''"
| "Status_String ApplicationState_DEALLOCATE = ''DEALLOCATE''"
| "Status_String ApplicationState_DEALLOCATED = ''DEALLOCATED''"
| "Status_String ApplicationState_RECALLED = ''RECALLED''"
| "Status_String (UNRECOGNIZED n) = Itoa n"

section \<open>Configuration, workflow state and the outside world\<close>

record CommunicatorConfig =
  Comm_Type :: string
  SSHHost :: string
  SSHPort :: int
  SSHUsername :: string
  SSHPassword :: string
  SSHPrivateKey :: string

text \<open>
  \<^verbatim>\<open>Config\<close> (builder.go). The two durations are in nanoseconds, as \<^verbatim>\<open>time.Duration\<close> is.
  \<open>ApplicationMetadata\<close> is \<open>None\<close> for Go's nil map.
\<close>

record Config =
  Endpoint :: string
  Username :: string
  Password :: string
  InsecureSkipTLSVerify :: bool
  LabelName :: string
  LabelVersion :: string
  ConnectionTimeout :: string
  ConnectionRetries :: int
  AllocationTimeout :: string
  ApplicationMetadata :: "(string \<rightharpoonup> anyval) option"
  Communicator :: CommunicatorConfig
  connectionTimeoutDuration :: int
  allocationTimeoutDuration :: int

definition Second :: int where
  "Second = 1000000000"

definition Minute :: int where
  "Minute = 60 * Second"

record APIClient =
  BaseURL :: string
  Client_Username :: string
  Client_Password :: string

text \<open>The remote calls of the API client, as the requests the fleet service receives.\<close>

datatype request =
    GetCurrentUser
  | Subscribe
  | GetLabels string string
  | CreateApplication Application
  | GetApplicationState string
  | GetApplicationResource string
  | GetApplicationResourceAccess string
  | DeallocateApplication string
  | CreateApplicationTask ApplicationTask
  | GetApplicationTask string

text \<open>
  The state bag (\<^verbatim>\<open>multistep.BasicStateBag\<close>) as \<^verbatim>\<open>Builder.Run\<close> creates it: the keys it puts
  itself (\<^verbatim>\<open>ui\<close>, \<^verbatim>\<open>config\<close>, \<^verbatim>\<open>generated_data\<close>) are always there, every key a step puts is
  \<open>None\<close> until then. \<open>config\<close> is the one \<^verbatim>\<open>Config\<close> every step points to, so the change
  a step makes to it is seen by the next. \<open>ui\<close> holds the lines written to the user
  interface, oldest first. \<open>requests\<close> is no key of the bag: it records the remote calls
  made so far, oldest first.
\<close>

record StateBag =
  ui :: "ui_line list"
  config :: Config
  generated_data :: "string \<rightharpoonup> anyval"
  api_client :: "APIClient option"
  subscribe_stream :: "unit option"
  selected_label :: "Label option"
  application :: "Application option"
  application_resource :: "ApplicationResource option"
  ssh_host :: "string option"
  ssh_port :: "int option"
  ssh_username :: "string option"
  ssh_access :: "ApplicationResourceAccess option option"
  image_task :: "ApplicationTask option"
  image_results :: "(string \<rightharpoonup> anyval) option"
  error :: "error option"
  requests :: "request list"

definition ui_Say :: "msg \<Rightarrow> StateBag \<Rightarrow> StateBag" where
  "ui_Say m s = s\<lparr>ui := ui s @ [Say m]\<rparr>"

definition ui_Error :: "msg \<Rightarrow> StateBag \<Rightarrow> StateBag" where
  "ui_Error m s = s\<lparr>ui := ui s @ [Error m]\<rparr>"

definition ui_Message :: "msg \<Rightarrow> StateBag \<Rightarrow> StateBag" where
  "ui_Message m s = s\<lparr>ui := ui s @ [Message m]\<rparr>"

definition Put_error :: "error \<Rightarrow> StateBag \<Rightarrow> StateBag" where
  "Put_error e s = s\<lparr>error := Some e\<rparr>"

definition remote_call :: "request \<Rightarrow> StateBag \<Rightarrow> StateBag" where
  "remote_call r s = s\<lparr>requests := requests s @ [r]\<rparr>"

text \<open>
  The outside world of one run: what each remote call answers (\<open>Inl\<close> the error), what
  the two steps of the plugin SDK do, the clock, and the scheduler. A call made in a
  polling loop is answered by the number of the tick it is made at, counted from 0, so
  that every sequence of answers is some world. \<open>select_ticks env timeout interval\<close> is
  the number of times a loop's \<^verbatim>\<open>select\<close> takes the ticker before it takes the deadline:
  a natural number, since the deadline is finite and the ticks are \<open>interval\<close> apart.
\<close>

record 's Env =
  url_Parse :: "string \<Rightarrow> (string \<times> string) option"
  url_String :: "string \<times> string \<Rightarrow> string"
  select_ticks :: "int \<Rightarrow> int \<Rightarrow> nat"
  time_Now_RFC3339 :: string
  GetCurrentUser_resp :: "error option"
  Subscribe_resp :: "error option"
  GetLabels_resp :: "string \<Rightarrow> string \<Rightarrow> error + Label list"
  CreateApplication_resp :: "Application \<Rightarrow> error + Application"
  GetApplicationState_resp :: "nat \<Rightarrow> string \<Rightarrow> error + 's ApplicationState"
  GetApplicationResource_resp :: "nat \<Rightarrow> string \<Rightarrow> error + ApplicationResource option"
  GetApplicationResourceAccess_resp ::
    "nat \<Rightarrow> string \<Rightarrow> error + ApplicationResourceAccess option"
  CreateApplicationTask_resp :: "ApplicationTask \<Rightarrow> error + ApplicationTask"
  GetApplicationTask_resp :: "nat \<Rightarrow> string \<Rightarrow> error + ApplicationTask"
  DeallocateApplication_resp :: "string \<Rightarrow> error option"
  Cleanup_GetApplicationState_resp :: "nat \<Rightarrow> string \<Rightarrow> error + string ApplicationState"
  StepConnectSSH_resp :: "error option"
  StepProvision_resp :: "StepAction \<times> error option"

section \<open>The polling loop\<close>

text \<open>
  Every polling loop of the builder has the shape
  \<^verbatim>\<open>for { select { case <-timeoutCtx.Done(): ...return; case <-ticker.C: ... } }\<close>.
  One pass of the ticker branch either returns from the function (\<open>Return\<close>) or goes
  round again (\<open>Again\<close>: a \<^verbatim>\<open>continue\<close>, or the end of the branch) with the loop's local
  variables \<open>'l\<close>. \<open>poll_loop on_tick on_done n k l s\<close> runs the loop in a world where the
  ticker is taken \<open>n\<close> more times before the deadline is; \<open>k\<close> counts the ticks taken.
\<close>

datatype ('l, 'r) iteration = Again 'l StateBag | Return 'r

fun poll_loop ::
  "(nat \<Rightarrow> 'l \<Rightarrow> StateBag \<Rightarrow> ('l, 'r) iteration) \<Rightarrow> (StateBag \<Rightarrow> 'r) \<Rightarrow>
   nat \<Rightarrow> nat \<Rightarrow> 'l \<Rightarrow> StateBag \<Rightarrow> 'r" where
  "poll_loop on_tick on_done 0 k l s = on_done s"
| "poll_loop on_tick on_done (Suc n) k l s =
     (case on_tick k l s of
        Again l' s' \<Rightarrow> poll_loop on_tick on_done n (Suc k) l' s'
      | Return r \<Rightarrow> r)"

section \<open>Find-Template: \<^verbatim>\<open>StepFindLabel\<close>\<close>

text \<open>
  The loop over the labels when no version is configured (step_find_label.go):
  \<open>maxVersion\<close> starts at \<open>-1\<close>, and a label replaces the selected one only when its
  version is greater. \<open>i\<close> is the index of \<open>label\<close> in the slice, since the code keeps
  the address \<^verbatim>\<open>&labels[i]\<close>.
\<close>

fun find_latest :: "Label list \<Rightarrow> nat \<Rightarrow> int \<Rightarrow> nat option \<Rightarrow> nat option" where
  "find_latest [] i maxVersion selectedLabel = selectedLabel"
| "find_latest (label # labels) i maxVersion selectedLabel =
     (if Label_Version label > maxVersion
      then find_latest labels (Suc i) (Label_Version label) (Some i)
      else find_latest labels (Suc i) maxVersion selectedLabel)"

text \<open>The loop when a version is configured: the first label of that version.\<close>

fun find_version :: "Label list \<Rightarrow> nat \<Rightarrow> int \<Rightarrow> nat option" where
  "find_version [] i requestedVersion = None"
| "find_version (label # labels) i requestedVersion =
     (if Label_Version label = requestedVersion then Some i
      else find_version labels (Suc i) requestedVersion)"

text \<open>From the check of \<^verbatim>\<open>selectedLabel == nil\<close> after the two branches to the end.\<close>

definition StepFindLabel_store :: "Label list \<Rightarrow> nat option \<Rightarrow> StateBag \<Rightarrow> StepAction \<times> StateBag" where
  "StepFindLabel_store labels selectedLabel s =
     (case selectedLabel of
        None \<Rightarrow>
          (ActionHalt,
           Put_error (Errorf ''no suitable label found'' [])
             (ui_Error (Sprintf (''No suitable label found for '%s'' @ [CHR 0x27])
                [ArgS (LabelName (config s))]) s))
      | Some i \<Rightarrow>
          let label = labels ! i;
              s = ui_Say (Sprintf ''Found label '%s' version %d (UID: %s)''
                    [ArgS (Label_Name label), ArgD (Label_Version label), ArgS (Label_UID label)]) s
          in if length (Label_Definitions label) = 0
             then (ActionHalt,
                   Put_error (Errorf ''label has no definitions'' [])
                     (ui_Error (Plain ''Selected label has no definitions'') s))
             else (ActionContinue,
                   (ui_Say (Sprintf ''Label has %d definition(s) available''
                      [ArgD (int (length (Label_Definitions label)))]) s)
                   \<lparr>selected_label := Some label\<rparr>))"

text \<open>The choice between the two branches, for a slice of labels that is not empty.\<close>

definition StepFindLabel_select :: "Label list \<Rightarrow> StateBag \<Rightarrow> StepAction \<times> StateBag" where
  "StepFindLabel_select labels s =
     (if LabelVersion (config s) = []
      then StepFindLabel_store labels (find_latest labels 0 (- 1) None) s
      else (case Atoi (LabelVersion (config s)) of
              Inl err \<Rightarrow>
                (ActionHalt,
                 Put_error (Errorf ''invalid version format: %v'' [ArgV err])
                   (ui_Error (Sprintf ''Invalid version format '%s': %v''
                      [ArgS (LabelVersion (config s)), ArgV err]) s))
            | Inr requestedVersion \<Rightarrow>
                (case find_version labels 0 requestedVersion of
                   None \<Rightarrow>
                     (ActionHalt,
                      Put_error (Errorf ''label version not found'' [])
                        (ui_Error (Sprintf ''Label '%s' version %d not found''
                           [ArgS (LabelName (config s)), ArgD requestedVersion]) s))
                 | Some i \<Rightarrow> StepFindLabel_store labels (Some i) s)))"

text \<open>
  \<^verbatim>\<open>StepFindLabel.Run\<close>. \<open>None\<close> is the panic of the type assertion on a bag that has no
  \<^verbatim>\<open>api_client\<close>.
\<close>

definition StepFindLabel_Run :: "'s Env \<Rightarrow> StateBag \<Rightarrow> (StepAction \<times> StateBag) option" where
  "StepFindLabel_Run env s0 =
     (case api_client s0 of
        None \<Rightarrow> None
      | Some client \<Rightarrow>
          Some
           (let cfg = config s0;
                s = ui_Say (Sprintf ''Looking for label '%s'...'' [ArgS (LabelName cfg)]) s0;
                version = (if LabelVersion cfg \<noteq> [] then LabelVersion cfg else ''last'');
                s = (if LabelVersion cfg \<noteq> []
                     then ui_Say (Sprintf ''Searching for specific version: %s'' [ArgS version]) s
                     else ui_Say (Plain ''No version specified, will use the latest version'') s);
                s = remote_call (GetLabels (LabelName cfg) version) s
            in case GetLabels_resp env (LabelName cfg) version of
                 Inl err \<Rightarrow>
                   (ActionHalt,
                    Put_error (Errorf ''label retrieval failed: %v'' [ArgV err])
                      (ui_Error (Sprintf ''Failed to retrieve labels: %v'' [ArgV err]) s))
               | Inr labels \<Rightarrow>
                   if length labels = 0
                   then (ActionHalt,
                         Put_error (Errorf ''label not found: %s'' [ArgS (LabelName cfg)])
                           (ui_Error (Sprintf (''No labels found with name '%s'' @ [CHR 0x27])
                              [ArgS (LabelName cfg)]) s))
                   else StepFindLabel_select labels s))"

section \<open>Connect: \<^verbatim>\<open>StepConnectAPI\<close>\<close>

definition TrimSuffix :: "string \<Rightarrow> string \<Rightarrow> string" where
  "TrimSuffix s suffix =
     (if length suffix \<le> length s \<and> drop (length s - length suffix) s = suffix
      then take (length s - length suffix) s else s)"

text \<open>
  \<^verbatim>\<open>NewAPIClient\<close> (api_client.go). The client keeps the credentials it puts into the
  \<^verbatim>\<open>Authorization\<close> header of every request.
\<close>

definition NewAPIClient :: "string \<Rightarrow> string \<Rightarrow> string \<Rightarrow> APIClient" where
  "NewAPIClient baseURL username password =
     \<lparr>BaseURL = TrimSuffix baseURL ''/'', Client_Username = username,
      Client_Password = password\<rparr>"

text \<open>
  \<^verbatim>\<open>StepConnectAPI.Run\<close> (step_connect_api.go). A parsed URL is a pair of everything but
  its path, and its path. The code drops the error of \<^verbatim>\<open>url.Parse\<close> and reads the path of
  the result, which is nil after an error: the panic is \<open>None\<close>.
\<close>

definition StepConnectAPI_Run :: "'s Env \<Rightarrow> StateBag \<Rightarrow> (StepAction \<times> StateBag) option" where
  "StepConnectAPI_Run env s0 =
     (let cfg = config s0;
          s = ui_Say (Plain ''Connecting to AquariumFish API...'') s0
      in case url_Parse env (Endpoint cfg) of
           None \<Rightarrow> None
         | Some (rest, path) \<Rightarrow>
             Some
              (let endpointURL = (rest, if path = [] then ''grpc'' else path);
                   client = NewAPIClient (url_String env endpointURL) (Username cfg) (Password cfg);
                   s = remote_call GetCurrentUser s
               in case GetCurrentUser_resp env of
                    Some err \<Rightarrow>
                      (ActionHalt,
                       Put_error (Errorf ''API connection failed: %v'' [ArgV err])
                         (ui_Error (Sprintf ''Failed to connect to AquariumFish API: %v''
                            [ArgV err]) s))
                  | None \<Rightarrow>
                      let s = ui_Say (Plain ''Successfully connected to AquariumFish API'') s;
                          s = s\<lparr>api_client := Some client\<rparr>;
                          s = remote_call Subscribe s;
                          s = (case Subscribe_resp env of
                                 None \<Rightarrow> s\<lparr>subscribe_stream := Some ()\<rparr>
                               | Some err \<Rightarrow> s)
                      in (ActionContinue, s)))"

section \<open>Create-Allocation: \<^verbatim>\<open>StepCreateApplication\<close>\<close>

text \<open>
  The metadata of the application: the user's entries first, then the three entries of
  the builder. \<open>now\<close> is \<^verbatim>\<open>time.Now().Format(time.RFC3339)\<close>.
\<close>

definition StepCreateApplication_metadata :: "Config \<Rightarrow> string \<Rightarrow> (string \<rightharpoonup> anyval)" where
  "StepCreateApplication_metadata cfg now =
     (let metadata = Map.empty;
          metadata = (case ApplicationMetadata cfg of
                        None \<Rightarrow> metadata
                      | Some user \<Rightarrow> metadata ++ user);
          metadata = metadata(''PACKER_BUILD'' \<mapsto> AString ''true'');
          metadata = metadata(''PACKER_BUILDER'' \<mapsto> AString ''aquarium'');
          metadata = metadata(''PACKER_BUILD_TIME'' \<mapsto> AString now)
      in metadata)"

text \<open>
  \<^verbatim>\<open>StepCreateApplication.Run\<close>. \<^verbatim>\<open>structpb.NewStruct\<close> keeps the map as it is: it fails only
  on a value of a type that \<open>anyval\<close> does not have.
\<close>

definition StepCreateApplication_Run ::
  "'s Env \<Rightarrow> StateBag \<Rightarrow> (StepAction \<times> StateBag) option" where
  "StepCreateApplication_Run env s0 =
     (case api_client s0 of
        None \<Rightarrow> None
      | Some client \<Rightarrow>
          (case selected_label s0 of
             None \<Rightarrow> None
           | Some selectedLabel \<Rightarrow>
               Some
                (let s = ui_Say (Plain ''Creating application...'') s0;
                     metadata = StepCreateApplication_metadata (config s0) (time_Now_RFC3339 env);
                     app = \<lparr>App_UID = [], App_LabelUID = Label_UID selectedLabel,
                            App_Metadata = metadata\<rparr>;
                     s = remote_call (CreateApplication app) s
                 in case CreateApplication_resp env app of
                      Inl err \<Rightarrow>
                        (ActionHalt,
                         Put_error (Errorf ''application creation failed: %v'' [ArgV err])
                           (ui_Error (Sprintf ''Failed to create application: %v'' [ArgV err]) s))
                    | Inr createdApp \<Rightarrow>
                        let s = ui_Say (Sprintf ''Application created successfully (UID: %s)''
                                  [ArgS (App_UID createdApp)]) s;
                            s = s\<lparr>application := Some createdApp\<rparr>;
                            generatedData = generated_data s;
                            generatedData =
                              generatedData(''ApplicationUID'' \<mapsto> AString (App_UID createdApp));
                            s = s\<lparr>generated_data := generatedData\<rparr>
                        in (ActionContinue, s))))"

section \<open>Wait-For-Ready: \<^verbatim>\<open>StepWaitForAllocation\<close>\<close>

text \<open>The deadline branch of the loop, the same in both versions of the step.\<close>

definition StepWaitForAllocation_timeout :: "StateBag \<Rightarrow> StepAction \<times> StateBag" where
  "StepWaitForAllocation_timeout s =
     (ActionHalt,
      Put_error (Errorf ''allocation timeout'' [])
        (ui_Error (Sprintf ''Allocation timeout reached (%s)''
           [ArgS (AllocationTimeout (config s))]) s))"

text \<open>
  The \<^verbatim>\<open>ALLOCATED\<close> case of the switch, the same in both versions: fetch the resource; a
  nil resource without an error goes round again.
\<close>

definition StepWaitForAllocation_allocated ::
  "'s Env \<Rightarrow> Application \<Rightarrow> nat \<Rightarrow> 'l \<Rightarrow> StateBag \<Rightarrow> ('l, StepAction \<times> StateBag) iteration" where
  "StepWaitForAllocation_allocated env app k lastStatus s0 =
     (let s = ui_Say (Plain ''Application has been allocated successfully!'') s0;
          s = remote_call (GetApplicationResource (App_UID app)) s
      in case GetApplicationResource_resp env k (App_UID app) of
           Inl err \<Rightarrow>
             Return (ActionHalt,
               Put_error (Errorf ''failed to get application resource: %v'' [ArgV err])
                 (ui_Error (Sprintf ''Failed to get application resource: %v'' [ArgV err]) s))
         | Inr None \<Rightarrow>
             Again lastStatus
               (ui_Say (Plain ''Application resource not ready yet, continuing to wait...'') s)
         | Inr (Some resource) \<Rightarrow>
             let s = ui_Say (Sprintf ''Application resource ready (UID: %s, IP: %s)''
                       [ArgS (Res_UID resource), ArgS (Res_IPAddr resource)]) s;
                 s = s\<lparr>application_resource := Some resource\<rparr>;
                 generatedData = generated_data s;
                 generatedData = generatedData(''ResourceUID'' \<mapsto> AString (Res_UID resource));
                 s = s\<lparr>generated_data := generatedData\<rparr>
             in Return (ActionContinue, s))"

text \<open>
  The ticker branch of step_wait_for_allocation.go, on the RPC client: the status is a
  member of the enumeration, and \<^verbatim>\<open>RECALLED\<close> has no case of its own.
\<close>

definition StepWaitForAllocation_tick ::
  "ApplicationState_Status Env \<Rightarrow> Application \<Rightarrow> nat \<Rightarrow> ApplicationState_Status \<Rightarrow> StateBag \<Rightarrow>
   (ApplicationState_Status, StepAction \<times> StateBag) iteration" where
  "StepWaitForAllocation_tick env app k lastStatus s0 =
     (let s = remote_call (GetApplicationState (App_UID app)) s0
      in case GetApplicationState_resp env k (App_UID app) of
           Inl err \<Rightarrow>
             Return (ActionHalt,
               Put_error (Errorf ''failed to get application state: %v'' [ArgV err])
                 (ui_Error (Sprintf ''Failed to get application state: %v'' [ArgV err]) s))
         | Inr appState \<Rightarrow>
             let changed = (Status appState \<noteq> lastStatus);
                 s = (if changed
                      then ui_Say (Sprintf ''Application status: %s - %s''
                             [ArgS (Status_String (Status appState)),
                              ArgS (Description appState)]) s
                      else s);
                 lastStatus = (if changed then Status appState else lastStatus)
             in if Status appState = ApplicationState_ALLOCATED
                then StepWaitForAllocation_allocated env app k lastStatus s
                else if Status appState = ApplicationState_ERROR
                      \<or> Status appState = ApplicationState_DEALLOCATED
                      \<or> Status appState = ApplicationState_DEALLOCATE
                then Return (ActionHalt,
                       Put_error (Errorf ''application failed: %s''
                                    [ArgS (Status_String (Status appState))])
                         (ui_Error (Sprintf ''Application failed with status: %s - %s''
                            [ArgS (Status_String (Status appState)),
                             ArgS (Description appState)]) s))
                else if Status appState = ApplicationState_NEW
                      \<or> Status appState = ApplicationState_ELECTED
                then Again lastStatus s
                else Again lastStatus
                       (ui_Say (Sprintf ''Unknown application status: %s''
                          [ArgS (Status_String (Status appState))]) s))"

text \<open>
  \<^verbatim>\<open>StepWaitForAllocation.Run\<close> of step_wait_for_allocation.go. The ticker has a period of
  five seconds, the deadline is the configured allocation timeout; \<open>lastStatus\<close> starts
  as the zero value of its type.
\<close>

definition StepWaitForAllocation_Run ::
  "ApplicationState_Status Env \<Rightarrow> StateBag \<Rightarrow> (StepAction \<times> StateBag) option" where
  "StepWaitForAllocation_Run env s0 =
     (case api_client s0 of
        None \<Rightarrow> None
      | Some client \<Rightarrow>
          (case application s0 of
             None \<Rightarrow> None
           | Some app \<Rightarrow>
               Some
                (let s = ui_Say (Plain ''Waiting for application to be allocated...'') s0
                 in poll_loop (StepWaitForAllocation_tick env app)
                      StepWaitForAllocation_timeout
                      (select_ticks env (allocationTimeoutDuration (config s0)) (5 * Second))
                      0 (UNRECOGNIZED 0) s)))"

text \<open>
  The ticker branch of the other version of the step (on the REST client), where the
  status is a string: here \<^verbatim>\<open>"RECALLED"\<close> fails and \<^verbatim>\<open>"DEALLOCATE"\<close> waits.
\<close>

definition StepWaitForAllocation_REST_tick ::
  "string Env \<Rightarrow> Application \<Rightarrow> nat \<Rightarrow> string \<Rightarrow> StateBag \<Rightarrow>
   (string, StepAction \<times> StateBag) iteration" where
  "StepWaitForAllocation_REST_tick env app k lastStatus s0 =
     (let s = remote_call (GetApplicationState (App_UID app)) s0
      in case GetApplicationState_resp env k (App_UID app) of
           Inl err \<Rightarrow>
             Return (ActionHalt,
               Put_error (Errorf ''failed to get application state: %v'' [ArgV err])
                 (ui_Error (Sprintf ''Failed to get application state: %v'' [ArgV err]) s))
         | Inr appState \<Rightarrow>
             let changed = (Status appState \<noteq> lastStatus);
                 s = (if changed
                      then ui_Say (Sprintf ''Application status: %s - %s''
                             [ArgS (Status appState), ArgS (Description appState)]) s
                      else s);
                 lastStatus = (if changed then Status appState else lastStatus)
             in if Status appState = ''ALLOCATED''
                then StepWaitForAllocation_allocated env app k lastStatus s
                else if Status appState = ''ERROR''
                      \<or> Status appState = ''DEALLOCATED''
                      \<or> Status appState = ''RECALLED''
                then Return (ActionHalt,
                       Put_error (Errorf ''application failed: %s'' [ArgS (Status appState)])
                         (ui_Error (Sprintf ''Application failed with status: %s - %s''
                            [ArgS (Status appState), ArgS (Description appState)]) s))
                else if Status appState = ''NEW''
                      \<or> Status appState = ''ELECTED''
                      \<or> Status appState = ''DEALLOCATE''
                then Again lastStatus s
                else Again lastStatus
                       (ui_Say (Sprintf ''Unknown application status: %s''
                          [ArgS (Status appState)]) s))"

definition StepWaitForAllocation_REST_Run ::
  "string Env \<Rightarrow> StateBag \<Rightarrow> (StepAction \<times> StateBag) option" where
  "StepWaitForAllocation_REST_Run env s0 =
     (case api_client s0 of
        None \<Rightarrow> None
      | Some client \<Rightarrow>
          (case application s0 of
             None \<Rightarrow> None
           | Some app \<Rightarrow>
               Some
                (let s = ui_Say (Plain ''Waiting for application to be allocated...'') s0
                 in poll_loop (StepWaitForAllocation_REST_tick env app)
                      StepWaitForAllocation_timeout
                      (select_ticks env (allocationTimeoutDuration (config s0)) (5 * Second))
                      0 [] s)))"

section \<open>Setup-Remote-Access: \<^verbatim>\<open>StepSetupSSH\<close>\<close>

text \<open>
  The getters of the generated message \<^verbatim>\<open>GateProxySSHAccess\<close>: on a nil message each
  returns the empty string.
\<close>

definition GetAddress :: "ApplicationResourceAccess option \<Rightarrow> string" where
  "GetAddress access = (case access of None \<Rightarrow> [] | Some a \<Rightarrow> Acc_Address a)"

definition GetUsername :: "ApplicationResourceAccess option \<Rightarrow> string" where
  "GetUsername access = (case access of None \<Rightarrow> [] | Some a \<Rightarrow> Acc_Username a)"

definition GetPassword :: "ApplicationResourceAccess option \<Rightarrow> string" where
  "GetPassword access = (case access of None \<Rightarrow> [] | Some a \<Rightarrow> Acc_Password a)"

definition GetKey :: "ApplicationResourceAccess option \<Rightarrow> string" where
  "GetKey access = (case access of None \<Rightarrow> [] | Some a \<Rightarrow> Acc_Key a)"

definition update_Communicator ::
  "(CommunicatorConfig \<Rightarrow> CommunicatorConfig) \<Rightarrow> StateBag \<Rightarrow> StateBag" where
  "update_Communicator f s = s\<lparr>config := (config s)\<lparr>Communicator := f (Communicator (config s))\<rparr>\<rparr>"

text \<open>
  Parsing the address, with the fall-back to the host and port of the communicator's
  configuration; the same lines in every version of the step.
\<close>

definition StepSetupSSH_address :: "string \<Rightarrow> StateBag \<Rightarrow> (string \<times> int) \<times> StateBag" where
  "StepSetupSSH_address address s =
     (case ParseSSHAddress address of
        Inr (sshHost, sshPort) \<Rightarrow> ((sshHost, sshPort), s)
      | Inl err \<Rightarrow>
          let s = ui_Say (Sprintf ''Unable to parse SSH address in response %q: %v''
                    [ArgQ address, ArgV err]) s;
              sshHost = SSHHost (Communicator (config s));
              sshPort = SSHPort (Communicator (config s));
              s = ui_Say (Sprintf ''Falling back to communicator defaults: %s:%d''
                    [ArgS sshHost, ArgD sshPort]) s
          in ((sshHost, sshPort), s))"

text \<open>Publishing host and port into the generated data, the same in every version.\<close>

definition StepSetupSSH_generated :: "string \<Rightarrow> int \<Rightarrow> StateBag \<Rightarrow> StateBag" where
  "StepSetupSSH_generated sshHost sshPort s =
     (let generatedData = generated_data s;
          generatedData = generatedData(''SSHHost'' \<mapsto> AString sshHost);
          generatedData = generatedData(''SSHPort'' \<mapsto> AString (Itoa sshPort))
      in s\<lparr>generated_data := generatedData\<rparr>)"

text \<open>
  The block "Configure SSH settings based on what's available" of step_setup_ssh.go: the
  credentials of the answer go into the communicator's configuration.
\<close>

definition StepSetupSSH_credentials ::
  "ApplicationResourceAccess option \<Rightarrow> string \<Rightarrow> int \<Rightarrow> StateBag \<Rightarrow> StateBag" where
  "StepSetupSSH_credentials access sshHost sshPort s0 =
     (let s = (if GetUsername access \<noteq> []
               then ui_Say (Sprintf ''SSH username: %s'' [ArgS (GetUsername access)])
                      (update_Communicator (\<lambda>c. c\<lparr>SSHUsername := GetUsername access\<rparr>) s0)
               else s0);
          s = (if GetPassword access \<noteq> []
               then ui_Say (Sprintf ''You can connect to the Resource by: ssh -p %d %s@%s''
                      [ArgD sshPort, ArgS (GetUsername access), ArgS sshHost])
                     (ui_Say (Sprintf ''SSH password provided: %s'' [ArgS (GetPassword access)])
                        (update_Communicator (\<lambda>c. c\<lparr>SSHPassword := GetPassword access\<rparr>) s))
               else s);
          s = (if GetKey access \<noteq> []
               then ui_Say (Plain ''SSH private key provided'')
                      (update_Communicator (\<lambda>c. c\<lparr>SSHPrivateKey := GetKey access\<rparr>) s)
               else s)
      in s)"

text \<open>The same block in the version of the step on the REST client.\<close>

definition StepSetupSSH_REST_credentials :: "ApplicationResourceAccess \<Rightarrow> StateBag \<Rightarrow> StateBag" where
  "StepSetupSSH_REST_credentials access s0 =
     (let s = (if Acc_Username access \<noteq> []
               then ui_Say (Sprintf ''SSH username: %s'' [ArgS (Acc_Username access)])
                      (update_Communicator (\<lambda>c. c\<lparr>SSHUsername := Acc_Username access\<rparr>) s0)
               else s0);
          s = (if Acc_Password access \<noteq> []
               then ui_Say (Plain ''SSH password provided'')
                      (update_Communicator (\<lambda>c. c\<lparr>SSHPassword := Acc_Password access\<rparr>) s)
               else s);
          s = (if Acc_Key access \<noteq> []
               then ui_Say (Plain ''SSH private key provided'')
                      (update_Communicator (\<lambda>c. c\<lparr>SSHPrivateKey := Acc_Key access\<rparr>) s)
               else s)
      in s)"

text \<open>
  \<^verbatim>\<open>StepSetupSSH.Run\<close> of step_setup_ssh.go, on the RPC client: one request, no loop. The
  answer may be a nil message without an error; the getters read it as empty strings.
\<close>

definition StepSetupSSH_Run :: "'s Env \<Rightarrow> StateBag \<Rightarrow> (StepAction \<times> StateBag) option" where
  "StepSetupSSH_Run env s0 =
     (case api_client s0 of
        None \<Rightarrow> None
      | Some client \<Rightarrow>
          (case application_resource s0 of
             None \<Rightarrow> None
           | Some resource \<Rightarrow>
               Some
                (let s = ui_Say (Plain ''Setting up SSH connectivity...'') s0;
                     s = remote_call (GetApplicationResourceAccess (Res_UID resource)) s
                 in case GetApplicationResourceAccess_resp env 0 (Res_UID resource) of
                      Inl err \<Rightarrow>
                        (ActionHalt,
                         Put_error (Errorf ''failed to get SSH access: %v'' [ArgV err])
                           (ui_Error (Sprintf ''Failed to get SSH access credentials: %v''
                              [ArgV err]) s))
                    | Inr access \<Rightarrow>
                        let s = ui_Say (Plain ''SSH access credentials retrieved successfully'') s;
                            ((sshHost, sshPort), s) = StepSetupSSH_address (GetAddress access) s;
                            s = ui_Say (Sprintf ''SSH endpoint: %s:%d''
                                  [ArgS sshHost, ArgD sshPort]) s;
                            s = StepSetupSSH_credentials access sshHost sshPort s;
                            s = update_Communicator (\<lambda>c. c\<lparr>SSHPort := sshPort\<rparr>) s;
                            s = s\<lparr>ssh_host := Some sshHost\<rparr>;
                            s = s\<lparr>ssh_port := Some sshPort\<rparr>;
                            s = s\<lparr>ssh_username := Some (GetUsername access)\<rparr>;
                            s = s\<lparr>ssh_access := Some access\<rparr>;
                            s = StepSetupSSH_generated sshHost sshPort s;
                            s = ui_Say (Plain ''SSH connectivity setup completed successfully'') s
                        in (ActionContinue, s))))"

text \<open>
  The same step on the REST client (the first of the two other versions): one request,
  no loop. The client answers a missing access with a nil pointer and no error, and
  the step reads the address through it: the panic is \<open>None\<close>.
\<close>

definition StepSetupSSH_REST_Run :: "'s Env \<Rightarrow> StateBag \<Rightarrow> (StepAction \<times> StateBag) option" where
  "StepSetupSSH_REST_Run env s0 =
     (case api_client s0 of
        None \<Rightarrow> None
      | Some client \<Rightarrow>
          (case application_resource s0 of
             None \<Rightarrow> None
           | Some resource \<Rightarrow>
               (let s = ui_Say (Plain ''Setting up SSH connectivity...'') s0;
                    s = remote_call (GetApplicationResourceAccess (Res_UID resource)) s
                in case GetApplicationResourceAccess_resp env 0 (Res_UID resource) of
                     Inl err \<Rightarrow>
                       Some (ActionHalt,
                         Put_error (Errorf ''failed to get SSH access: %v'' [ArgV err])
                           (ui_Error (Sprintf ''Failed to get SSH access credentials: %v''
                              [ArgV err]) s))
                   | Inr None \<Rightarrow> None
                   | Inr (Some access) \<Rightarrow>
                       let s = ui_Say (Plain ''SSH access credentials retrieved successfully'') s;
                           ((sshHost, sshPort), s) = StepSetupSSH_address (Acc_Address access) s;
                           s = ui_Say (Sprintf ''SSH endpoint: %s:%d''
                                 [ArgS sshHost, ArgD sshPort]) s;
                           s = StepSetupSSH_REST_credentials access s;
                           s = update_Communicator (\<lambda>c. c\<lparr>SSHPort := sshPort\<rparr>) s;
                           s = s\<lparr>ssh_host := Some sshHost\<rparr>;
                           s = s\<lparr>ssh_port := Some sshPort\<rparr>;
                           s = s\<lparr>ssh_username := Some (Acc_Username access)\<rparr>;
                           s = s\<lparr>ssh_access := Some (Some access)\<rparr>;
                           s = StepSetupSSH_generated sshHost sshPort s;
                           s = ui_Say (Plain ''SSH connectivity setup completed successfully'') s
                       in Some (ActionContinue, s))))"

text \<open>
  The polling version of the step (the second of the two other versions, on the REST
  client). The loop's local variable is \<open>retryCount\<close>; \<open>maxRetries\<close> is read from the
  configuration before the loop.
\<close>

definition StepSetupSSH_polling_timeout :: "StateBag \<Rightarrow> StepAction \<times> StateBag" where
  "StepSetupSSH_polling_timeout s =
     (ActionHalt,
      Put_error (Errorf ''SSH access availability timeout'' [])
        (ui_Error (Sprintf ''SSH access availability timeout reached (%s)''
           [ArgS (ConnectionTimeout (config s))]) s))"

definition StepSetupSSH_polling_tick ::
  "'s Env \<Rightarrow> ApplicationResource \<Rightarrow> int \<Rightarrow> nat \<Rightarrow> int \<Rightarrow> StateBag \<Rightarrow>
   (int, StepAction \<times> StateBag) iteration" where
  "StepSetupSSH_polling_tick env resource maxRetries k retryCount0 s0 =
     (let retryCount = retryCount0 + 1
      in if retryCount > maxRetries
         then Return (ActionHalt,
                Put_error (Errorf ''SSH access availability retry limit exceeded'' [])
                  (ui_Error (Sprintf ''Maximum SSH access availability retries reached (%d)''
                     [ArgD maxRetries]) s0))
         else
           let s = ui_Say (Sprintf ''Checking SSH access availability (attempt %d/%d)...''
                     [ArgD retryCount, ArgD maxRetries]) s0;
               s = remote_call (GetApplicationResourceAccess (Res_UID resource)) s
           in case GetApplicationResourceAccess_resp env k (Res_UID resource) of
                Inl err \<Rightarrow>
                  Return (ActionHalt,
                    Put_error (Errorf ''failed to get SSH access credentials: %v'' [ArgV err])
                      (ui_Error (Sprintf ''Failed to get SSH access credentials: %v''
                         [ArgV err]) s))
              | Inr None \<Rightarrow>
                  Again retryCount (ui_Say (Plain ''SSH access not available yet, retrying...'') s)
              | Inr (Some access) \<Rightarrow>
                  let s = ui_Say (Plain ''SSH access is available'') s;
                      ((sshHost, sshPort), s) = StepSetupSSH_address (Acc_Address access) s;
                      s = ui_Say (Sprintf ''SSH endpoint: %s:%d'' [ArgS sshHost, ArgD sshPort]) s;
                      s = s\<lparr>ssh_host := Some sshHost\<rparr>;
                      s = s\<lparr>ssh_port := Some sshPort\<rparr>;
                      s = StepSetupSSH_generated sshHost sshPort s;
                      s = ui_Say (Plain ''SSH connectivity setup completed successfully'') s;
                      s = ui_Say (Plain
                            ''Note: SSH credentials will be fetched dynamically for each connection'')
                            s
                  in Return (ActionContinue, s))"

definition StepSetupSSH_polling_Run ::
  "'s Env \<Rightarrow> StateBag \<Rightarrow> (StepAction \<times> StateBag) option" where
  "StepSetupSSH_polling_Run env s0 =
     (case api_client s0 of
        None \<Rightarrow> None
      | Some client \<Rightarrow>
          (case application_resource s0 of
             None \<Rightarrow> None
           | Some resource \<Rightarrow>
               Some
                (let s = ui_Say (Plain ''Setting up SSH connectivity...'') s0;
                     retryCount = 0;
                     maxRetries = ConnectionRetries (config s0)
                 in poll_loop (StepSetupSSH_polling_tick env resource maxRetries)
                      StepSetupSSH_polling_timeout
                      (select_ticks env (connectionTimeoutDuration (config s0)) (10 * Second))
                      0 retryCount s)))"

section \<open>Create-Output-Artifact: \<^verbatim>\<open>StepCreateImage\<close>\<close>

text \<open>
  The classification of a result that is not empty (the two versions of the step differ
  only in the client they call). A value of the map equals \<^verbatim>\<open>"success"\<close> only when it is
  that string.
\<close>

definition StepCreateImage_result ::
  "ApplicationTask \<Rightarrow> (string \<rightharpoonup> anyval) \<Rightarrow> StateBag \<Rightarrow> (unit, StepAction \<times> StateBag) iteration" where
  "StepCreateImage_result currentTask result s0 =
     (let s = ui_Say (Plain ''Image creation completed!'') s0;
          lenient =
            (let s = ui_Say (Plain ''Image creation appears to have completed'') s;
                 s = s\<lparr>image_task := Some currentTask\<rparr>;
                 s = s\<lparr>image_results := Some result\<rparr>
             in Return (ActionContinue, s))
      in case result ''status'' of
           None \<Rightarrow> lenient
         | Some status \<Rightarrow>
             if status = AString ''success'' \<or> status = AString ''completed''
             then
               let s = ui_Say (Plain ''Image created successfully'') s;
                   s = (case result ''image'' of
                          None \<Rightarrow> s
                        | Some imageInfo \<Rightarrow>
                            ui_Say (Sprintf ''Image information: %v'' [ArgA imageInfo]) s);
                   s = (case result ''image_path'' of
                          None \<Rightarrow> s
                        | Some imagePath \<Rightarrow>
                            ui_Say (Sprintf ''Image path: %s'' [ArgA imagePath]) s);
                   s = s\<lparr>image_task := Some currentTask\<rparr>;
                   s = s\<lparr>image_results := Some result\<rparr>
               in Return (ActionContinue, s)
             else if status = AString ''failed'' \<or> status = AString ''error''
             then Return (ActionHalt,
                    Put_error (Errorf ''image creation failed'' [])
                      (ui_Error (Sprintf ''Image creation failed: %v''
                         [ArgM (Task_Result currentTask)]) s))
             else lenient)"

definition StepCreateImage_tick ::
  "'s Env \<Rightarrow> ApplicationTask \<Rightarrow> nat \<Rightarrow> unit \<Rightarrow> StateBag \<Rightarrow> (unit, StepAction \<times> StateBag) iteration" where
  "StepCreateImage_tick env createdTask k l s0 =
     (let s = remote_call (GetApplicationTask (Task_UID createdTask)) s0
      in case GetApplicationTask_resp env k (Task_UID createdTask) of
           Inl err \<Rightarrow>
             Return (ActionHalt,
               Put_error (Errorf ''failed to get task status: %v'' [ArgV err])
                 (ui_Error (Sprintf ''Failed to get task status: %v'' [ArgV err]) s))
         | Inr currentTask \<Rightarrow>
             (case Task_Result currentTask of
                None \<Rightarrow> Again () (ui_Message (Plain ''Image creation still in progress...'') s)
              | Some result \<Rightarrow>
                  if result \<noteq> Map.empty
                  then StepCreateImage_result currentTask result s
                  else Again () (ui_Message (Plain ''Image creation still in progress...'') s)))"

definition StepCreateImage_timeout :: "StateBag \<Rightarrow> StepAction \<times> StateBag" where
  "StepCreateImage_timeout s =
     (ActionHalt,
      Put_error (Errorf ''image creation timeout'' [])
        (ui_Error (Plain ''Image creation timeout reached'') s))"

definition StepCreateImage_Run :: "'s Env \<Rightarrow> StateBag \<Rightarrow> (StepAction \<times> StateBag) option" where
  "StepCreateImage_Run env s0 =
     (case api_client s0 of
        None \<Rightarrow> None
      | Some client \<Rightarrow>
          (case application s0 of
             None \<Rightarrow> None
           | Some app \<Rightarrow>
               Some
                (let s = ui_Say (Plain ''Creating image using TaskImage...'') s0;
                     imageTask = \<lparr>Task_UID = [], Task_ApplicationUID = App_UID app,
                                  Task_Task = ''TaskImage'', Task_When = ''DEALLOCATE'',
                                  Task_Options = Map.empty, Task_Result = None\<rparr>;
                     s = remote_call (CreateApplicationTask imageTask) s
                 in case CreateApplicationTask_resp env imageTask of
                      Inl err \<Rightarrow>
                        (ActionHalt,
                         Put_error (Errorf ''image task creation failed: %v'' [ArgV err])
                           (ui_Error (Sprintf ''Failed to create image task: %v'' [ArgV err]) s))
                    | Inr createdTask \<Rightarrow>
                        let s = ui_Say (Sprintf ''Image task created (UID: %s)''
                                  [ArgS (Task_UID createdTask)]) s;
                            s = ui_Say (Plain ''Waiting for image creation to complete...'') s
                        in poll_loop (StepCreateImage_tick env createdTask)
                             StepCreateImage_timeout
                             (select_ticks env (30 * Minute) (15 * Second)) 0 () s)))"

section \<open>Cleanup: \<^verbatim>\<open>StepCleanup\<close>\<close>

definition StepCleanup_Run :: "StateBag \<Rightarrow> (StepAction \<times> StateBag) option" where
  "StepCleanup_Run s = Some (ActionContinue, s)"

text \<open>The ticker branch of the wait for the deallocation (step_cleanup.go).\<close>

definition StepCleanup_tick ::
  "'s Env \<Rightarrow> Application \<Rightarrow> nat \<Rightarrow> unit \<Rightarrow> StateBag \<Rightarrow> (unit, StateBag) iteration" where
  "StepCleanup_tick env app k l s0 =
     (let s = remote_call (GetApplicationState (App_UID app)) s0
      in case Cleanup_GetApplicationState_resp env k (App_UID app) of
           Inl err \<Rightarrow>
             Return (ui_Say (Sprintf ''Could not check application state: %v'' [ArgV err]) s)
         | Inr appState \<Rightarrow>
             let s = ui_Say (Sprintf ''Application status: %s'' [ArgS (Status appState)]) s
             in if Status appState = ''DEALLOCATED'' \<or> Status appState = ''RECALLED''
                then Return (ui_Say (Plain ''Application successfully deallocated'') s)
                else if Status appState = ''ERROR''
                then Return (ui_Say (Sprintf
                       ''Application in error state during deallocation: %s''
                       [ArgS (Description appState)]) s)
                else Again () s)"

text \<open>
  \<^verbatim>\<open>StepCleanup.Cleanup\<close>: nothing to do without a client or without an application; else
  one deallocation request and, when it is accepted, the wait for it (after a sleep of
  five seconds, which changes nothing here). No path touches the \<^verbatim>\<open>error\<close> key.
\<close>

definition StepCleanup_Cleanup :: "'s Env \<Rightarrow> StateBag \<Rightarrow> StateBag" where
  "StepCleanup_Cleanup env s0 =
     (case api_client s0 of
        None \<Rightarrow> ui_Say (Plain ''No API client found, skipping cleanup'') s0
      | Some apiClient \<Rightarrow>
          (case application s0 of
             None \<Rightarrow> ui_Say (Plain ''No application found, skipping cleanup'') s0
           | Some app \<Rightarrow>
               let s = ui_Say (Plain ''Cleaning up AquariumFish resources...'') s0;
                   s = remote_call (DeallocateApplication (App_UID app)) s
               in case DeallocateApplication_resp env (App_UID app) of
                    Some err \<Rightarrow>
                      ui_Error (Sprintf ''Failed to deallocate application: %v'' [ArgV err]) s
                  | None \<Rightarrow>
                      let s = ui_Say (Sprintf ''Application %s deallocate request sent...''
                                [ArgS (App_UID app)]) s;
                          s = ui_Say (Plain ''Waiting for deallocation to complete...'') s
                      in poll_loop (StepCleanup_tick env app)
                           (ui_Say (Plain ''Deallocation timeout reached, but continuing...''))
                           (select_ticks env (2 * Minute) (10 * Second)) 0 () s))"

section \<open>The workflow: \<^verbatim>\<open>Builder.Run\<close>\<close>

text \<open>
  The steps in the order \<^verbatim>\<open>Builder.Run\<close> lists them. \<^verbatim>\<open>StepConnectSSH\<close> and
  \<^verbatim>\<open>StepProvision\<close> are steps of the plugin SDK.
\<close>

datatype Step =
    StepCleanup
  | StepConnectAPI
  | StepFindLabel
  | StepCreateApplication
  | StepWaitForAllocation
  | StepSetupSSH
  | StepConnectSSH
  | StepProvision
  | StepCreateImage

text \<open>
  The two steps of the SDK do what the world says: connecting the remote shell either
  succeeds or halts with an error; provisioning continues or halts, and may record an
  error. Neither touches another key the builder reads.
\<close>

definition StepConnectSSH_Run :: "'s Env \<Rightarrow> StateBag \<Rightarrow> (StepAction \<times> StateBag) option" where
  "StepConnectSSH_Run env s =
     (case StepConnectSSH_resp env of
        None \<Rightarrow> Some (ActionContinue, s)
      | Some err \<Rightarrow> Some (ActionHalt, Put_error err s))"

definition StepProvision_Run :: "'s Env \<Rightarrow> StateBag \<Rightarrow> (StepAction \<times> StateBag) option" where
  "StepProvision_Run env s =
     (case StepProvision_resp env of
        (action, None) \<Rightarrow> Some (action, s)
      | (action, Some err) \<Rightarrow> Some (action, Put_error err s))"

text \<open>
  The source has more than one version of \<^verbatim>\<open>StepWaitForAllocation\<close> and of
  \<^verbatim>\<open>StepSetupSSH\<close>; a build of the plugin has one of each.
\<close>

record 's versions =
  WaitForAllocation_Run :: "'s Env \<Rightarrow> StateBag \<Rightarrow> (StepAction \<times> StateBag) option"
  SetupSSH_Run :: "'s Env \<Rightarrow> StateBag \<Rightarrow> (StepAction \<times> StateBag) option"

fun Step_Run :: "'s versions \<Rightarrow> 's Env \<Rightarrow> Step \<Rightarrow> StateBag \<Rightarrow> (StepAction \<times> StateBag) option" where
  "Step_Run v env StepCleanup s = StepCleanup_Run s"
| "Step_Run v env StepConnectAPI s = StepConnectAPI_Run env s"
| "Step_Run v env StepFindLabel s = StepFindLabel_Run env s"
| "Step_Run v env StepCreateApplication s = StepCreateApplication_Run env s"
| "Step_Run v env StepWaitForAllocation s = WaitForAllocation_Run v env s"
| "Step_Run v env StepSetupSSH s = SetupSSH_Run v env s"
| "Step_Run v env StepConnectSSH s = StepConnectSSH_Run env s"
| "Step_Run v env StepProvision s = StepProvision_Run env s"
| "Step_Run v env StepCreateImage s = StepCreateImage_Run env s"

text \<open>Only \<^verbatim>\<open>StepCleanup\<close> has a \<^verbatim>\<open>Cleanup\<close> that does anything.\<close>

fun Step_Cleanup :: "'s Env \<Rightarrow> Step \<Rightarrow> StateBag \<Rightarrow> StateBag" where
  "Step_Cleanup env StepCleanup s = StepCleanup_Cleanup env s"
| "Step_Cleanup env step s = s"

text \<open>
  Modelled from the spec: the runner of the plugin SDK (\<^verbatim>\<open>commonsteps.NewRunner\<close>), which
  is not under src/. It runs the steps in order, stops going forward at the first step
  that halts, and then runs the cleanup of every step that ran, in reverse order. A
  panic of a step (\<open>None\<close>) ends the run.
\<close>

fun runner_Run ::
  "(Step \<Rightarrow> StateBag \<Rightarrow> (StepAction \<times> StateBag) option) \<Rightarrow> (Step \<Rightarrow> StateBag \<Rightarrow> StateBag) \<Rightarrow>
   Step list \<Rightarrow> StateBag \<Rightarrow> StateBag option" where
  "runner_Run run cleanup [] s = Some s"
| "runner_Run run cleanup (step # steps) s =
     (case run step s of
        None \<Rightarrow> None
      | Some (ActionHalt, s') \<Rightarrow> Some (cleanup step s')
      | Some (ActionContinue, s') \<Rightarrow> map_option (cleanup step) (runner_Run run cleanup steps s'))"

definition Builder_steps :: "Step list" where
  "Builder_steps =
     [StepCleanup, StepConnectAPI, StepFindLabel, StepCreateApplication,
      StepWaitForAllocation, StepSetupSSH, StepConnectSSH, StepProvision, StepCreateImage]"

definition new_StateBag :: "Config \<Rightarrow> StateBag" where
  "new_StateBag cfg =
     \<lparr>ui = [], config = cfg, generated_data = Map.empty, api_client = None,
      subscribe_stream = None, selected_label = None, application = None,
      application_resource = None, ssh_host = None, ssh_port = None, ssh_username = None,
      ssh_access = None, image_task = None, image_results = None, error = None,
      requests = []\<rparr>"

text \<open>The bag after \<^verbatim>\<open>b.runner.Run(ctx, state)\<close>.\<close>

definition Builder_state :: "'s versions \<Rightarrow> 's Env \<Rightarrow> Config \<Rightarrow> StateBag option" where
  "Builder_state v env cfg =
     runner_Run (Step_Run v env) (Step_Cleanup env) Builder_steps (new_StateBag cfg)"

record Artifact =
  StateData_generated_data :: "string \<rightharpoonup> anyval"

text \<open>
  \<^verbatim>\<open>Builder.Run\<close>: the error of the bag if there is one, else the artifact with the
  generated data.
\<close>

definition Builder_Run :: "'s versions \<Rightarrow> 's Env \<Rightarrow> Config \<Rightarrow> (error + Artifact) option" where
  "Builder_Run v env cfg =
     (case Builder_state v env cfg of
        None \<Rightarrow> None
      | Some state \<Rightarrow>
          (case error state of
             Some err \<Rightarrow> Some (Inl err)
           | None \<Rightarrow> Some (Inr \<lparr>StateData_generated_data = generated_data state\<rparr>)))"


section \<open>A concrete configuration and a concrete world\<close>

text \<open>
  The inputs the closed theorems below are evaluated at: three labels of one name with
  the versions 1, 3 and 2, and a world in which every call succeeds: the application is
  \<^verbatim>\<open>NEW\<close>, then \<^verbatim>\<open>ELECTED\<close>, then \<^verbatim>\<open>ALLOCATED\<close>; the image task has a result at its second
  poll; a loop's ticker is taken as often as its period fits into its timeout.
\<close>

definition example_labels :: "Label list" where
  "example_labels =
     [\<lparr>Label_UID = ''label-1'', Label_Name = ''ubuntu'', Label_Version = 1,
       Label_Definitions = [\<lparr>Driver = ''vmx''\<rparr>]\<rparr>,
      \<lparr>Label_UID = ''label-3'', Label_Name = ''ubuntu'', Label_Version = 3,
       Label_Definitions = [\<lparr>Driver = ''vmx''\<rparr>]\<rparr>,
      \<lparr>Label_UID = ''label-2'', Label_Name = ''ubuntu'', Label_Version = 2,
       Label_Definitions = [\<lparr>Driver = ''vmx''\<rparr>]\<rparr>]"

definition example_Config :: Config where
  "example_Config =
     \<lparr>Endpoint = ''https://fish.example:8001'', Username = ''packer'', Password = ''secret'',
      InsecureSkipTLSVerify = False, LabelName = ''ubuntu'', LabelVersion = [],
      ConnectionTimeout = ''30m'', ConnectionRetries = 60, AllocationTimeout = ''10m'',
      ApplicationMetadata =
        Some [''team'' \<mapsto> AString ''ci'', ''PACKER_BUILD'' \<mapsto> AString ''false''],
      Communicator =
        \<lparr>Comm_Type = ''ssh'', SSHHost = ''127.0.0.1'', SSHPort = 22, SSHUsername = [],
         SSHPassword = [], SSHPrivateKey = []\<rparr>,
      connectionTimeoutDuration = 30 * Minute, allocationTimeoutDuration = 10 * Minute\<rparr>"

definition example_access :: ApplicationResourceAccess where
  "example_access =
     \<lparr>Acc_Address = ''10.0.0.5:2222'', Acc_Username = ''packer'', Acc_Password = ''pw'',
      Acc_Key = []\<rparr>"

definition example_world :: "(nat \<Rightarrow> 's) \<Rightarrow> 's Env" where
  "example_world statuses =
     \<lparr>url_Parse = (\<lambda>u. Some (u, [])),
      url_String = (\<lambda>(rest, path). rest @ ''/'' @ path),
      select_ticks = (\<lambda>timeout interval. nat (timeout div interval)),
      time_Now_RFC3339 = ''2025-01-01T00:00:00Z'',
      GetCurrentUser_resp = None,
      Subscribe_resp = None,
      GetLabels_resp = (\<lambda>name version. Inr example_labels),
      CreateApplication_resp = (\<lambda>app. Inr (app\<lparr>App_UID := ''app-1''\<rparr>)),
      GetApplicationState_resp = (\<lambda>k uid. Inr \<lparr>Status = statuses k, Description = []\<rparr>),
      GetApplicationResource_resp =
        (\<lambda>k uid. Inr (Some \<lparr>Res_UID = ''res-1'', Res_IPAddr = ''10.0.0.5''\<rparr>)),
      GetApplicationResourceAccess_resp = (\<lambda>k uid. Inr (Some example_access)),
      CreateApplicationTask_resp = (\<lambda>task. Inr (task\<lparr>Task_UID := ''task-1''\<rparr>)),
      GetApplicationTask_resp =
        (\<lambda>k uid. Inr \<lparr>Task_UID = uid, Task_ApplicationUID = ''app-1'',
                       Task_Task = ''TaskImage'', Task_When = ''DEALLOCATE'',
                       Task_Options = Map.empty,
                       Task_Result = (if k = 0 then None
                                      else Some [''status'' \<mapsto> AString ''success''])\<rparr>),
      DeallocateApplication_resp = (\<lambda>uid. None),
      Cleanup_GetApplicationState_resp =
        (\<lambda>k uid. Inr \<lparr>Status = ''DEALLOCATED'', Description = []\<rparr>),
      StepConnectSSH_resp = None,
      StepProvision_resp = (ActionContinue, None)\<rparr>"

definition example_Env :: "ApplicationState_Status Env" where
  "example_Env =
     example_world (\<lambda>k. if k = 0 then ApplicationState_NEW
                         else if k = 1 then ApplicationState_ELECTED
                         else ApplicationState_ALLOCATED)"

definition example_REST_Env :: "string Env" where
  "example_REST_Env =
     example_world (\<lambda>k. if k = 0 then ''NEW'' else if k = 1 then ''ELECTED'' else ''ALLOCATED'')"

text \<open>The bag as the Connect step leaves it, and as the later steps leave it.\<close>

definition example_bag :: StateBag where
  "example_bag =
     (new_StateBag example_Config)
       \<lparr>api_client := Some (NewAPIClient ''https://fish.example:8001/grpc'' ''packer'' ''secret'')\<rparr>"

definition example_app :: Application where
  "example_app = \<lparr>App_UID = ''app-1'', App_LabelUID = ''label-3'', App_Metadata = Map.empty\<rparr>"

definition example_bag_allocated :: StateBag where
  "example_bag_allocated =
     example_bag
       \<lparr>application := Some example_app,
        application_resource := Some \<lparr>Res_UID = ''res-1'', Res_IPAddr = ''10.0.0.5''\<rparr>\<rparr>"

definition example_bag_version :: "string \<Rightarrow> StateBag" where
  "example_bag_version v = example_bag\<lparr>config := (config example_bag)\<lparr>LabelVersion := v\<rparr>\<rparr>"

definition example_access_unparsable :: ApplicationResourceAccess where
  "example_access_unparsable = example_access\<lparr>Acc_Address := ''not-an-address''\<rparr>"

definition example_Env_unparsable :: "ApplicationState_Status Env" where
  "example_Env_unparsable =
     example_Env\<lparr>GetApplicationResourceAccess_resp :=
       \<lambda>k uid. Inr (Some example_access_unparsable)\<rparr>"

definition example_task :: "(string \<rightharpoonup> anyval) \<Rightarrow> ApplicationTask" where
  "example_task result =
     \<lparr>Task_UID = ''task-1'', Task_ApplicationUID = ''app-1'', Task_Task = ''TaskImage'',
      Task_When = ''DEALLOCATE'', Task_Options = Map.empty, Task_Result = Some result\<rparr>"

definition example_Env_task :: "(string \<rightharpoonup> anyval) \<Rightarrow> ApplicationState_Status Env" where
  "example_Env_task result =
     example_Env\<lparr>GetApplicationTask_resp := \<lambda>k uid. Inr (example_task result)\<rparr>"


text \<open>What a pass of a ticker branch did: the action it returned, if it returned, and the
  bag it left.\<close>

fun iteration_action :: "('l, StepAction \<times> StateBag) iteration \<Rightarrow> StepAction option" where
  "iteration_action (Again l s) = None"
| "iteration_action (Return r) = Some (fst r)"

fun iteration_state :: "('l, StepAction \<times> StateBag) iteration \<Rightarrow> StateBag" where
  "iteration_state (Again l s) = s"
| "iteration_state (Return r) = snd r"

definition example_Env_no_access :: "ApplicationState_Status Env" where
  "example_Env_no_access =
     example_Env\<lparr>GetApplicationResourceAccess_resp := \<lambda>k uid. Inr None\<rparr>"

definition example_Env_access_late :: "ApplicationState_Status Env" where
  "example_Env_access_late =
     example_Env\<lparr>GetApplicationResourceAccess_resp :=
       \<lambda>k uid. if k = 0 then Inr None else Inr (Some example_access)\<rparr>"

definition example_Env_access_error :: "ApplicationState_Status Env" where
  "example_Env_access_error =
     example_Env\<lparr>GetApplicationResourceAccess_resp :=
       \<lambda>k uid. if k = 0 then Inr None else Inl (Remote ''unavailable'')\<rparr>"

definition example_bag_retries :: "int \<Rightarrow> StateBag" where
  "example_bag_retries r =
     example_bag_allocated\<lparr>config := (config example_bag_allocated)\<lparr>ConnectionRetries := r\<rparr>\<rparr>"

definition example_Env_no_labels :: "ApplicationState_Status Env" where
  "example_Env_no_labels = example_Env\<lparr>GetLabels_resp := \<lambda>name version. Inr []\<rparr>"

section \<open>Facts about the bag and the library functions\<close>

lemmas bag_defs = ui_Say_def ui_Error_def ui_Message_def Put_error_def remote_call_def


lemma poll_loop_unfold:
  "poll_loop on_tick on_done n k l s =
     (if n = 0 then on_done s
      else case on_tick k l s of
             Again l' s' \<Rightarrow> poll_loop on_tick on_done (n - 1) (Suc k) l' s'
           | Return r \<Rightarrow> r)"
  by (cases n) (simp_all split: iteration.splits)

lemmas example_defs = example_bag_def example_Env_def example_REST_Env_def example_world_def
  example_Config_def example_labels_def new_StateBag_def example_access_def example_app_def
  example_bag_allocated_def

lemmas Atoi_defs = Atoi_def is_digit_def digits_val_def digit_val_def

section \<open>Find-Template: the selection of the label\<close>

lemma find_latest_none:
  "\<forall>l\<in>set ls. Label_Version l \<le> m \<Longrightarrow> find_latest ls i m sel = sel"
  by (induction ls arbitrary: i) auto

lemma find_latest_some:
  "\<exists>l\<in>set ls. Label_Version l > m \<Longrightarrow>
   \<exists>j<length ls. find_latest ls i m sel = Some (i + j) \<and> m < Label_Version (ls ! j) \<and>
     (\<forall>l\<in>set ls. Label_Version l \<le> Label_Version (ls ! j)) \<and>
     (\<forall>j'<j. Label_Version (ls ! j') < Label_Version (ls ! j))"
proof (induction ls arbitrary: i m sel)
  case Nil
  then show ?case by simp
next
  case (Cons l ls)
  show ?case
  proof (cases "Label_Version l > m")
    case True
    show ?thesis
    proof (cases "\<exists>l'\<in>set ls. Label_Version l' > Label_Version l")
      case ex: True
      from Cons.IH [OF ex, of "Suc i" "Some i"] obtain j where j: "j < length ls"
        "find_latest ls (Suc i) (Label_Version l) (Some i) = Some (Suc i + j)"
        "Label_Version l < Label_Version (ls ! j)"
        "\<forall>l'\<in>set ls. Label_Version l' \<le> Label_Version (ls ! j)"
        "\<forall>j'<j. Label_Version (ls ! j') < Label_Version (ls ! j)"
        by blast
      have "\<forall>j'<Suc j. Label_Version ((l # ls) ! j') < Label_Version ((l # ls) ! Suc j)"
        using j(3,5) by (auto simp: less_Suc_eq_0_disj)
      with j True show ?thesis
        by (intro exI [of _ "Suc j"]) auto
    next
      case nex: False
      then have "find_latest ls (Suc i) (Label_Version l) (Some i) = Some i"
        by (intro find_latest_none) auto
      with True nex show ?thesis
        by (intro exI [of _ 0]) (auto simp: not_less)
    qed
  next
    case False
    with Cons.prems have ex: "\<exists>l'\<in>set ls. Label_Version l' > m" by auto
    from Cons.IH [OF ex, of "Suc i" sel] obtain j where j: "j < length ls"
        "find_latest ls (Suc i) m sel = Some (Suc i + j)"
        "m < Label_Version (ls ! j)"
        "\<forall>l'\<in>set ls. Label_Version l' \<le> Label_Version (ls ! j)"
        "\<forall>j'<j. Label_Version (ls ! j') < Label_Version (ls ! j)"
        by blast
    have "\<forall>j'<Suc j. Label_Version ((l # ls) ! j') < Label_Version ((l # ls) ! Suc j)"
      using j(3,5) False by (auto simp: less_Suc_eq_0_disj)
    with j False show ?thesis
      by (intro exI [of _ "Suc j"]) auto
  qed
qed

lemma find_version_none:
  "(find_version ls i v = None) = (\<forall>l\<in>set ls. Label_Version l \<noteq> v)"
  by (induction ls arbitrary: i) auto

lemma find_version_some:
  "find_version ls i v = Some k \<Longrightarrow>
   \<exists>j<length ls. k = i + j \<and> Label_Version (ls ! j) = v \<and> (\<forall>j'<j. Label_Version (ls ! j') \<noteq> v)"
proof (induction ls arbitrary: i)
  case Nil
  then show ?case by simp
next
  case (Cons l ls)
  show ?case
  proof (cases "Label_Version l = v")
    case True
    with Cons.prems show ?thesis by (intro exI [of _ 0]) auto
  next
    case False
    with Cons.prems have "find_version ls (Suc i) v = Some k" by simp
    from Cons.IH [OF this] obtain j where j: "j < length ls" "k = Suc i + j"
      "Label_Version (ls ! j) = v" "\<forall>j'<j. Label_Version (ls ! j') \<noteq> v" by blast
    have "\<forall>j'<Suc j. Label_Version ((l # ls) ! j') \<noteq> v"
      using j(4) False by (auto simp: less_Suc_eq_0_disj)
    with j show ?thesis by (intro exI [of _ "Suc j"]) auto
  qed
qed

lemma StepFindLabel_store_Some:
  "i < length labels \<Longrightarrow>
   \<exists>s'. StepFindLabel_store labels (Some i) s =
      (if Label_Definitions (labels ! i) = [] then ActionHalt else ActionContinue, s') \<and>
     selected_label s' =
      (if Label_Definitions (labels ! i) = [] then selected_label s else Some (labels ! i)) \<and>
     error s' =
      (if Label_Definitions (labels ! i) = [] then Some (Errorf ''label has no definitions'' [])
       else error s) \<and>
     requests s' = requests s"
  by (simp add: StepFindLabel_store_def bag_defs Let_def)

lemma StepFindLabel_store_None:
  "StepFindLabel_store labels None s =
     (ActionHalt,
      Put_error (Errorf ''no suitable label found'' [])
        (ui_Error (Sprintf (''No suitable label found for '%s'' @ [CHR 0x27])
           [ArgS (LabelName (config s))]) s))"
  by (simp add: StepFindLabel_store_def)

lemma StepFindLabel_Run_labels:
  assumes "api_client s = Some client"
    and "GetLabels_resp env (LabelName (config s))
           (if LabelVersion (config s) \<noteq> [] then LabelVersion (config s) else ''last'') = Inr labels"
    and "labels \<noteq> []"
  shows "\<exists>s1. StepFindLabel_Run env s = Some (StepFindLabel_select labels s1) \<and>
     config s1 = config s \<and> selected_label s1 = selected_label s \<and> error s1 = error s"
proof -
  define version where
    "version = (if LabelVersion (config s) \<noteq> [] then LabelVersion (config s) else ''last'')"
  define s1 where "s1 = remote_call (GetLabels (LabelName (config s)) version)
     (if LabelVersion (config s) \<noteq> []
      then ui_Say (Sprintf ''Searching for specific version: %s'' [ArgS version])
             (ui_Say (Sprintf ''Looking for label '%s'...'' [ArgS (LabelName (config s))]) s)
      else ui_Say (Plain ''No version specified, will use the latest version'')
             (ui_Say (Sprintf ''Looking for label '%s'...'' [ArgS (LabelName (config s))]) s))"
  have "StepFindLabel_Run env s = Some (StepFindLabel_select labels s1)"
    using assms unfolding s1_def version_def
    by (simp add: StepFindLabel_Run_def Let_def)
  moreover have "config s1 = config s" "selected_label s1 = selected_label s" "error s1 = error s"
    by (simp_all add: s1_def bag_defs)
  ultimately show ?thesis by blast
qed

text \<open>
  C5 (as amended). With no version configured and a list of labels that is not empty:
  if some label has a version of 0 or more, the step picks the label at the first index
  that holds the greatest version (every label before it has a smaller version), and
  stores it as the selected label and continues when it has a definition (it halts, and
  stores nothing, when it has none). If every version is negative, no label is picked
  and the step halts with the error "no suitable label found".
\<close>

theorem StepFindLabel_latest:
  assumes "api_client s = Some client"
    and "LabelVersion (config s) = []"
    and "GetLabels_resp env (LabelName (config s)) ''last'' = Inr labels"
    and "labels \<noteq> []"
  shows "((\<exists>l\<in>set labels. 0 \<le> Label_Version l) \<longrightarrow>
            (\<exists>i<length labels.
               (\<forall>l\<in>set labels. Label_Version l \<le> Label_Version (labels ! i)) \<and>
               (\<forall>j<i. Label_Version (labels ! j) < Label_Version (labels ! i)) \<and>
               (\<exists>s'. StepFindLabel_Run env s =
                   Some (if Label_Definitions (labels ! i) = [] then ActionHalt
                         else ActionContinue, s') \<and>
                  selected_label s' =
                   (if Label_Definitions (labels ! i) = [] then selected_label s
                    else Some (labels ! i))))) \<and>
         ((\<forall>l\<in>set labels. Label_Version l < 0) \<longrightarrow>
            (\<exists>s'. StepFindLabel_Run env s = Some (ActionHalt, s') \<and>
               selected_label s' = selected_label s \<and>
               error s' = Some (Errorf ''no suitable label found'' [])))"
proof -
  from StepFindLabel_Run_labels [OF assms(1) _ assms(4), of env] assms(2,3)
  obtain s1 where s1: "StepFindLabel_Run env s = Some (StepFindLabel_select labels s1)"
    "config s1 = config s" "selected_label s1 = selected_label s" "error s1 = error s"
    by auto
  have sel: "StepFindLabel_select labels s1 =
      StepFindLabel_store labels (find_latest labels 0 (- 1) None) s1"
    using assms(2) s1(2) by (simp add: StepFindLabel_select_def)
  have pos: ?thesis if ex: "\<exists>l\<in>set labels. 0 \<le> Label_Version l"
  proof -
    from ex have "\<exists>l\<in>set labels. Label_Version l > - 1" by force
    from find_latest_some [OF this, of 0 None]
    obtain i where i: "i < length labels" "find_latest labels 0 (- 1) None = Some i"
      "\<forall>l\<in>set labels. Label_Version l \<le> Label_Version (labels ! i)"
      "\<forall>j<i. Label_Version (labels ! j) < Label_Version (labels ! i)"
      by auto
    from StepFindLabel_store_Some [OF i(1), of s1] obtain s' where
      "StepFindLabel_store labels (Some i) s1 =
        (if Label_Definitions (labels ! i) = [] then ActionHalt else ActionContinue, s')"
      "selected_label s' =
        (if Label_Definitions (labels ! i) = [] then selected_label s1 else Some (labels ! i))"
      by blast
    with i s1 sel ex show ?thesis
      by (intro conjI impI exI [of _ i]) (auto simp: not_less [symmetric])
  qed
  have neg: ?thesis if all: "\<forall>l\<in>set labels. Label_Version l < 0"
  proof -
    from all have "\<forall>l\<in>set labels. Label_Version l \<le> - 1" by force
    then have "find_latest labels 0 (- 1) None = None" by (rule find_latest_none)
    with s1 sel have "StepFindLabel_Run env s = Some (ActionHalt,
        Put_error (Errorf ''no suitable label found'' [])
          (ui_Error (Sprintf (''No suitable label found for '%s'' @ [CHR 0x27])
             [ArgS (LabelName (config s1))]) s1))"
      by (simp add: StepFindLabel_store_None)
    moreover from all assms(4) have "\<not> (\<exists>l\<in>set labels. 0 \<le> Label_Version l)"
      by (auto simp: not_le)
    ultimately show ?thesis using s1 by (simp add: bag_defs)
  qed
  show ?thesis
  proof (cases "\<exists>l\<in>set labels. 0 \<le> Label_Version l")
    case True then show ?thesis by (rule pos)
  next
    case False
    show ?thesis
    proof (cases "\<forall>l\<in>set labels. Label_Version l < 0")
      case True then show ?thesis by (rule neg)
    next
      case False
      with \<open>\<not> (\<exists>l\<in>set labels. 0 \<le> Label_Version l)\<close> show ?thesis by (auto simp: not_le)
    qed
  qed
qed

theorem StepFindLabel_latest_witness:
  "api_client example_bag = Some (NewAPIClient ''https://fish.example:8001/grpc'' ''packer'' ''secret'') \<and>
   LabelVersion (config example_bag) = [] \<and>
   GetLabels_resp example_Env (LabelName (config example_bag)) ''last'' = Inr example_labels \<and>
   example_labels \<noteq> [] \<and>
   (\<exists>l\<in>set example_labels. 0 \<le> Label_Version l) \<and>
   (\<exists>i<length example_labels.
      (\<forall>l\<in>set example_labels. Label_Version l \<le> Label_Version (example_labels ! i)) \<and>
      (\<forall>j<i. Label_Version (example_labels ! j) < Label_Version (example_labels ! i)) \<and>
      (\<exists>s'. StepFindLabel_Run example_Env example_bag =
          Some (if Label_Definitions (example_labels ! i) = [] then ActionHalt
                else ActionContinue, s') \<and>
         selected_label s' =
          (if Label_Definitions (example_labels ! i) = [] then selected_label example_bag
           else Some (example_labels ! i)))) \<and>
   map_option fst (StepFindLabel_Run example_Env example_bag) = Some ActionContinue \<and>
   map_option (selected_label \<circ> snd) (StepFindLabel_Run example_Env example_bag) =
     Some (Some (example_labels ! 1)) \<and>
   Label_Version (example_labels ! 1) = 3"
proof -
  have h1: "api_client example_bag =
      Some (NewAPIClient ''https://fish.example:8001/grpc'' ''packer'' ''secret'')"
    by (simp add: example_defs)
  have h2: "LabelVersion (config example_bag) = []" by (simp add: example_defs)
  have h3: "GetLabels_resp example_Env (LabelName (config example_bag)) ''last'' = Inr example_labels"
    by (simp add: example_Env_def example_world_def)
  have h4: "example_labels \<noteq> []" by (simp add: example_labels_def)
  have h5: "\<exists>l\<in>set example_labels. 0 \<le> Label_Version l" by (simp add: example_labels_def)
  have run: "map_option fst (StepFindLabel_Run example_Env example_bag) = Some ActionContinue \<and>
     map_option (selected_label \<circ> snd) (StepFindLabel_Run example_Env example_bag) =
       Some (Some (example_labels ! 1)) \<and>
     Label_Version (example_labels ! 1) = 3"
    by (simp add: StepFindLabel_Run_def StepFindLabel_select_def StepFindLabel_store_def
        example_defs bag_defs Let_def)
  from StepFindLabel_latest [OF h1 h2 h3 h4] h5 have
    "\<exists>i<length example_labels.
      (\<forall>l\<in>set example_labels. Label_Version l \<le> Label_Version (example_labels ! i)) \<and>
      (\<forall>j<i. Label_Version (example_labels ! j) < Label_Version (example_labels ! i)) \<and>
      (\<exists>s'. StepFindLabel_Run example_Env example_bag =
          Some (if Label_Definitions (example_labels ! i) = [] then ActionHalt
                else ActionContinue, s') \<and>
         selected_label s' =
          (if Label_Definitions (example_labels ! i) = [] then selected_label example_bag
           else Some (example_labels ! i)))"
    by blast
  with h1 h2 h3 h4 h5 run show ?thesis by blast
qed

text \<open>
  C5 as stated fails where no version is greater than the initial \<open>maxVersion\<close> of \<open>-1\<close>:
  for the one label of version \<open>-1\<close> the step selects nothing and halts.
\<close>

theorem StepFindLabel_latest_counterexample:
  "map_option fst
     (StepFindLabel_Run
        (example_Env\<lparr>GetLabels_resp := \<lambda>name version.
           Inr [\<lparr>Label_UID = ''label-0'', Label_Name = ''ubuntu'', Label_Version = - 1,
                 Label_Definitions = [\<lparr>Driver = ''vmx''\<rparr>]\<rparr>]\<rparr>)
        example_bag) = Some ActionHalt \<and>
   map_option (selected_label \<circ> snd)
     (StepFindLabel_Run
        (example_Env\<lparr>GetLabels_resp := \<lambda>name version.
           Inr [\<lparr>Label_UID = ''label-0'', Label_Name = ''ubuntu'', Label_Version = - 1,
                 Label_Definitions = [\<lparr>Driver = ''vmx''\<rparr>]\<rparr>]\<rparr>)
        example_bag) = Some None \<and>
   map_option (error \<circ> snd)
     (StepFindLabel_Run
        (example_Env\<lparr>GetLabels_resp := \<lambda>name version.
           Inr [\<lparr>Label_UID = ''label-0'', Label_Name = ''ubuntu'', Label_Version = - 1,
                 Label_Definitions = [\<lparr>Driver = ''vmx''\<rparr>]\<rparr>]\<rparr>)
        example_bag) = Some (Some (Errorf ''no suitable label found'' []))"
  by (simp add: StepFindLabel_Run_def StepFindLabel_select_def StepFindLabel_store_def
      example_defs bag_defs Let_def)

lemma StepFindLabel_select_version:
  assumes "LabelVersion (config s) \<noteq> []"
  shows "(\<forall>e. Atoi (LabelVersion (config s)) = Inl e \<longrightarrow>
            (\<exists>s'. StepFindLabel_select labels s = (ActionHalt, s') \<and>
               selected_label s' = selected_label s \<and>
               error s' = Some (Errorf ''invalid version format: %v'' [ArgV e]))) \<and>
         (\<forall>n. Atoi (LabelVersion (config s)) = Inr n \<and> (\<forall>l\<in>set labels. Label_Version l \<noteq> n) \<longrightarrow>
            (\<exists>s'. StepFindLabel_select labels s = (ActionHalt, s') \<and>
               selected_label s' = selected_label s \<and>
               error s' = Some (Errorf ''label version not found'' []))) \<and>
         (\<forall>n. Atoi (LabelVersion (config s)) = Inr n \<and> (\<exists>l\<in>set labels. Label_Version l = n) \<longrightarrow>
            (\<exists>i<length labels. Label_Version (labels ! i) = n \<and>
               (\<forall>j<i. Label_Version (labels ! j) \<noteq> n) \<and>
               (\<exists>s'. StepFindLabel_select labels s =
                   (if Label_Definitions (labels ! i) = [] then ActionHalt
                    else ActionContinue, s') \<and>
                  selected_label s' =
                   (if Label_Definitions (labels ! i) = [] then selected_label s
                    else Some (labels ! i)))))"
proof (intro conjI allI impI)
  fix e assume "Atoi (LabelVersion (config s)) = Inl e"
  with assms show "\<exists>s'. StepFindLabel_select labels s = (ActionHalt, s') \<and>
      selected_label s' = selected_label s \<and>
      error s' = Some (Errorf ''invalid version format: %v'' [ArgV e])"
    by (simp add: StepFindLabel_select_def bag_defs)
next
  fix n assume "Atoi (LabelVersion (config s)) = Inr n \<and> (\<forall>l\<in>set labels. Label_Version l \<noteq> n)"
  then have "Atoi (LabelVersion (config s)) = Inr n" "find_version labels 0 n = None"
    by (simp_all add: find_version_none)
  with assms show "\<exists>s'. StepFindLabel_select labels s = (ActionHalt, s') \<and>
      selected_label s' = selected_label s \<and>
      error s' = Some (Errorf ''label version not found'' [])"
    by (simp add: StepFindLabel_select_def bag_defs)
next
  fix n assume a: "Atoi (LabelVersion (config s)) = Inr n \<and> (\<exists>l\<in>set labels. Label_Version l = n)"
  then have "find_version labels 0 n \<noteq> None" by (simp add: find_version_none)
  then obtain k where k: "find_version labels 0 n = Some k" by blast
  from find_version_some [OF k] obtain i where i: "i < length labels" "k = i"
    "Label_Version (labels ! i) = n" "\<forall>j<i. Label_Version (labels ! j) \<noteq> n" by auto
  from StepFindLabel_store_Some [OF i(1), of s] obtain s' where
    "StepFindLabel_store labels (Some i) s =
      (if Label_Definitions (labels ! i) = [] then ActionHalt else ActionContinue, s')"
    "selected_label s' =
      (if Label_Definitions (labels ! i) = [] then selected_label s else Some (labels ! i))"
    by blast
  moreover have "StepFindLabel_select labels s = StepFindLabel_store labels (Some i) s"
    using assms a k i(2) by (simp add: StepFindLabel_select_def)
  ultimately show "\<exists>i<length labels. Label_Version (labels ! i) = n \<and>
      (\<forall>j<i. Label_Version (labels ! j) \<noteq> n) \<and>
      (\<exists>s'. StepFindLabel_select labels s =
          (if Label_Definitions (labels ! i) = [] then ActionHalt else ActionContinue, s') \<and>
         selected_label s' =
          (if Label_Definitions (labels ! i) = [] then selected_label s else Some (labels ! i)))"
    using i by (intro exI [of _ i]) auto
qed

lemma StepFindLabel_Run_no_labels:
  assumes "api_client s = Some client"
  shows "(\<forall>err. GetLabels_resp env (LabelName (config s))
            (if LabelVersion (config s) \<noteq> [] then LabelVersion (config s) else ''last'') = Inl err \<longrightarrow>
           (\<exists>s'. StepFindLabel_Run env s = Some (ActionHalt, s') \<and>
              selected_label s' = selected_label s \<and>
              error s' = Some (Errorf ''label retrieval failed: %v'' [ArgV err]))) \<and>
         (GetLabels_resp env (LabelName (config s))
            (if LabelVersion (config s) \<noteq> [] then LabelVersion (config s) else ''last'') = Inr [] \<longrightarrow>
           (\<exists>s'. StepFindLabel_Run env s = Some (ActionHalt, s') \<and>
              selected_label s' = selected_label s \<and>
              error s' = Some (Errorf ''label not found: %s'' [ArgS (LabelName (config s))])))"
  using assms by (simp add: StepFindLabel_Run_def bag_defs Let_def)


lemma StepFindLabel_Run_version_labels:
  assumes "api_client s = Some client"
    and "LabelVersion (config s) \<noteq> []"
    and "GetLabels_resp env (LabelName (config s)) (LabelVersion (config s)) = Inr labels"
    and "labels \<noteq> []"
  shows "(\<forall>e. Atoi (LabelVersion (config s)) = Inl e \<longrightarrow>
            (\<exists>s'. StepFindLabel_Run env s = Some (ActionHalt, s') \<and>
               selected_label s' = selected_label s \<and>
               error s' = Some (Errorf ''invalid version format: %v'' [ArgV e]))) \<and>
         (\<forall>n. Atoi (LabelVersion (config s)) = Inr n \<and> (\<forall>l\<in>set labels. Label_Version l \<noteq> n) \<longrightarrow>
            (\<exists>s'. StepFindLabel_Run env s = Some (ActionHalt, s') \<and>
               selected_label s' = selected_label s \<and>
               error s' = Some (Errorf ''label version not found'' []))) \<and>
         (\<forall>n. Atoi (LabelVersion (config s)) = Inr n \<and> (\<exists>l\<in>set labels. Label_Version l = n) \<longrightarrow>
            (\<exists>i<length labels. Label_Version (labels ! i) = n \<and>
               (\<forall>j<i. Label_Version (labels ! j) \<noteq> n) \<and>
               (\<exists>s'. StepFindLabel_Run env s =
                   Some (if Label_Definitions (labels ! i) = [] then ActionHalt
                         else ActionContinue, s') \<and>
                  selected_label s' =
                   (if Label_Definitions (labels ! i) = [] then selected_label s
                    else Some (labels ! i)))))"
proof -
  from StepFindLabel_Run_labels [OF assms(1) _ assms(4), of env] assms(2,3)
  obtain s1 where s1: "StepFindLabel_Run env s = Some (StepFindLabel_select labels s1)"
    "config s1 = config s" "selected_label s1 = selected_label s" "error s1 = error s"
    by auto
  from assms(2) s1(2) have "LabelVersion (config s1) \<noteq> []" by simp
  from StepFindLabel_select_version [OF this, of labels] show ?thesis
    unfolding s1 by simp
qed


text \<open>
  C6 (as amended). With a version configured, the step sends the version string with
  the label query before it parses it. When the query fails, or answers with no label,
  the step halts with the error "label retrieval failed" or "label not found", whatever
  the version string is. When the query answers with a list of labels that is not
  empty: if \<^verbatim>\<open>strconv.Atoi\<close> rejects the version string, the step halts with the error
  "invalid version format"; if the string is the integer \<open>n\<close> and no label has the
  version \<open>n\<close>, the step halts with the error "label version not found"; if some label
  has the version \<open>n\<close>, the first such label is picked (and stored when it has a
  definition). In none of the halting cases is a label selected.
\<close>

theorem StepFindLabel_version:
  assumes "api_client s = Some client"
    and "LabelVersion (config s) \<noteq> []"
  shows "(\<forall>err. GetLabels_resp env (LabelName (config s)) (LabelVersion (config s)) = Inl err \<longrightarrow>
            (\<exists>s'. StepFindLabel_Run env s = Some (ActionHalt, s') \<and>
               selected_label s' = selected_label s \<and>
               error s' = Some (Errorf ''label retrieval failed: %v'' [ArgV err]))) \<and>
         (GetLabels_resp env (LabelName (config s)) (LabelVersion (config s)) = Inr [] \<longrightarrow>
            (\<exists>s'. StepFindLabel_Run env s = Some (ActionHalt, s') \<and>
               selected_label s' = selected_label s \<and>
               error s' = Some (Errorf ''label not found: %s'' [ArgS (LabelName (config s))]))) \<and>
         (\<forall>labels. GetLabels_resp env (LabelName (config s)) (LabelVersion (config s)) = Inr labels \<and>
              labels \<noteq> [] \<longrightarrow>
            (\<forall>e. Atoi (LabelVersion (config s)) = Inl e \<longrightarrow>
               (\<exists>s'. StepFindLabel_Run env s = Some (ActionHalt, s') \<and>
                  selected_label s' = selected_label s \<and>
                  error s' = Some (Errorf ''invalid version format: %v'' [ArgV e]))) \<and>
            (\<forall>n. Atoi (LabelVersion (config s)) = Inr n \<and>
                  (\<forall>l\<in>set labels. Label_Version l \<noteq> n) \<longrightarrow>
               (\<exists>s'. StepFindLabel_Run env s = Some (ActionHalt, s') \<and>
                  selected_label s' = selected_label s \<and>
                  error s' = Some (Errorf ''label version not found'' []))) \<and>
            (\<forall>n. Atoi (LabelVersion (config s)) = Inr n \<and>
                  (\<exists>l\<in>set labels. Label_Version l = n) \<longrightarrow>
               (\<exists>i<length labels. Label_Version (labels ! i) = n \<and>
                  (\<forall>j<i. Label_Version (labels ! j) \<noteq> n) \<and>
                  (\<exists>s'. StepFindLabel_Run env s =
                      Some (if Label_Definitions (labels ! i) = [] then ActionHalt
                            else ActionContinue, s') \<and>
                     selected_label s' =
                      (if Label_Definitions (labels ! i) = [] then selected_label s
                       else Some (labels ! i))))))"
proof -
  have 1: "\<exists>s'. StepFindLabel_Run env s = Some (ActionHalt, s') \<and>
      selected_label s' = selected_label s \<and>
      error s' = Some (Errorf ''label retrieval failed: %v'' [ArgV err])"
    if "GetLabels_resp env (LabelName (config s)) (LabelVersion (config s)) = Inl err" for err
    using StepFindLabel_Run_no_labels [OF assms(1), of env, THEN conjunct1] assms(2) that
    by simp
  have 2: "\<exists>s'. StepFindLabel_Run env s = Some (ActionHalt, s') \<and>
      selected_label s' = selected_label s \<and>
      error s' = Some (Errorf ''label not found: %s'' [ArgS (LabelName (config s))])"
    if "GetLabels_resp env (LabelName (config s)) (LabelVersion (config s)) = Inr []"
    using StepFindLabel_Run_no_labels [OF assms(1), of env, THEN conjunct2] assms(2) that
    by simp
  note 3 = StepFindLabel_Run_version_labels [OF assms(1,2)]
  show ?thesis
    apply (rule conjI)
     apply (intro allI impI)
     apply (erule 1)
    apply (rule conjI)
     apply (rule impI)
     apply (erule 2)
    apply (intro allI impI)
    apply (erule conjE)
    apply (rule 3)
     apply assumption+
    done
qed

text \<open>
  C6 as stated fails where the label query answers with no label: the version string
  \<^verbatim>\<open>abc\<close> is not numeric, and the step halts with "label not found", not with the
  configuration error.
\<close>

theorem StepFindLabel_version_counterexample:
  "Atoi ''abc'' = Inl (NumError ''abc'' ''invalid syntax'') \<and>
   map_option fst (StepFindLabel_Run example_Env_no_labels (example_bag_version ''abc'')) =
     Some ActionHalt \<and>
   map_option (error \<circ> snd)
     (StepFindLabel_Run example_Env_no_labels (example_bag_version ''abc'')) =
     Some (Some (Errorf ''label not found: %s'' [ArgS ''ubuntu'']))"
  by (simp add: StepFindLabel_Run_def example_Env_no_labels_def example_bag_version_def
      example_defs bag_defs Let_def Atoi_defs)

theorem StepFindLabel_version_witness:
  "Atoi ''abc'' = Inl (NumError ''abc'' ''invalid syntax'') \<and>
   (\<exists>s'. StepFindLabel_Run example_Env (example_bag_version ''abc'') = Some (ActionHalt, s') \<and>
      selected_label s' = None \<and>
      error s' = Some (Errorf ''invalid version format: %v''
                         [ArgV (NumError ''abc'' ''invalid syntax'')])) \<and>
   Atoi ''9'' = Inr 9 \<and> 9 \<notin> set (map Label_Version example_labels) \<and>
   (\<exists>s'. StepFindLabel_Run example_Env (example_bag_version ''9'') = Some (ActionHalt, s') \<and>
      selected_label s' = None \<and>
      error s' = Some (Errorf ''label version not found'' [])) \<and>
   Atoi ''2'' = Inr 2 \<and> 2 \<in> set (map Label_Version example_labels) \<and>
   (\<exists>s'. StepFindLabel_Run example_Env (example_bag_version ''2'') = Some (ActionContinue, s') \<and>
      selected_label s' = Some (example_labels ! 2)) \<and>
   (\<exists>s'. StepFindLabel_Run example_Env_no_labels (example_bag_version ''2'') =
        Some (ActionHalt, s') \<and>
      selected_label s' = None \<and>
      error s' = Some (Errorf ''label not found: %s'' [ArgS ''ubuntu'']))"
proof -
  have vn: "LabelVersion (config (example_bag_version v)) \<noteq> []" if "v \<noteq> []" for v
    using that by (simp add: example_bag_version_def)
  have r0: "GetLabels_resp example_Env_no_labels (LabelName (config (example_bag_version v)))
      (LabelVersion (config (example_bag_version v))) = Inr []" for v
    by (simp add: example_Env_no_labels_def)
  have nm: "LabelName (config (example_bag_version v)) = ''ubuntu''" for v
    by (simp add: example_bag_version_def example_defs)
  have c: "api_client (example_bag_version v) =
      Some (NewAPIClient ''https://fish.example:8001/grpc'' ''packer'' ''secret'')" for v
    by (simp add: example_bag_version_def example_defs)
  have v: "LabelVersion (config (example_bag_version v)) = v" for v
    by (simp add: example_bag_version_def)
  have r: "GetLabels_resp example_Env (LabelName (config (example_bag_version v)))
      (LabelVersion (config (example_bag_version v))) = Inr example_labels" for v
    by (simp add: example_Env_def example_world_def)
  have n: "example_labels \<noteq> []" by (simp add: example_labels_def)
  have sel: "selected_label (example_bag_version v) = None" for v
    by (simp add: example_bag_version_def example_defs)
  have a1: "Atoi ''abc'' = Inl (NumError ''abc'' ''invalid syntax'')"
    by (simp add: Atoi_defs)
  have a2: "Atoi ''9'' = Inr 9" by (simp add: Atoi_defs)
  have a3: "Atoi ''2'' = Inr 2" by (simp add: Atoi_defs)
  have m2: "9 \<notin> set (map Label_Version example_labels)" by (simp add: example_labels_def)
  have m3: "2 \<in> set (map Label_Version example_labels)" by (simp add: example_labels_def)
  have T: "(\<forall>e. Atoi (LabelVersion (config (example_bag_version v))) = Inl e \<longrightarrow>
       (\<exists>s'. StepFindLabel_Run example_Env (example_bag_version v) = Some (ActionHalt, s') \<and>
          selected_label s' = selected_label (example_bag_version v) \<and>
          error s' = Some (Errorf ''invalid version format: %v'' [ArgV e]))) \<and>
    (\<forall>n. Atoi (LabelVersion (config (example_bag_version v))) = Inr n \<and>
          (\<forall>l\<in>set example_labels. Label_Version l \<noteq> n) \<longrightarrow>
       (\<exists>s'. StepFindLabel_Run example_Env (example_bag_version v) = Some (ActionHalt, s') \<and>
          selected_label s' = selected_label (example_bag_version v) \<and>
          error s' = Some (Errorf ''label version not found'' []))) \<and>
    (\<forall>n. Atoi (LabelVersion (config (example_bag_version v))) = Inr n \<and>
          (\<exists>l\<in>set example_labels. Label_Version l = n) \<longrightarrow>
       (\<exists>i<length example_labels. Label_Version (example_labels ! i) = n \<and>
          (\<forall>j<i. Label_Version (example_labels ! j) \<noteq> n) \<and>
          (\<exists>s'. StepFindLabel_Run example_Env (example_bag_version v) =
              Some (if Label_Definitions (example_labels ! i) = [] then ActionHalt
                    else ActionContinue, s') \<and>
             selected_label s' =
              (if Label_Definitions (example_labels ! i) = []
               then selected_label (example_bag_version v)
               else Some (example_labels ! i)))))" if "v \<noteq> []" for v
    using StepFindLabel_version [OF c vn [OF that], of example_Env, THEN conjunct2,
        THEN conjunct2, THEN spec, of example_labels] r [of v] n
    by (elim impE) (intro conjI, assumption+)
  have t0: "\<exists>s'. StepFindLabel_Run example_Env_no_labels (example_bag_version ''2'') =
        Some (ActionHalt, s') \<and>
      selected_label s' = None \<and>
      error s' = Some (Errorf ''label not found: %s'' [ArgS ''ubuntu''])"
    using StepFindLabel_version [OF c vn, of "''2''" example_Env_no_labels, THEN conjunct2,
        THEN conjunct1] r0 [of "''2''"]
    by (simp add: sel nm)
  have t1: "\<exists>s'. StepFindLabel_Run example_Env (example_bag_version ''abc'') = Some (ActionHalt, s') \<and>
      selected_label s' = None \<and>
      error s' = Some (Errorf ''invalid version format: %v''
                         [ArgV (NumError ''abc'' ''invalid syntax'')])"
    using T [of "''abc''"] a1 by (simp add: v sel)
  have t2: "\<exists>s'. StepFindLabel_Run example_Env (example_bag_version ''9'') = Some (ActionHalt, s') \<and>
      selected_label s' = None \<and> error s' = Some (Errorf ''label version not found'' [])"
    using T [of "''9''"] a2 m2 by (auto simp: v sel)
  from T [of "''2''"] a3 m3
  obtain i s' where i: "i < length example_labels" "Label_Version (example_labels ! i) = 2"
    "StepFindLabel_Run example_Env (example_bag_version ''2'') =
       Some (if Label_Definitions (example_labels ! i) = [] then ActionHalt else ActionContinue, s')"
    "selected_label s' =
       (if Label_Definitions (example_labels ! i) = [] then selected_label (example_bag_version ''2'')
        else Some (example_labels ! i))"
    by (auto simp: v)
  from i(1,2) have "i = 2"
    by (auto simp: example_labels_def less_Suc_eq numeral_3_eq_3)
  with i have t3: "\<exists>s'. StepFindLabel_Run example_Env (example_bag_version ''2'') =
      Some (ActionContinue, s') \<and> selected_label s' = Some (example_labels ! 2)"
    by (auto simp: example_labels_def)
  from a1 a2 a3 m2 m3 t1 t2 t3 t0 show ?thesis by (intro conjI)
qed

section \<open>Setup-Remote-Access: the address and the fall-back\<close>

lemma length_strings_Split: "length (strings_Split s c) = Suc (count_list s c)"
  by (induction s) (auto split: list.splits)

lemma ParseSSHAddress_fields:
  "length (strings_Split addr CHR '':'') \<noteq> 2 \<Longrightarrow>
   ParseSSHAddress addr = Inl (Errorf ''invalid SSH address format: %s'' [ArgS addr])"
  by (simp add: ParseSSHAddress_def Let_def)

lemma StepSetupSSH_address_fallback:
  "length (strings_Split addr CHR '':'') \<noteq> 2 \<Longrightarrow>
   StepSetupSSH_address addr s =
     ((SSHHost (Communicator (config s)), SSHPort (Communicator (config s))),
      ui_Say (Sprintf ''Falling back to communicator defaults: %s:%d''
                [ArgS (SSHHost (Communicator (config s))),
                 ArgD (SSHPort (Communicator (config s)))])
        (ui_Say (Sprintf ''Unable to parse SSH address in response %q: %v''
                   [ArgQ addr, ArgV (Errorf ''invalid SSH address format: %s'' [ArgS addr])]) s))"
  by (simp add: StepSetupSSH_address_def ParseSSHAddress_fields Let_def bag_defs)

lemmas ssh_defs = StepSetupSSH_generated_def update_Communicator_def GetAddress_def
  GetUsername_def GetPassword_def GetKey_def

lemma StepSetupSSH_credentials_frame:
  "generated_data (StepSetupSSH_credentials a h p s) = generated_data s"
  "error (StepSetupSSH_credentials a h p s) = error s"
  "requests (StepSetupSSH_credentials a h p s) = requests s"
  "api_client (StepSetupSSH_credentials a h p s) = api_client s"
  "application (StepSetupSSH_credentials a h p s) = application s"
  "SSHHost (Communicator (config (StepSetupSSH_credentials a h p s))) =
     SSHHost (Communicator (config s))"
  "SSHPort (Communicator (config (StepSetupSSH_credentials a h p s))) =
     SSHPort (Communicator (config s))"
  by (simp_all add: StepSetupSSH_credentials_def update_Communicator_def bag_defs Let_def)

lemma StepSetupSSH_REST_credentials_frame:
  "generated_data (StepSetupSSH_REST_credentials a s) = generated_data s"
  "error (StepSetupSSH_REST_credentials a s) = error s"
  "requests (StepSetupSSH_REST_credentials a s) = requests s"
  "api_client (StepSetupSSH_REST_credentials a s) = api_client s"
  "application (StepSetupSSH_REST_credentials a s) = application s"
  "SSHHost (Communicator (config (StepSetupSSH_REST_credentials a s))) =
     SSHHost (Communicator (config s))"
  "SSHPort (Communicator (config (StepSetupSSH_REST_credentials a s))) =
     SSHPort (Communicator (config s))"
  by (simp_all add: StepSetupSSH_REST_credentials_def update_Communicator_def bag_defs Let_def)

text \<open>
  C8. When the address of the remote access does not split at its colons into exactly
  two fields, \<^verbatim>\<open>ParseSSHAddress\<close> returns the error "invalid SSH address format", and the
  step (in each of its three versions; for the polling version the ticker pass that
  receives the access, within the retry limit) continues without recording an error,
  with the host and port of the communicator's configuration as remote-shell host and
  port, in the bag and in the generated data.
\<close>

theorem StepSetupSSH_fallback:
  assumes "length (strings_Split (Acc_Address access) CHR '':'') \<noteq> 2"
    and "api_client s = Some client"
    and "application_resource s = Some resource"
    and "GetApplicationResourceAccess_resp env k (Res_UID resource) = Inr (Some access)"
  shows "ParseSSHAddress (Acc_Address access) =
           Inl (Errorf ''invalid SSH address format: %s'' [ArgS (Acc_Address access)]) \<and>
         (k = 0 \<longrightarrow>
            (\<exists>s'. StepSetupSSH_Run env s = Some (ActionContinue, s') \<and>
               error s' = error s \<and>
               ssh_host s' = Some (SSHHost (Communicator (config s))) \<and>
               ssh_port s' = Some (SSHPort (Communicator (config s))) \<and>
               generated_data s' =
                 (generated_data s)
                   (''SSHHost'' \<mapsto> AString (SSHHost (Communicator (config s))),
                    ''SSHPort'' \<mapsto> AString (Itoa (SSHPort (Communicator (config s))))))) \<and>
         (k = 0 \<longrightarrow>
            (\<exists>s'. StepSetupSSH_REST_Run env s = Some (ActionContinue, s') \<and>
               error s' = error s \<and>
               ssh_host s' = Some (SSHHost (Communicator (config s))) \<and>
               ssh_port s' = Some (SSHPort (Communicator (config s))) \<and>
               generated_data s' =
                 (generated_data s)
                   (''SSHHost'' \<mapsto> AString (SSHHost (Communicator (config s))),
                    ''SSHPort'' \<mapsto> AString (Itoa (SSHPort (Communicator (config s))))))) \<and>
         (retryCount + 1 \<le> maxRetries \<longrightarrow>
            (\<exists>s'. StepSetupSSH_polling_tick env resource maxRetries k retryCount s =
                     Return (ActionContinue, s') \<and>
               error s' = error s \<and>
               ssh_host s' = Some (SSHHost (Communicator (config s))) \<and>
               ssh_port s' = Some (SSHPort (Communicator (config s))) \<and>
               generated_data s' =
                 (generated_data s)
                   (''SSHHost'' \<mapsto> AString (SSHHost (Communicator (config s))),
                    ''SSHPort'' \<mapsto> AString (Itoa (SSHPort (Communicator (config s)))))))"
proof (intro conjI impI)
  show "ParseSSHAddress (Acc_Address access) =
      Inl (Errorf ''invalid SSH address format: %s'' [ArgS (Acc_Address access)])"
    using assms(1) by (rule ParseSSHAddress_fields)
next
  assume "k = 0"
  with assms show "\<exists>s'. StepSetupSSH_Run env s = Some (ActionContinue, s') \<and>
      error s' = error s \<and>
      ssh_host s' = Some (SSHHost (Communicator (config s))) \<and>
      ssh_port s' = Some (SSHPort (Communicator (config s))) \<and>
      generated_data s' =
        (generated_data s)
          (''SSHHost'' \<mapsto> AString (SSHHost (Communicator (config s))),
           ''SSHPort'' \<mapsto> AString (Itoa (SSHPort (Communicator (config s)))))"
    by (simp add: StepSetupSSH_Run_def StepSetupSSH_address_fallback StepSetupSSH_generated_def
        update_Communicator_def GetAddress_def StepSetupSSH_credentials_frame bag_defs Let_def)
next
  assume "k = 0"
  with assms show "\<exists>s'. StepSetupSSH_REST_Run env s = Some (ActionContinue, s') \<and>
      error s' = error s \<and>
      ssh_host s' = Some (SSHHost (Communicator (config s))) \<and>
      ssh_port s' = Some (SSHPort (Communicator (config s))) \<and>
      generated_data s' =
        (generated_data s)
          (''SSHHost'' \<mapsto> AString (SSHHost (Communicator (config s))),
           ''SSHPort'' \<mapsto> AString (Itoa (SSHPort (Communicator (config s)))))"
    by (simp add: StepSetupSSH_REST_Run_def StepSetupSSH_address_fallback StepSetupSSH_generated_def
        update_Communicator_def StepSetupSSH_REST_credentials_frame bag_defs Let_def)
next
  assume "retryCount + 1 \<le> maxRetries"
  with assms show "\<exists>s'. StepSetupSSH_polling_tick env resource maxRetries k retryCount s =
        Return (ActionContinue, s') \<and>
      error s' = error s \<and>
      ssh_host s' = Some (SSHHost (Communicator (config s))) \<and>
      ssh_port s' = Some (SSHPort (Communicator (config s))) \<and>
      generated_data s' =
        (generated_data s)
          (''SSHHost'' \<mapsto> AString (SSHHost (Communicator (config s))),
           ''SSHPort'' \<mapsto> AString (Itoa (SSHPort (Communicator (config s)))))"
    by (simp add: StepSetupSSH_polling_tick_def StepSetupSSH_address_fallback
        StepSetupSSH_generated_def bag_defs Let_def)
qed


lemma Itoa_22: "Itoa 22 = ''22''"
  by code_simp

theorem StepSetupSSH_fallback_witness:
  "length (strings_Split (Acc_Address example_access_unparsable) CHR '':'') \<noteq> 2 \<and>
   (\<exists>s'. StepSetupSSH_Run example_Env_unparsable example_bag_allocated = Some (ActionContinue, s') \<and>
      error s' = None \<and> ssh_host s' = Some ''127.0.0.1'' \<and> ssh_port s' = Some 22 \<and>
      generated_data s' = [''SSHHost'' \<mapsto> AString ''127.0.0.1'', ''SSHPort'' \<mapsto> AString ''22'']) \<and>
   (\<exists>s'. StepSetupSSH_REST_Run example_Env_unparsable example_bag_allocated =
        Some (ActionContinue, s') \<and>
      error s' = None \<and> ssh_host s' = Some ''127.0.0.1'' \<and> ssh_port s' = Some 22 \<and>
      generated_data s' = [''SSHHost'' \<mapsto> AString ''127.0.0.1'', ''SSHPort'' \<mapsto> AString ''22'']) \<and>
   (\<exists>s'. StepSetupSSH_polling_tick example_Env_unparsable
             \<lparr>Res_UID = ''res-1'', Res_IPAddr = ''10.0.0.5''\<rparr> 60 0 0 example_bag_allocated =
        Return (ActionContinue, s') \<and>
      error s' = None \<and> ssh_host s' = Some ''127.0.0.1'' \<and> ssh_port s' = Some 22 \<and>
      generated_data s' = [''SSHHost'' \<mapsto> AString ''127.0.0.1'', ''SSHPort'' \<mapsto> AString ''22''])"
proof -
  have h1: "length (strings_Split (Acc_Address example_access_unparsable) CHR '':'') \<noteq> 2"
    by (simp add: example_access_unparsable_def)
  have h2: "api_client example_bag_allocated =
      Some (NewAPIClient ''https://fish.example:8001/grpc'' ''packer'' ''secret'')"
    by (simp add: example_defs)
  have h3: "application_resource example_bag_allocated =
      Some \<lparr>Res_UID = ''res-1'', Res_IPAddr = ''10.0.0.5''\<rparr>"
    by (simp add: example_defs)
  have h4: "GetApplicationResourceAccess_resp example_Env_unparsable 0
      (Res_UID \<lparr>Res_UID = ''res-1'', Res_IPAddr = ''10.0.0.5''\<rparr>) =
      Inr (Some example_access_unparsable)"
    by (simp add: example_Env_unparsable_def)
  have v: "error example_bag_allocated = None"
    "SSHHost (Communicator (config example_bag_allocated)) = ''127.0.0.1''"
    "SSHPort (Communicator (config example_bag_allocated)) = 22"
    "generated_data example_bag_allocated = Map.empty"
    by (simp_all add: example_defs)
  from StepSetupSSH_fallback [OF h1 h2 h3 h4, of 0 60] h1 show ?thesis
    by (simp add: v Itoa_22)
qed


section \<open>Create-Output-Artifact: the classification of the result\<close>

text \<open>
  One pass of the ticker branch on a task whose result is not empty: the pass returns
  from the step, halting exactly when the value under "status" is the string "failed"
  or "error".
\<close>

lemma StepCreateImage_tick_result:
  assumes "GetApplicationTask_resp env k (Task_UID createdTask) = Inr currentTask"
    and "Task_Result currentTask = Some result"
    and "result \<noteq> Map.empty"
  shows "\<exists>s'. StepCreateImage_tick env createdTask k l s =
             Return (if result ''status'' \<in> {Some (AString ''failed''), Some (AString ''error'')}
                     then ActionHalt else ActionContinue, s') \<and>
           requests s' = requests s @ [GetApplicationTask (Task_UID createdTask)] \<and>
           (result ''status'' \<in> {Some (AString ''failed''), Some (AString ''error'')} \<longrightarrow>
              error s' = Some (Errorf ''image creation failed'' [])) \<and>
           (result ''status'' \<notin> {Some (AString ''failed''), Some (AString ''error'')} \<longrightarrow>
              error s' = error s \<and> image_task s' = Some currentTask \<and>
              image_results s' = Some result)"
proof -
  have tick: "StepCreateImage_tick env createdTask k l s =
      StepCreateImage_result currentTask result
        (remote_call (GetApplicationTask (Task_UID createdTask)) s)"
    using assms by (simp add: StepCreateImage_tick_def Let_def)
  show ?thesis unfolding tick
    by (cases "result ''status''")
      (auto simp: StepCreateImage_result_def bag_defs Let_def split: option.splits)
qed

text \<open>
  The passes of the ticker branch on a task without a result, or with an empty one, go
  round again: each makes one request for the task and leaves the error, the image task
  and the image results of the bag as they are.
\<close>

lemma StepCreateImage_loop_in_progress:
  assumes "\<forall>j<k. \<exists>t. GetApplicationTask_resp env (i + j) (Task_UID createdTask) = Inr t \<and>
             Task_Result t \<in> {None, Some Map.empty}"
    and "k \<le> n"
  shows "\<exists>s1. error s1 = error s \<and>
           requests s1 = requests s @ replicate k (GetApplicationTask (Task_UID createdTask)) \<and>
           poll_loop (StepCreateImage_tick env createdTask) StepCreateImage_timeout n i () s =
           poll_loop (StepCreateImage_tick env createdTask) StepCreateImage_timeout
             (n - k) (i + k) () s1"
  using assms
proof (induction k arbitrary: n i s)
  case 0
  show ?case by (rule exI [of _ s]) simp
next
  case (Suc k)
  from Suc.prems(1) [THEN spec, of 0] obtain t where
    t: "GetApplicationTask_resp env i (Task_UID createdTask) = Inr t"
      "Task_Result t \<in> {None, Some Map.empty}"
    by auto
  define s1 where "s1 = ui_Message (Plain ''Image creation still in progress...'')
    (remote_call (GetApplicationTask (Task_UID createdTask)) s)"
  have tick: "StepCreateImage_tick env createdTask i () s = Again () s1"
    using t by (auto simp: StepCreateImage_tick_def Let_def s1_def)
  have s1: "error s1 = error s"
    "requests s1 = requests s @ [GetApplicationTask (Task_UID createdTask)]"
    by (simp_all add: s1_def bag_defs)
  from Suc.prems(2) obtain n1 where n: "n = Suc n1" "k \<le> n1"
    by (cases n) auto
  have rest: "\<forall>j<k. \<exists>t. GetApplicationTask_resp env (Suc i + j) (Task_UID createdTask) = Inr t \<and>
      Task_Result t \<in> {None, Some Map.empty}"
  proof (intro allI impI)
    fix j assume "j < k"
    then have "Suc j < Suc k" by simp
    with Suc.prems(1) have "\<exists>t. GetApplicationTask_resp env (i + Suc j) (Task_UID createdTask) = Inr t \<and>
      Task_Result t \<in> {None, Some Map.empty}"
      by blast
    then show "\<exists>t. GetApplicationTask_resp env (Suc i + j) (Task_UID createdTask) = Inr t \<and>
      Task_Result t \<in> {None, Some Map.empty}"
      by simp
  qed
  from Suc.IH [OF rest n(2), of s1] obtain s2 where s2:
    "error s2 = error s1"
    "requests s2 = requests s1 @ replicate k (GetApplicationTask (Task_UID createdTask))"
    "poll_loop (StepCreateImage_tick env createdTask) StepCreateImage_timeout n1 (Suc i) () s1 =
     poll_loop (StepCreateImage_tick env createdTask) StepCreateImage_timeout
       (n1 - k) (Suc i + k) () s2"
    by (elim exE conjE)
  show ?case
    by (rule exI [of _ s2]) (simp add: n tick s1 s2)
qed

text \<open>
  The step as a whole, when the task was created, the first \<open>k\<close> requests for it found
  no result (or an empty one) and request \<open>k\<close>, before the timeout of thirty minutes,
  found a result that is not empty: the step returns after these \<open>k + 1\<close> requests, and
  halts exactly when the value under "status" is the string "failed" or "error".
\<close>

lemma StepCreateImage_Run_result:
  assumes "api_client s = Some client"
    and "application s = Some app"
    and "CreateApplicationTask_resp env
           \<lparr>Task_UID = [], Task_ApplicationUID = App_UID app, Task_Task = ''TaskImage'',
               Task_When = ''DEALLOCATE'', Task_Options = Map.empty, Task_Result = None\<rparr> =
         Inr createdTask"
    and "k < select_ticks env (30 * Minute) (15 * Second)"
    and "\<forall>j<k. \<exists>t. GetApplicationTask_resp env j (Task_UID createdTask) = Inr t \<and>
           Task_Result t \<in> {None, Some Map.empty}"
    and "GetApplicationTask_resp env k (Task_UID createdTask) = Inr currentTask"
    and "Task_Result currentTask = Some result"
    and "result \<noteq> Map.empty"
  shows "\<exists>s'. StepCreateImage_Run env s =
             Some (if result ''status'' \<in> {Some (AString ''failed''), Some (AString ''error'')}
                   then ActionHalt else ActionContinue, s') \<and>
           requests s' = requests s @ CreateApplicationTask
                 \<lparr>Task_UID = [], Task_ApplicationUID = App_UID app, Task_Task = ''TaskImage'',
               Task_When = ''DEALLOCATE'', Task_Options = Map.empty, Task_Result = None\<rparr> #
                 replicate (Suc k) (GetApplicationTask (Task_UID createdTask)) \<and>
           (result ''status'' \<in> {Some (AString ''failed''), Some (AString ''error'')} \<longrightarrow>
              error s' = Some (Errorf ''image creation failed'' [])) \<and>
           (result ''status'' \<notin> {Some (AString ''failed''), Some (AString ''error'')} \<longrightarrow>
              error s' = error s \<and> image_task s' = Some currentTask \<and>
              image_results s' = Some result)"
proof -
  let ?task = "\<lparr>Task_UID = [], Task_ApplicationUID = App_UID app, Task_Task = ''TaskImage'',
               Task_When = ''DEALLOCATE'', Task_Options = Map.empty, Task_Result = None\<rparr>"
  let ?n = "select_ticks env (30 * Minute) (15 * Second)"
  let ?r = "GetApplicationTask (Task_UID createdTask)"
  let ?halt = "result ''status'' \<in> {Some (AString ''failed''), Some (AString ''error'')}"
  define s2 where "s2 = ui_Say (Plain ''Waiting for image creation to complete...'')
    (ui_Say (Sprintf ''Image task created (UID: %s)'' [ArgS (Task_UID createdTask)])
      (remote_call (CreateApplicationTask ?task)
        (ui_Say (Plain ''Creating image using TaskImage...'') s)))"
  have run: "StepCreateImage_Run env s =
      Some (poll_loop (StepCreateImage_tick env createdTask) StepCreateImage_timeout ?n 0 () s2)"
    using assms(1,2,3) by (simp add: StepCreateImage_Run_def Let_def s2_def)
  have s2: "error s2 = error s" "requests s2 = requests s @ [CreateApplicationTask ?task]"
    by (simp_all add: s2_def bag_defs)
  from assms(5) have pre: "\<forall>j<k. \<exists>t. GetApplicationTask_resp env (0 + j) (Task_UID createdTask) = Inr t \<and>
      Task_Result t \<in> {None, Some Map.empty}"
    by simp
  from assms(4) have le: "k \<le> ?n" by simp
  from StepCreateImage_loop_in_progress [OF pre le, of s2]
  obtain s3 where s3: "error s3 = error s2"
    "requests s3 = requests s2 @ replicate k ?r"
    "poll_loop (StepCreateImage_tick env createdTask) StepCreateImage_timeout ?n 0 () s2 =
     poll_loop (StepCreateImage_tick env createdTask) StepCreateImage_timeout
       (?n - k) (0 + k) () s3"
    by (elim exE conjE)
  from StepCreateImage_tick_result [OF assms(6,7,8), of "()" s3] obtain s' where s':
    "StepCreateImage_tick env createdTask k () s3 =
       Return (if ?halt then ActionHalt else ActionContinue, s')"
    "requests s' = requests s3 @ [?r]"
    "?halt \<longrightarrow> error s' = Some (Errorf ''image creation failed'' [])"
    "\<not> ?halt \<longrightarrow> error s' = error s3 \<and> image_task s' = Some currentTask \<and>
       image_results s' = Some result"
    by (elim exE conjE)
  from assms(4) have pos: "?n - k \<noteq> 0" by simp
  have last: "poll_loop (StepCreateImage_tick env createdTask) StepCreateImage_timeout
      (?n - k) (0 + k) () s3 = (if ?halt then ActionHalt else ActionContinue, s')"
    by (subst poll_loop_unfold) (simp only: pos if_False add_0 s'(1) iteration.case)
  have req: "requests s' = requests s @ CreateApplicationTask ?task # replicate (Suc k) ?r"
    by (simp add: s'(2) s3(2) s2(2) replicate_app_Cons_same)
  show ?thesis
    apply (rule exI [of _ s'])
    apply (intro conjI)
       apply (simp only: run s3(3) last)
      apply (rule req)
     apply (rule s'(3))
    using s'(4) s3(1) s2(1) apply simp
    done
qed

text \<open>
  C4. When the task was created and the result of the task becomes non-empty at request
  \<open>k\<close> (the requests before it having found no result or an empty one, and request \<open>k\<close>
  coming before the timeout of thirty minutes), the capture step returns after that
  request: when the value under "status" is the string "success" or "completed" the step
  continues; when it is "failed" or "error" the step halts with the error "image
  creation failed"; in every other case (no "status" key, or any other value) the step
  continues. Where it continues, no error is recorded and the task and its result are
  stored.
\<close>

theorem StepCreateImage_classification:
  assumes "api_client s = Some client"
    and "application s = Some app"
    and "CreateApplicationTask_resp env
           \<lparr>Task_UID = [], Task_ApplicationUID = App_UID app, Task_Task = ''TaskImage'',
               Task_When = ''DEALLOCATE'', Task_Options = Map.empty, Task_Result = None\<rparr> =
         Inr createdTask"
    and "k < select_ticks env (30 * Minute) (15 * Second)"
    and "\<forall>j<k. \<exists>t. GetApplicationTask_resp env j (Task_UID createdTask) = Inr t \<and>
           Task_Result t \<in> {None, Some Map.empty}"
    and "GetApplicationTask_resp env k (Task_UID createdTask) = Inr currentTask"
    and "Task_Result currentTask = Some result"
    and "result \<noteq> Map.empty"
  shows "(result ''status'' \<in> {Some (AString ''success''), Some (AString ''completed'')} \<longrightarrow>
           (\<exists>s'. StepCreateImage_Run env s = Some (ActionContinue, s') \<and>
              requests s' = requests s @ CreateApplicationTask
                 \<lparr>Task_UID = [], Task_ApplicationUID = App_UID app, Task_Task = ''TaskImage'',
               Task_When = ''DEALLOCATE'', Task_Options = Map.empty, Task_Result = None\<rparr> #
                 replicate (Suc k) (GetApplicationTask (Task_UID createdTask)) \<and>
              error s' = error s \<and> image_task s' = Some currentTask \<and>
              image_results s' = Some result)) \<and>
         (result ''status'' \<in> {Some (AString ''failed''), Some (AString ''error'')} \<longrightarrow>
           (\<exists>s'. StepCreateImage_Run env s = Some (ActionHalt, s') \<and>
              requests s' = requests s @ CreateApplicationTask
                 \<lparr>Task_UID = [], Task_ApplicationUID = App_UID app, Task_Task = ''TaskImage'',
               Task_When = ''DEALLOCATE'', Task_Options = Map.empty, Task_Result = None\<rparr> #
                 replicate (Suc k) (GetApplicationTask (Task_UID createdTask)) \<and>
              error s' = Some (Errorf ''image creation failed'' []))) \<and>
         (result ''status'' \<notin> {Some (AString ''success''), Some (AString ''completed''),
                               Some (AString ''failed''), Some (AString ''error'')} \<longrightarrow>
           (\<exists>s'. StepCreateImage_Run env s = Some (ActionContinue, s') \<and>
              requests s' = requests s @ CreateApplicationTask
                 \<lparr>Task_UID = [], Task_ApplicationUID = App_UID app, Task_Task = ''TaskImage'',
               Task_When = ''DEALLOCATE'', Task_Options = Map.empty, Task_Result = None\<rparr> #
                 replicate (Suc k) (GetApplicationTask (Task_UID createdTask)) \<and>
              error s' = error s \<and> image_task s' = Some currentTask \<and>
              image_results s' = Some result))"
proof -
  let ?halt = "result ''status'' \<in> {Some (AString ''failed''), Some (AString ''error'')}"
  from StepCreateImage_Run_result [OF assms] obtain s' where s':
    "StepCreateImage_Run env s = Some (if ?halt then ActionHalt else ActionContinue, s')"
    "requests s' = requests s @ CreateApplicationTask
                    \<lparr>Task_UID = [], Task_ApplicationUID = App_UID app, Task_Task = ''TaskImage'',
                  Task_When = ''DEALLOCATE'', Task_Options = Map.empty, Task_Result = None\<rparr> #
                    replicate (Suc k) (GetApplicationTask (Task_UID createdTask))"
    "?halt \<longrightarrow> error s' = Some (Errorf ''image creation failed'' [])"
    "\<not> ?halt \<longrightarrow> error s' = error s \<and> image_task s' = Some currentTask \<and>
       image_results s' = Some result"
    by (elim exE conjE)
  have 1: "\<not> ?halt"
    if "result ''status'' \<in> {Some (AString ''success''), Some (AString ''completed'')}"
    using that by auto
  have 3: "\<not> ?halt"
    if "result ''status'' \<notin> {Some (AString ''success''), Some (AString ''completed''),
                               Some (AString ''failed''), Some (AString ''error'')}"
    using that by auto
  show ?thesis
  proof (intro conjI impI)
    assume "result ''status'' \<in> {Some (AString ''success''), Some (AString ''completed'')}"
    from 1 [OF this] s' show "\<exists>s'. StepCreateImage_Run env s = Some (ActionContinue, s') \<and>
              requests s' = requests s @ CreateApplicationTask
                 \<lparr>Task_UID = [], Task_ApplicationUID = App_UID app, Task_Task = ''TaskImage'',
               Task_When = ''DEALLOCATE'', Task_Options = Map.empty, Task_Result = None\<rparr> #
                 replicate (Suc k) (GetApplicationTask (Task_UID createdTask)) \<and>
              error s' = error s \<and> image_task s' = Some currentTask \<and>
              image_results s' = Some result"
      by (intro exI [of _ s']) simp
  next
    assume h: "?halt"
    have a1: "StepCreateImage_Run env s = Some (ActionHalt, s')"
      using s'(1) by (simp only: h if_True)
    note a3 = s'(3) [rule_format, OF h]
    from a1 s'(2) a3 show "\<exists>s'. StepCreateImage_Run env s = Some (ActionHalt, s') \<and>
              requests s' = requests s @ CreateApplicationTask
                 \<lparr>Task_UID = [], Task_ApplicationUID = App_UID app, Task_Task = ''TaskImage'',
               Task_When = ''DEALLOCATE'', Task_Options = Map.empty, Task_Result = None\<rparr> #
                 replicate (Suc k) (GetApplicationTask (Task_UID createdTask)) \<and>
              error s' = Some (Errorf ''image creation failed'' [])"
      by (intro exI [of _ s']) simp
  next
    assume "result ''status'' \<notin> {Some (AString ''success''), Some (AString ''completed''),
                               Some (AString ''failed''), Some (AString ''error'')}"
    from 3 [OF this] s' show "\<exists>s'. StepCreateImage_Run env s = Some (ActionContinue, s') \<and>
              requests s' = requests s @ CreateApplicationTask
                 \<lparr>Task_UID = [], Task_ApplicationUID = App_UID app, Task_Task = ''TaskImage'',
               Task_When = ''DEALLOCATE'', Task_Options = Map.empty, Task_Result = None\<rparr> #
                 replicate (Suc k) (GetApplicationTask (Task_UID createdTask)) \<and>
              error s' = error s \<and> image_task s' = Some currentTask \<and>
              image_results s' = Some result"
      by (intro exI [of _ s']) simp
  qed
qed

theorem StepCreateImage_classification_witness:
  "(\<exists>s'. StepCreateImage_Run example_Env example_bag_allocated = Some (ActionContinue, s') \<and>
      requests s' =
        [CreateApplicationTask
           \<lparr>Task_UID = [], Task_ApplicationUID = ''app-1'', Task_Task = ''TaskImage'',
            Task_When = ''DEALLOCATE'', Task_Options = Map.empty, Task_Result = None\<rparr>,
         GetApplicationTask ''task-1'', GetApplicationTask ''task-1''] \<and>
      error s' = None \<and> image_results s' = Some [''status'' \<mapsto> AString ''success'']) \<and>
   (\<exists>s'. StepCreateImage_Run (example_Env_task [''status'' \<mapsto> AString ''failed''])
            example_bag_allocated = Some (ActionHalt, s') \<and>
      requests s' =
        [CreateApplicationTask
           \<lparr>Task_UID = [], Task_ApplicationUID = ''app-1'', Task_Task = ''TaskImage'',
            Task_When = ''DEALLOCATE'', Task_Options = Map.empty, Task_Result = None\<rparr>,
         GetApplicationTask ''task-1''] \<and>
      error s' = Some (Errorf ''image creation failed'' [])) \<and>
   (\<exists>s'. StepCreateImage_Run (example_Env_task [''status'' \<mapsto> AString ''pending''])
            example_bag_allocated = Some (ActionContinue, s') \<and>
      error s' = None \<and> image_results s' = Some [''status'' \<mapsto> AString ''pending'']) \<and>
   (\<exists>s'. StepCreateImage_Run (example_Env_task [''image'' \<mapsto> AString ''ubuntu-ci''])
            example_bag_allocated = Some (ActionContinue, s') \<and>
      error s' = None \<and> image_results s' = Some [''image'' \<mapsto> AString ''ubuntu-ci''])"
proof -
  let ?task = "\<lparr>Task_UID = [], Task_ApplicationUID = App_UID example_app,
    Task_Task = ''TaskImage'', Task_When = ''DEALLOCATE'', Task_Options = Map.empty,
    Task_Result = None\<rparr>"
  let ?created = "?task\<lparr>Task_UID := ''task-1''\<rparr>"
  let ?done = "\<lparr>Task_UID = ''task-1'', Task_ApplicationUID = ''app-1'',
    Task_Task = ''TaskImage'', Task_When = ''DEALLOCATE'', Task_Options = Map.empty,
    Task_Result = Some [''status'' \<mapsto> AString ''success'']\<rparr>"
  have h1: "api_client example_bag_allocated =
      Some (NewAPIClient ''https://fish.example:8001/grpc'' ''packer'' ''secret'')"
    by (simp add: example_defs)
  have h2: "application example_bag_allocated = Some example_app"
    by (simp add: example_defs)
  have c: "CreateApplicationTask_resp example_Env ?task = Inr ?created"
    by (simp add: example_defs)
  have ct: "CreateApplicationTask_resp (example_Env_task result) ?task = Inr ?created" for result
    by (simp add: example_Env_task_def example_defs)
  have n: "(1::nat) < select_ticks example_Env (30 * Minute) (15 * Second)"
    by (simp add: example_defs Minute_def Second_def)
  have nt: "(0::nat) < select_ticks (example_Env_task result) (30 * Minute) (15 * Second)"
    for result
    by (simp add: example_Env_task_def example_defs Minute_def Second_def)
  have p0: "\<forall>j<1::nat. \<exists>t. GetApplicationTask_resp example_Env j (Task_UID ?created) = Inr t \<and>
      Task_Result t \<in> {None, Some Map.empty}"
    by (simp add: example_defs)
  have pt: "\<forall>j<0::nat. \<exists>t. GetApplicationTask_resp (example_Env_task result) j
      (Task_UID ?created) = Inr t \<and> Task_Result t \<in> {None, Some Map.empty}" for result
    by simp
  have r1: "GetApplicationTask_resp example_Env 1 (Task_UID ?created) = Inr ?done"
    by (simp add: example_defs)
  have rt: "GetApplicationTask_resp (example_Env_task result) 0 (Task_UID ?created) =
      Inr (example_task result)" for result
    by (simp add: example_Env_task_def)
  have t1: "Task_Result ?done = Some [''status'' \<mapsto> AString ''success'']"
    by simp
  have t: "Task_Result (example_task result) = Some result" for result
    by (simp add: example_task_def)
  have v: "error example_bag_allocated = None" "requests example_bag_allocated = []"
    "App_UID example_app = ''app-1''"
    by (simp_all add: example_defs)
  have n1: "[''status'' \<mapsto> AString ''success''] \<noteq> Map.empty"
    "[''status'' \<mapsto> AString ''failed''] \<noteq> Map.empty"
    "[''status'' \<mapsto> AString ''pending''] \<noteq> Map.empty"
    "[''image'' \<mapsto> AString ''ubuntu-ci''] \<noteq> Map.empty"
    by simp_all
  have w1: "\<exists>s'. StepCreateImage_Run example_Env example_bag_allocated =
        Some (ActionContinue, s') \<and>
      requests s' =
        [CreateApplicationTask
           \<lparr>Task_UID = [], Task_ApplicationUID = ''app-1'', Task_Task = ''TaskImage'',
            Task_When = ''DEALLOCATE'', Task_Options = Map.empty, Task_Result = None\<rparr>,
         GetApplicationTask ''task-1'', GetApplicationTask ''task-1''] \<and>
      error s' = None \<and> image_results s' = Some [''status'' \<mapsto> AString ''success'']"
    using StepCreateImage_classification [OF h1 h2 c n p0 r1 t1 n1(1), THEN conjunct1]
    by (auto simp: v)
  have w2: "\<exists>s'. StepCreateImage_Run (example_Env_task [''status'' \<mapsto> AString ''failed''])
        example_bag_allocated = Some (ActionHalt, s') \<and>
      requests s' =
        [CreateApplicationTask
           \<lparr>Task_UID = [], Task_ApplicationUID = ''app-1'', Task_Task = ''TaskImage'',
            Task_When = ''DEALLOCATE'', Task_Options = Map.empty, Task_Result = None\<rparr>,
         GetApplicationTask ''task-1''] \<and>
      error s' = Some (Errorf ''image creation failed'' [])"
    using StepCreateImage_classification [OF h1 h2 ct nt pt rt t n1(2), THEN conjunct2,
        THEN conjunct1]
    by (auto simp: v)
  have w3: "\<exists>s'. StepCreateImage_Run (example_Env_task [''status'' \<mapsto> AString ''pending''])
        example_bag_allocated = Some (ActionContinue, s') \<and>
      error s' = None \<and> image_results s' = Some [''status'' \<mapsto> AString ''pending'']"
    using StepCreateImage_classification [OF h1 h2 ct nt pt rt t n1(3), THEN conjunct2,
        THEN conjunct2]
    by (auto simp: v)
  have w4: "\<exists>s'. StepCreateImage_Run (example_Env_task [''image'' \<mapsto> AString ''ubuntu-ci''])
        example_bag_allocated = Some (ActionContinue, s') \<and>
      error s' = None \<and> image_results s' = Some [''image'' \<mapsto> AString ''ubuntu-ci'']"
    using StepCreateImage_classification [OF h1 h2 ct nt pt rt t n1(4), THEN conjunct2,
        THEN conjunct2]
    by (auto simp: v)
  from w1 w2 w3 w4 show ?thesis by (intro conjI)
qed


section \<open>Create-Allocation: the metadata of the application\<close>




section \<open>Wait-For-Ready: the classification of a status\<close>

lemma StepWaitForAllocation_allocated_cases:
  "(\<forall>err. GetApplicationResource_resp env k (App_UID app) = Inl err \<longrightarrow>
      (\<exists>s'. StepWaitForAllocation_allocated env app k l s = Return (ActionHalt, s') \<and>
         error s' = Some (Errorf ''failed to get application resource: %v'' [ArgV err]))) \<and>
   (GetApplicationResource_resp env k (App_UID app) = Inr None \<longrightarrow>
      (\<exists>s'. StepWaitForAllocation_allocated env app k l s = Again l s' \<and> error s' = error s)) \<and>
   (\<forall>resource. GetApplicationResource_resp env k (App_UID app) = Inr (Some resource) \<longrightarrow>
      (\<exists>s'. StepWaitForAllocation_allocated env app k l s = Return (ActionContinue, s') \<and>
         error s' = error s \<and> application_resource s' = Some resource \<and>
         generated_data s' = (generated_data s)(''ResourceUID'' \<mapsto> AString (Res_UID resource))))"
  by (simp add: StepWaitForAllocation_allocated_def bag_defs Let_def)

text \<open>
  C1 (as amended). On a ticker pass of the wait loop whose status request succeeds, in
  the version of the step on the RPC client: \<^verbatim>\<open>NEW\<close> and \<^verbatim>\<open>ELECTED\<close> go round again;
  \<^verbatim>\<open>ALLOCATED\<close> fetches the resource (a resource ends the step with success and is stored
  with its id under \<open>ResourceUID\<close>, a nil resource goes round again, an error halts);
  \<^verbatim>\<open>ERROR\<close>, \<^verbatim>\<open>DEALLOCATED\<close> and \<^verbatim>\<open>DEALLOCATE\<close> halt with the error "application failed";
  every other value, \<^verbatim>\<open>RECALLED\<close> among them, is logged as unknown and goes round again.
  In the version on the REST client: \<^verbatim>\<open>NEW\<close>, \<^verbatim>\<open>ELECTED\<close> and \<^verbatim>\<open>DEALLOCATE\<close> go round
  again; \<^verbatim>\<open>ALLOCATED\<close> is as above; \<^verbatim>\<open>ERROR\<close>, \<^verbatim>\<open>DEALLOCATED\<close> and \<^verbatim>\<open>RECALLED\<close> halt with
  "application failed"; every other string is logged as unknown and goes round again.
\<close>

theorem StepWaitForAllocation_classification:
  assumes "GetApplicationState_resp env k (App_UID app) = Inr appState"
    and "GetApplicationState_resp env_REST k (App_UID app) = Inr appState_REST"
  shows "(Status appState \<in> {ApplicationState_NEW, ApplicationState_ELECTED} \<longrightarrow>
            (\<exists>s'. StepWaitForAllocation_tick env app k lastStatus s = Again (Status appState) s' \<and>
               error s' = error s)) \<and>
         (Status appState = ApplicationState_ALLOCATED \<longrightarrow>
            (\<forall>err. GetApplicationResource_resp env k (App_UID app) = Inl err \<longrightarrow>
               (\<exists>s'. StepWaitForAllocation_tick env app k lastStatus s = Return (ActionHalt, s') \<and>
                  error s' = Some (Errorf ''failed to get application resource: %v'' [ArgV err]))) \<and>
            (GetApplicationResource_resp env k (App_UID app) = Inr None \<longrightarrow>
               (\<exists>s'. StepWaitForAllocation_tick env app k lastStatus s = Again ApplicationState_ALLOCATED s' \<and> error s' = error s)) \<and>
            (\<forall>resource. GetApplicationResource_resp env k (App_UID app) = Inr (Some resource) \<longrightarrow>
               (\<exists>s'. StepWaitForAllocation_tick env app k lastStatus s = Return (ActionContinue, s') \<and>
                  error s' = error s \<and> application_resource s' = Some resource \<and>
                  generated_data s' =
                    (generated_data s)(''ResourceUID'' \<mapsto> AString (Res_UID resource))))) \<and>
         (Status appState \<in> {ApplicationState_ERROR, ApplicationState_DEALLOCATED,
                              ApplicationState_DEALLOCATE} \<longrightarrow>
            (\<exists>s'. StepWaitForAllocation_tick env app k lastStatus s = Return (ActionHalt, s') \<and>
               error s' = Some (Errorf ''application failed: %s''
                                  [ArgS (Status_String (Status appState))]))) \<and>
         (Status appState \<notin> {ApplicationState_NEW, ApplicationState_ELECTED,
                              ApplicationState_ALLOCATED, ApplicationState_ERROR,
                              ApplicationState_DEALLOCATED, ApplicationState_DEALLOCATE} \<longrightarrow>
            (\<exists>s'. StepWaitForAllocation_tick env app k lastStatus s = Again (Status appState) s' \<and>
               error s' = error s \<and>
               last (ui s') = Say (Sprintf ''Unknown application status: %s''
                                     [ArgS (Status_String (Status appState))]))) \<and>
         (Status appState_REST \<in> {''NEW'', ''ELECTED'', ''DEALLOCATE''} \<longrightarrow>
            (\<exists>s'. StepWaitForAllocation_REST_tick env_REST app k lastStatus_REST s =
                    Again (Status appState_REST) s' \<and>
               error s' = error s)) \<and>
         (Status appState_REST = ''ALLOCATED'' \<longrightarrow>
            (\<forall>err. GetApplicationResource_resp env_REST k (App_UID app) = Inl err \<longrightarrow>
               (\<exists>s'. StepWaitForAllocation_REST_tick env_REST app k lastStatus_REST s = Return (ActionHalt, s') \<and>
                  error s' = Some (Errorf ''failed to get application resource: %v'' [ArgV err]))) \<and>
            (GetApplicationResource_resp env_REST k (App_UID app) = Inr None \<longrightarrow>
               (\<exists>s'. StepWaitForAllocation_REST_tick env_REST app k lastStatus_REST s = Again ''ALLOCATED'' s' \<and> error s' = error s)) \<and>
            (\<forall>resource. GetApplicationResource_resp env_REST k (App_UID app) = Inr (Some resource) \<longrightarrow>
               (\<exists>s'. StepWaitForAllocation_REST_tick env_REST app k lastStatus_REST s = Return (ActionContinue, s') \<and>
                  error s' = error s \<and> application_resource s' = Some resource \<and>
                  generated_data s' =
                    (generated_data s)(''ResourceUID'' \<mapsto> AString (Res_UID resource))))) \<and>
         (Status appState_REST \<in> {''ERROR'', ''DEALLOCATED'', ''RECALLED''} \<longrightarrow>
            (\<exists>s'. StepWaitForAllocation_REST_tick env_REST app k lastStatus_REST s =
                    Return (ActionHalt, s') \<and>
               error s' = Some (Errorf ''application failed: %s'' [ArgS (Status appState_REST)]))) \<and>
         (Status appState_REST \<notin> {''NEW'', ''ELECTED'', ''DEALLOCATE'', ''ALLOCATED'', ''ERROR'',
                                   ''DEALLOCATED'', ''RECALLED''} \<longrightarrow>
            (\<exists>s'. StepWaitForAllocation_REST_tick env_REST app k lastStatus_REST s =
                    Again (Status appState_REST) s' \<and>
               error s' = error s \<and>
               last (ui s') = Say (Sprintf ''Unknown application status: %s''
                                     [ArgS (Status appState_REST)])))"
proof -
  let ?s1 = "(if ApplicationState_ALLOCATED \<noteq> lastStatus
              then ui_Say (Sprintf ''Application status: %s - %s''
                     [ArgS ''ALLOCATED'', ArgS (Description appState)])
              else (\<lambda>s. s)) (remote_call (GetApplicationState (App_UID app)) s)"
  let ?s2 = "(if ''ALLOCATED'' \<noteq> lastStatus_REST
              then ui_Say (Sprintf ''Application status: %s - %s''
                     [ArgS ''ALLOCATED'', ArgS (Description appState_REST)])
              else (\<lambda>s. s)) (remote_call (GetApplicationState (App_UID app)) s)"
  have f1: "error ?s1 = error s" "generated_data ?s1 = generated_data s"
    by (simp_all add: bag_defs)
  have f2: "error ?s2 = error s" "generated_data ?s2 = generated_data s"
    by (simp_all add: bag_defs)
  have a1: "StepWaitForAllocation_tick env app k lastStatus s =
      StepWaitForAllocation_allocated env app k ApplicationState_ALLOCATED ?s1"
    if "Status appState = ApplicationState_ALLOCATED"
    using assms(1) that by (simp add: StepWaitForAllocation_tick_def Let_def)
  have a2: "StepWaitForAllocation_REST_tick env_REST app k lastStatus_REST s =
      StepWaitForAllocation_allocated env_REST app k ''ALLOCATED'' ?s2"
    if "Status appState_REST = ''ALLOCATED''"
    using assms(2) that by (simp add: StepWaitForAllocation_REST_tick_def Let_def)
  have c1: "Status appState \<in> {ApplicationState_NEW, ApplicationState_ELECTED} \<longrightarrow>
      (\<exists>s'. StepWaitForAllocation_tick env app k lastStatus s = Again (Status appState) s' \<and>
         error s' = error s)"
    using assms(1) by (auto simp: StepWaitForAllocation_tick_def bag_defs Let_def)
  have c2: "Status appState = ApplicationState_ALLOCATED \<longrightarrow>
      (\<forall>err. GetApplicationResource_resp env k (App_UID app) = Inl err \<longrightarrow>
         (\<exists>s'. StepWaitForAllocation_tick env app k lastStatus s = Return (ActionHalt, s') \<and>
            error s' = Some (Errorf ''failed to get application resource: %v'' [ArgV err]))) \<and>
      (GetApplicationResource_resp env k (App_UID app) = Inr None \<longrightarrow>
         (\<exists>s'. StepWaitForAllocation_tick env app k lastStatus s =
                 Again ApplicationState_ALLOCATED s' \<and> error s' = error s)) \<and>
      (\<forall>resource. GetApplicationResource_resp env k (App_UID app) = Inr (Some resource) \<longrightarrow>
         (\<exists>s'. StepWaitForAllocation_tick env app k lastStatus s = Return (ActionContinue, s') \<and>
            error s' = error s \<and> application_resource s' = Some resource \<and>
            generated_data s' =
              (generated_data s)(''ResourceUID'' \<mapsto> AString (Res_UID resource))))"
  proof
    assume st: "Status appState = ApplicationState_ALLOCATED"
    show "(\<forall>err. GetApplicationResource_resp env k (App_UID app) = Inl err \<longrightarrow>
         (\<exists>s'. StepWaitForAllocation_tick env app k lastStatus s = Return (ActionHalt, s') \<and>
            error s' = Some (Errorf ''failed to get application resource: %v'' [ArgV err]))) \<and>
      (GetApplicationResource_resp env k (App_UID app) = Inr None \<longrightarrow>
         (\<exists>s'. StepWaitForAllocation_tick env app k lastStatus s =
                 Again ApplicationState_ALLOCATED s' \<and> error s' = error s)) \<and>
      (\<forall>resource. GetApplicationResource_resp env k (App_UID app) = Inr (Some resource) \<longrightarrow>
         (\<exists>s'. StepWaitForAllocation_tick env app k lastStatus s = Return (ActionContinue, s') \<and>
            error s' = error s \<and> application_resource s' = Some resource \<and>
            generated_data s' =
              (generated_data s)(''ResourceUID'' \<mapsto> AString (Res_UID resource))))"
      unfolding a1 [OF st]
      by (rule StepWaitForAllocation_allocated_cases
          [of env k app ApplicationState_ALLOCATED ?s1, unfolded f1])
  qed
  have c3: "Status appState \<in> {ApplicationState_ERROR, ApplicationState_DEALLOCATED,
        ApplicationState_DEALLOCATE} \<longrightarrow>
      (\<exists>s'. StepWaitForAllocation_tick env app k lastStatus s = Return (ActionHalt, s') \<and>
         error s' = Some (Errorf ''application failed: %s''
                            [ArgS (Status_String (Status appState))]))"
    using assms(1) by (auto simp: StepWaitForAllocation_tick_def bag_defs Let_def)
  have c4: "Status appState \<notin> {ApplicationState_NEW, ApplicationState_ELECTED,
        ApplicationState_ALLOCATED, ApplicationState_ERROR, ApplicationState_DEALLOCATED,
        ApplicationState_DEALLOCATE} \<longrightarrow>
      (\<exists>s'. StepWaitForAllocation_tick env app k lastStatus s = Again (Status appState) s' \<and>
         error s' = error s \<and>
         last (ui s') = Say (Sprintf ''Unknown application status: %s''
                               [ArgS (Status_String (Status appState))]))"
    using assms(1) by (simp add: StepWaitForAllocation_tick_def bag_defs Let_def)
  have c5: "Status appState_REST \<in> {''NEW'', ''ELECTED'', ''DEALLOCATE''} \<longrightarrow>
      (\<exists>s'. StepWaitForAllocation_REST_tick env_REST app k lastStatus_REST s =
              Again (Status appState_REST) s' \<and> error s' = error s)"
    using assms(2) by (auto simp: StepWaitForAllocation_REST_tick_def bag_defs Let_def)
  have c6: "Status appState_REST = ''ALLOCATED'' \<longrightarrow>
      (\<forall>err. GetApplicationResource_resp env_REST k (App_UID app) = Inl err \<longrightarrow>
         (\<exists>s'. StepWaitForAllocation_REST_tick env_REST app k lastStatus_REST s =
                 Return (ActionHalt, s') \<and>
            error s' = Some (Errorf ''failed to get application resource: %v'' [ArgV err]))) \<and>
      (GetApplicationResource_resp env_REST k (App_UID app) = Inr None \<longrightarrow>
         (\<exists>s'. StepWaitForAllocation_REST_tick env_REST app k lastStatus_REST s =
                 Again ''ALLOCATED'' s' \<and> error s' = error s)) \<and>
      (\<forall>resource. GetApplicationResource_resp env_REST k (App_UID app) = Inr (Some resource) \<longrightarrow>
         (\<exists>s'. StepWaitForAllocation_REST_tick env_REST app k lastStatus_REST s =
                 Return (ActionContinue, s') \<and>
            error s' = error s \<and> application_resource s' = Some resource \<and>
            generated_data s' =
              (generated_data s)(''ResourceUID'' \<mapsto> AString (Res_UID resource))))"
  proof
    assume st: "Status appState_REST = ''ALLOCATED''"
    show "(\<forall>err. GetApplicationResource_resp env_REST k (App_UID app) = Inl err \<longrightarrow>
         (\<exists>s'. StepWaitForAllocation_REST_tick env_REST app k lastStatus_REST s =
                 Return (ActionHalt, s') \<and>
            error s' = Some (Errorf ''failed to get application resource: %v'' [ArgV err]))) \<and>
      (GetApplicationResource_resp env_REST k (App_UID app) = Inr None \<longrightarrow>
         (\<exists>s'. StepWaitForAllocation_REST_tick env_REST app k lastStatus_REST s =
                 Again ''ALLOCATED'' s' \<and> error s' = error s)) \<and>
      (\<forall>resource. GetApplicationResource_resp env_REST k (App_UID app) = Inr (Some resource) \<longrightarrow>
         (\<exists>s'. StepWaitForAllocation_REST_tick env_REST app k lastStatus_REST s =
                 Return (ActionContinue, s') \<and>
            error s' = error s \<and> application_resource s' = Some resource \<and>
            generated_data s' =
              (generated_data s)(''ResourceUID'' \<mapsto> AString (Res_UID resource))))"
      unfolding a2 [OF st]
      by (rule StepWaitForAllocation_allocated_cases
          [of env_REST k app "''ALLOCATED''" ?s2, unfolded f2])
  qed
  have c7: "Status appState_REST \<in> {''ERROR'', ''DEALLOCATED'', ''RECALLED''} \<longrightarrow>
      (\<exists>s'. StepWaitForAllocation_REST_tick env_REST app k lastStatus_REST s =
              Return (ActionHalt, s') \<and>
         error s' = Some (Errorf ''application failed: %s'' [ArgS (Status appState_REST)]))"
    using assms(2) by (auto simp: StepWaitForAllocation_REST_tick_def bag_defs Let_def)
  have c8: "Status appState_REST \<notin> {''NEW'', ''ELECTED'', ''DEALLOCATE'', ''ALLOCATED'', ''ERROR'',
        ''DEALLOCATED'', ''RECALLED''} \<longrightarrow>
      (\<exists>s'. StepWaitForAllocation_REST_tick env_REST app k lastStatus_REST s =
              Again (Status appState_REST) s' \<and> error s' = error s \<and>
         last (ui s') = Say (Sprintf ''Unknown application status: %s''
                               [ArgS (Status appState_REST)]))"
    using assms(2) by (simp add: StepWaitForAllocation_REST_tick_def bag_defs Let_def)
  from c1 c2 c3 c4 c5 c6 c7 c8 show ?thesis by (intro conjI)
qed


text \<open>
  C1 as stated fails in both versions: on the REST client the status \<^verbatim>\<open>DEALLOCATE\<close> goes
  round again without an error, and on the RPC client \<^verbatim>\<open>RECALLED\<close> does.
\<close>

theorem StepWaitForAllocation_classification_counterexample:
  "iteration_action
     (StepWaitForAllocation_REST_tick (example_world (\<lambda>k. ''DEALLOCATE'')) example_app 0 []
        example_bag_allocated) = None \<and>
   error (iteration_state
     (StepWaitForAllocation_REST_tick (example_world (\<lambda>k. ''DEALLOCATE'')) example_app 0 []
        example_bag_allocated)) = None \<and>
   iteration_action
     (StepWaitForAllocation_tick (example_world (\<lambda>k. ApplicationState_RECALLED)) example_app 0
        (UNRECOGNIZED 0) example_bag_allocated) = None \<and>
   error (iteration_state
     (StepWaitForAllocation_tick (example_world (\<lambda>k. ApplicationState_RECALLED)) example_app 0
        (UNRECOGNIZED 0) example_bag_allocated)) = None"
  by (simp add: StepWaitForAllocation_REST_tick_def StepWaitForAllocation_tick_def
      example_defs bag_defs Let_def)

theorem StepWaitForAllocation_classification_witness:
  "(\<exists>s'. StepWaitForAllocation_tick (example_world (\<lambda>k. ApplicationState_NEW)) example_app 0
            (UNRECOGNIZED 0) example_bag_allocated = Again ApplicationState_NEW s' \<and>
      error s' = None) \<and>
   (\<exists>s'. StepWaitForAllocation_REST_tick (example_world (\<lambda>k. ''DEALLOCATE'')) example_app 0 []
            example_bag_allocated = Again ''DEALLOCATE'' s' \<and>
      error s' = None) \<and>
   (\<exists>s'. StepWaitForAllocation_tick (example_world (\<lambda>k. ApplicationState_ERROR)) example_app 0
            (UNRECOGNIZED 0) example_bag_allocated = Return (ActionHalt, s') \<and>
      error s' = Some (Errorf ''application failed: %s'' [ArgS ''ERROR''])) \<and>
   (\<exists>s'. StepWaitForAllocation_REST_tick (example_world (\<lambda>k. ''RECALLED'')) example_app 0 []
            example_bag_allocated = Return (ActionHalt, s') \<and>
      error s' = Some (Errorf ''application failed: %s'' [ArgS ''RECALLED''])) \<and>
   (\<exists>s'. StepWaitForAllocation_tick (example_world (\<lambda>k. ApplicationState_RECALLED)) example_app 0
            (UNRECOGNIZED 0) example_bag_allocated = Again ApplicationState_RECALLED s' \<and>
      error s' = None \<and>
      last (ui s') = Say (Sprintf ''Unknown application status: %s'' [ArgS ''RECALLED''])) \<and>
   (\<exists>s'. StepWaitForAllocation_REST_tick (example_world (\<lambda>k. ''PAUSED'')) example_app 0 []
            example_bag_allocated = Again ''PAUSED'' s' \<and>
      error s' = None \<and>
      last (ui s') = Say (Sprintf ''Unknown application status: %s'' [ArgS ''PAUSED''])) \<and>
   (\<exists>s'. StepWaitForAllocation_tick (example_world (\<lambda>k. ApplicationState_ALLOCATED)) example_app 0
            (UNRECOGNIZED 0) example_bag_allocated = Return (ActionContinue, s') \<and>
      error s' = None \<and>
      application_resource s' = Some \<lparr>Res_UID = ''res-1'', Res_IPAddr = ''10.0.0.5''\<rparr> \<and>
      generated_data s' = [''ResourceUID'' \<mapsto> AString ''res-1'']) \<and>
   (\<exists>s'. StepWaitForAllocation_REST_tick (example_world (\<lambda>k. ''ALLOCATED'')) example_app 0 []
            example_bag_allocated = Return (ActionContinue, s') \<and>
      error s' = None \<and>
      application_resource s' = Some \<lparr>Res_UID = ''res-1'', Res_IPAddr = ''10.0.0.5''\<rparr> \<and>
      generated_data s' = [''ResourceUID'' \<mapsto> AString ''res-1''])"
proof -
  have r: "GetApplicationState_resp (example_world (\<lambda>k. st)) 0 (App_UID example_app) =
      Inr \<lparr>Status = st, Description = []\<rparr>" for st :: 's
    by (simp add: example_world_def)
  have g: "GetApplicationResource_resp (example_world (\<lambda>k. st)) 0 (App_UID example_app) =
      Inr (Some \<lparr>Res_UID = ''res-1'', Res_IPAddr = ''10.0.0.5''\<rparr>)" for st :: 's
    by (simp add: example_world_def)
  have e: "error example_bag_allocated = None" "generated_data example_bag_allocated = Map.empty"
    by (simp_all add: example_defs)
  note T = StepWaitForAllocation_classification
  have w1: "\<exists>s'. StepWaitForAllocation_tick (example_world (\<lambda>k. ApplicationState_NEW))
      example_app 0 (UNRECOGNIZED 0) example_bag_allocated = Again ApplicationState_NEW s' \<and>
      error s' = None"
    using T [OF r [of ApplicationState_NEW] r [of "''DEALLOCATE''"],
        of "UNRECOGNIZED 0" example_bag_allocated "[]", THEN conjunct1]
    by (simp add: e)
  have w2: "\<exists>s'. StepWaitForAllocation_REST_tick (example_world (\<lambda>k. ''DEALLOCATE''))
      example_app 0 [] example_bag_allocated = Again ''DEALLOCATE'' s' \<and> error s' = None"
    using T [OF r [of ApplicationState_NEW] r [of "''DEALLOCATE''"],
        of "UNRECOGNIZED 0" example_bag_allocated "[]",
        THEN conjunct2, THEN conjunct2, THEN conjunct2, THEN conjunct2, THEN conjunct1]
    by (simp add: e)
  have w3: "\<exists>s'. StepWaitForAllocation_tick (example_world (\<lambda>k. ApplicationState_ERROR))
      example_app 0 (UNRECOGNIZED 0) example_bag_allocated = Return (ActionHalt, s') \<and>
      error s' = Some (Errorf ''application failed: %s'' [ArgS ''ERROR''])"
    using T [OF r [of ApplicationState_ERROR] r [of "''RECALLED''"],
        of "UNRECOGNIZED 0" example_bag_allocated "[]",
        THEN conjunct2, THEN conjunct2, THEN conjunct1]
    by (simp add: e)
  have w4: "\<exists>s'. StepWaitForAllocation_REST_tick (example_world (\<lambda>k. ''RECALLED''))
      example_app 0 [] example_bag_allocated = Return (ActionHalt, s') \<and>
      error s' = Some (Errorf ''application failed: %s'' [ArgS ''RECALLED''])"
    using T [OF r [of ApplicationState_ERROR] r [of "''RECALLED''"],
        of "UNRECOGNIZED 0" example_bag_allocated "[]",
        THEN conjunct2, THEN conjunct2, THEN conjunct2, THEN conjunct2, THEN conjunct2,
        THEN conjunct2, THEN conjunct1]
    by (simp add: e)
  have w5: "\<exists>s'. StepWaitForAllocation_tick (example_world (\<lambda>k. ApplicationState_RECALLED))
      example_app 0 (UNRECOGNIZED 0) example_bag_allocated = Again ApplicationState_RECALLED s' \<and>
      error s' = None \<and>
      last (ui s') = Say (Sprintf ''Unknown application status: %s'' [ArgS ''RECALLED''])"
    using T [OF r [of ApplicationState_RECALLED] r [of "''PAUSED''"],
        of "UNRECOGNIZED 0" example_bag_allocated "[]",
        THEN conjunct2, THEN conjunct2, THEN conjunct2, THEN conjunct1]
    by (simp add: e)
  have w6: "\<exists>s'. StepWaitForAllocation_REST_tick (example_world (\<lambda>k. ''PAUSED''))
      example_app 0 [] example_bag_allocated = Again ''PAUSED'' s' \<and> error s' = None \<and>
      last (ui s') = Say (Sprintf ''Unknown application status: %s'' [ArgS ''PAUSED''])"
    using T [OF r [of ApplicationState_RECALLED] r [of "''PAUSED''"],
        of "UNRECOGNIZED 0" example_bag_allocated "[]",
        THEN conjunct2, THEN conjunct2, THEN conjunct2, THEN conjunct2, THEN conjunct2,
        THEN conjunct2, THEN conjunct2]
    by (simp add: e)
  have w7: "\<exists>s'. StepWaitForAllocation_tick (example_world (\<lambda>k. ApplicationState_ALLOCATED))
      example_app 0 (UNRECOGNIZED 0) example_bag_allocated = Return (ActionContinue, s') \<and>
      error s' = None \<and>
      application_resource s' = Some \<lparr>Res_UID = ''res-1'', Res_IPAddr = ''10.0.0.5''\<rparr> \<and>
      generated_data s' = [''ResourceUID'' \<mapsto> AString ''res-1'']"
    using T [OF r [of ApplicationState_ALLOCATED] r [of "''ALLOCATED''"],
        of "UNRECOGNIZED 0" example_bag_allocated "[]",
        THEN conjunct2, THEN conjunct1]
    by (simp add: e g)
  have w8: "\<exists>s'. StepWaitForAllocation_REST_tick (example_world (\<lambda>k. ''ALLOCATED''))
      example_app 0 [] example_bag_allocated = Return (ActionContinue, s') \<and>
      error s' = None \<and>
      application_resource s' = Some \<lparr>Res_UID = ''res-1'', Res_IPAddr = ''10.0.0.5''\<rparr> \<and>
      generated_data s' = [''ResourceUID'' \<mapsto> AString ''res-1'']"
    using T [OF r [of ApplicationState_ALLOCATED] r [of "''ALLOCATED''"],
        of "UNRECOGNIZED 0" example_bag_allocated "[]",
        THEN conjunct2, THEN conjunct2, THEN conjunct2, THEN conjunct2, THEN conjunct2,
        THEN conjunct1]
    by (simp add: e g)
  from w1 w2 w3 w4 w5 w6 w7 w8 show ?thesis by (intro conjI)
qed


section \<open>Wait-For-Ready: the timeout\<close>

lemma StepWaitForAllocation_tick_cases:
  "(\<forall>err. GetApplicationState_resp env k (App_UID app) = Inl err \<longrightarrow>
      (\<exists>s1. StepWaitForAllocation_tick env app k l s = Return (ActionHalt, s1) \<and>
         error s1 = Some (Errorf ''failed to get application state: %v'' [ArgV err]) \<and>
         requests s1 = requests s @ [GetApplicationState (App_UID app)])) \<and>
   (\<forall>st. GetApplicationState_resp env k (App_UID app) = Inr st \<and>
         Status st \<in> {ApplicationState_ERROR, ApplicationState_DEALLOCATED,
                       ApplicationState_DEALLOCATE} \<longrightarrow>
      (\<exists>s1. StepWaitForAllocation_tick env app k l s = Return (ActionHalt, s1) \<and>
         error s1 = Some (Errorf ''application failed: %s'' [ArgS (Status_String (Status st))]) \<and>
         requests s1 = requests s @ [GetApplicationState (App_UID app)])) \<and>
   (\<forall>st. GetApplicationState_resp env k (App_UID app) = Inr st \<and>
         Status st \<notin> {ApplicationState_ALLOCATED, ApplicationState_ERROR,
                       ApplicationState_DEALLOCATED, ApplicationState_DEALLOCATE} \<longrightarrow>
      (\<exists>s1. StepWaitForAllocation_tick env app k l s = Again (Status st) s1 \<and>
         error s1 = error s \<and> config s1 = config s \<and>
         requests s1 = requests s @ [GetApplicationState (App_UID app)]))"
  by (auto simp: StepWaitForAllocation_tick_def bag_defs Let_def)

lemma StepWaitForAllocation_REST_tick_cases:
  "(\<forall>err. GetApplicationState_resp env k (App_UID app) = Inl err \<longrightarrow>
      (\<exists>s1. StepWaitForAllocation_REST_tick env app k l s = Return (ActionHalt, s1) \<and>
         error s1 = Some (Errorf ''failed to get application state: %v'' [ArgV err]) \<and>
         requests s1 = requests s @ [GetApplicationState (App_UID app)])) \<and>
   (\<forall>st. GetApplicationState_resp env k (App_UID app) = Inr st \<and>
         Status st \<in> {''ERROR'', ''DEALLOCATED'', ''RECALLED''} \<longrightarrow>
      (\<exists>s1. StepWaitForAllocation_REST_tick env app k l s = Return (ActionHalt, s1) \<and>
         error s1 = Some (Errorf ''application failed: %s'' [ArgS (Status st)]) \<and>
         requests s1 = requests s @ [GetApplicationState (App_UID app)])) \<and>
   (\<forall>st. GetApplicationState_resp env k (App_UID app) = Inr st \<and>
         Status st \<notin> {''ALLOCATED'', ''ERROR'', ''DEALLOCATED'', ''RECALLED''} \<longrightarrow>
      (\<exists>s1. StepWaitForAllocation_REST_tick env app k l s = Again (Status st) s1 \<and>
         error s1 = error s \<and> config s1 = config s \<and>
         requests s1 = requests s @ [GetApplicationState (App_UID app)]))"
  by (auto simp: StepWaitForAllocation_REST_tick_def bag_defs Let_def)

text \<open>
  The loop over any ticker branch that, as long as the status is not the allocated
  one, makes one status request and either halts with an error that is not the timeout
  error or goes round again: without an allocated status it halts, after at most \<open>n\<close>
  requests, and with the timeout error exactly when no pass halted.
\<close>

lemma wait_loop_never_allocated:
  fixes tick :: "nat \<Rightarrow> 'l \<Rightarrow> StateBag \<Rightarrow> ('l, StepAction \<times> StateBag) iteration"
  assumes halts: "\<forall>k l s. \<not> waits k \<and> \<not> allocated k \<longrightarrow>
      (\<exists>s1. tick k l s = Return (ActionHalt, s1) \<and> error s1 = Some (fail k) \<and>
        requests s1 = requests s @ [r])"
    and fail: "\<forall>k. fail k \<noteq> Errorf ''allocation timeout'' []"
    and again: "\<forall>k l s. waits k \<and> \<not> allocated k \<longrightarrow>
      (\<exists>l1 s1. tick k l s = Again l1 s1 \<and> requests s1 = requests s @ [r])"
    and never: "\<forall>j<n. \<not> allocated (k + j)"
  shows "\<exists>s' m. poll_loop tick StepWaitForAllocation_timeout n k l s = (ActionHalt, s') \<and>
           m \<le> n \<and> requests s' = requests s @ replicate m r \<and> error s' \<noteq> None \<and>
           ((error s' = Some (Errorf ''allocation timeout'' [])) = (\<forall>j<n. waits (k + j))) \<and>
           ((\<forall>j<n. waits (k + j)) \<longrightarrow> m = n) \<and>
           (\<forall>i<n. (\<forall>j<i. waits (k + j)) \<and> \<not> waits (k + i) \<longrightarrow>
              m = Suc i \<and> error s' = Some (fail (k + i)))"
  using never
proof (induction n arbitrary: k l s)
  case 0
  show ?case
    by (rule exI [of _ "snd (StepWaitForAllocation_timeout s)"], rule exI [of _ 0])
      (simp add: StepWaitForAllocation_timeout_def bag_defs)
next
  case (Suc n)
  from Suc.prems have na: "\<not> allocated k" and rest: "\<forall>j<n. \<not> allocated (Suc k + j)"
    by force+
  show ?case
  proof (cases "waits k")
    case False
    from halts False na obtain s1 where s1:
      "tick k l s = Return (ActionHalt, s1)" "error s1 = Some (fail k)"
      "requests s1 = requests s @ [r]"
      by blast
    from s1(2) fail have s1e: "error s1 \<noteq> None"
      "error s1 \<noteq> Some (Errorf ''allocation timeout'' [])"
      by simp_all
    have "\<not> (\<forall>j<Suc n. waits (k + j))" using False by force
    then have nw: "(\<forall>j<Suc n. waits (k + j)) = False" by simp
    have first: "i = 0" if "\<forall>j<i. waits (k + j)" for i
    proof (rule ccontr)
      assume "i \<noteq> 0"
      then have "0 < i" by simp
      with that have "waits (k + 0)" by blast
      with False show False by simp
    qed
    have p: "\<forall>i<Suc n. (\<forall>j<i. waits (k + j)) \<and> \<not> waits (k + i) \<longrightarrow>
        1 = Suc i \<and> error s1 = Some (fail (k + i))"
    proof (intro allI impI)
      fix i
      assume "i < Suc n" and "(\<forall>j<i. waits (k + j)) \<and> \<not> waits (k + i)"
      then have "i = 0" using first [of i] by simp
      with s1(2) show "1 = Suc i \<and> error s1 = Some (fail (k + i))" by simp
    qed
    have loop: "poll_loop tick StepWaitForAllocation_timeout (Suc n) k l s = (ActionHalt, s1)"
      using s1(1) by simp
    show ?thesis
      apply (rule exI [of _ s1], rule exI [of _ 1])
      unfolding loop
      using s1(3) s1e p by (simp add: nw)
  next
    case True
    from again True na obtain l1 s1 where s1:
      "tick k l s = Again l1 s1" "requests s1 = requests s @ [r]"
      by blast
    from Suc.IH [OF rest, of l1 s1] obtain s' m where m:
      "poll_loop tick StepWaitForAllocation_timeout n (Suc k) l1 s1 = (ActionHalt, s')"
      "m \<le> n" "requests s' = requests s1 @ replicate m r" "error s' \<noteq> None"
      "(error s' = Some (Errorf ''allocation timeout'' [])) = (\<forall>j<n. waits (Suc k + j))"
      "(\<forall>j<n. waits (Suc k + j)) \<longrightarrow> m = n"
      "\<forall>i<n. (\<forall>j<i. waits (Suc k + j)) \<and> \<not> waits (Suc k + i) \<longrightarrow>
         m = Suc i \<and> error s' = Some (fail (Suc k + i))"
      by (elim exE conjE)
    have all: "(\<forall>j<Suc n. waits (k + j)) = (\<forall>j<n. waits (Suc k + j))"
      using True by (auto simp: less_Suc_eq_0_disj)
    have p: "\<forall>i<Suc n. (\<forall>j<i. waits (k + j)) \<and> \<not> waits (k + i) \<longrightarrow>
        Suc m = Suc i \<and> error s' = Some (fail (k + i))"
    proof (intro allI impI)
      fix i
      assume i: "i < Suc n" and h: "(\<forall>j<i. waits (k + j)) \<and> \<not> waits (k + i)"
      from h True have "i \<noteq> 0" by (cases i) auto
      then obtain i1 where i1: "i = Suc i1" by (cases i) auto
      from i i1 have "i1 < n" by simp
      moreover have "\<forall>j<i1. waits (Suc k + j)"
      proof (intro allI impI)
        fix j assume "j < i1"
        then have "Suc j < i" using i1 by simp
        with h have "waits (k + Suc j)" by blast
        then show "waits (Suc k + j)" by simp
      qed
      moreover from h i1 have "\<not> waits (Suc k + i1)" by simp
      ultimately have "m = Suc i1 \<and> error s' = Some (fail (Suc k + i1))"
        using m(7) by blast
      then show "Suc m = Suc i \<and> error s' = Some (fail (k + i))"
        using i1 by simp
    qed
    have loop: "poll_loop tick StepWaitForAllocation_timeout (Suc n) k l s = (ActionHalt, s')"
      using s1(1) m(1) by simp
    show ?thesis
      apply (rule exI [of _ s'], rule exI [of _ "Suc m"])
      unfolding loop all
      using s1(2) m(2-6) p by (simp add: replicate_app_Cons_same)
  qed
qed


lemma StepWaitForAllocation_loop_never_allocated:
  assumes "\<forall>k<n. \<forall>st. GetApplicationState_resp env k (App_UID app) = Inr st \<longrightarrow>
             Status st \<noteq> ApplicationState_ALLOCATED"
  shows "\<exists>s' m. poll_loop (StepWaitForAllocation_tick env app) StepWaitForAllocation_timeout
                   n 0 l s = (ActionHalt, s') \<and>
           m \<le> n \<and> requests s' = requests s @ replicate m (GetApplicationState (App_UID app)) \<and>
           error s' \<noteq> None \<and>
           ((error s' = Some (Errorf ''allocation timeout'' [])) =
            (\<forall>k<n. \<exists>st. GetApplicationState_resp env k (App_UID app) = Inr st \<and>
               Status st \<notin> {ApplicationState_ERROR, ApplicationState_DEALLOCATED,
                             ApplicationState_DEALLOCATE})) \<and>
           (error s' = Some (Errorf ''allocation timeout'' []) \<longrightarrow> m = n) \<and>
           (\<forall>i<n. (\<forall>j<i. \<exists>st. GetApplicationState_resp env j (App_UID app) = Inr st \<and>
                        Status st \<notin> {ApplicationState_ERROR, ApplicationState_DEALLOCATED,
                             ApplicationState_DEALLOCATE}) \<and>
                  \<not> (\<exists>st. GetApplicationState_resp env i (App_UID app) = Inr st \<and>
                        Status st \<notin> {ApplicationState_ERROR, ApplicationState_DEALLOCATED,
                             ApplicationState_DEALLOCATE}) \<longrightarrow>
              m = Suc i \<and>
              error s' = Some (case GetApplicationState_resp env i (App_UID app) of
                  Inl err \<Rightarrow> Errorf ''failed to get application state: %v'' [ArgV err]
                | Inr st \<Rightarrow> Errorf ''application failed: %s'' [ArgS (Status_String (Status st))]))"
proof -
  define waits where "waits k = (\<exists>st. GetApplicationState_resp env k (App_UID app) = Inr st \<and>
    Status st \<notin> {ApplicationState_ERROR, ApplicationState_DEALLOCATED,
                             ApplicationState_DEALLOCATE})" for k
  define allocated where "allocated k = (\<exists>st. GetApplicationState_resp env k (App_UID app) = Inr st \<and>
    Status st = ApplicationState_ALLOCATED)" for k
  define fail where "fail k = (case GetApplicationState_resp env k (App_UID app) of
      Inl err \<Rightarrow> Errorf ''failed to get application state: %v'' [ArgV err]
    | Inr st \<Rightarrow> Errorf ''application failed: %s'' [ArgS (Status_String (Status st))])" for k
  have halts0: "\<exists>s1. StepWaitForAllocation_tick env app k l s = Return (ActionHalt, s1) \<and>
      error s1 = Some (fail k) \<and>
      requests s1 = requests s @ [GetApplicationState (App_UID app)]"
    if "\<not> waits k" "\<not> allocated k" for k l s
  proof (cases "GetApplicationState_resp env k (App_UID app)")
    case (Inl err)
    with StepWaitForAllocation_tick_cases [of env k app l s, THEN conjunct1]
    show ?thesis by (auto simp: fail_def)
  next
    case (Inr st)
    with that have "Status st \<in> {ApplicationState_ERROR, ApplicationState_DEALLOCATED,
                             ApplicationState_DEALLOCATE}"
      by (auto simp: waits_def)
    with Inr StepWaitForAllocation_tick_cases [of env k app l s, THEN conjunct2, THEN conjunct1]
    show ?thesis by (auto simp: fail_def)
  qed
  have again0: "\<exists>l1 s1. StepWaitForAllocation_tick env app k l s = Again l1 s1 \<and>
      requests s1 = requests s @ [GetApplicationState (App_UID app)]"
    if "waits k" "\<not> allocated k" for k l s
  proof -
    from that obtain st where st: "GetApplicationState_resp env k (App_UID app) = Inr st"
      "Status st \<notin> {ApplicationState_ALLOCATED, ApplicationState_ERROR, ApplicationState_DEALLOCATED,
                             ApplicationState_DEALLOCATE}"
      by (auto simp: waits_def allocated_def)
    with StepWaitForAllocation_tick_cases [of env k app l s, THEN conjunct2, THEN conjunct2]
    show ?thesis by blast
  qed
  have never: "\<forall>j<n. \<not> allocated (0 + j)"
    using assms by (auto simp: allocated_def)
  have halts: "\<forall>k l s. \<not> waits k \<and> \<not> allocated k \<longrightarrow>
      (\<exists>s1. StepWaitForAllocation_tick env app k l s = Return (ActionHalt, s1) \<and>
        error s1 = Some (fail k) \<and>
        requests s1 = requests s @ [GetApplicationState (App_UID app)])"
    using halts0 by blast
  have nt: "\<forall>k. fail k \<noteq> Errorf ''allocation timeout'' []"
    by (simp add: fail_def split: sum.splits)
  have again: "\<forall>k l s. waits k \<and> \<not> allocated k \<longrightarrow>
      (\<exists>l1 s1. StepWaitForAllocation_tick env app k l s = Again l1 s1 \<and>
        requests s1 = requests s @ [GetApplicationState (App_UID app)])"
    using again0 by blast
  from wait_loop_never_allocated [OF halts nt again never, of l s]
  obtain s' m where
    "poll_loop (StepWaitForAllocation_tick env app) StepWaitForAllocation_timeout n 0 l s = (ActionHalt, s')"
    "m \<le> n" "requests s' = requests s @ replicate m (GetApplicationState (App_UID app))"
    "error s' \<noteq> None"
    "(error s' = Some (Errorf ''allocation timeout'' [])) = (\<forall>j<n. waits (0 + j))"
    "(\<forall>j<n. waits (0 + j)) \<longrightarrow> m = n"
    "\<forall>i<n. (\<forall>j<i. waits (0 + j)) \<and> \<not> waits (0 + i) \<longrightarrow>
       m = Suc i \<and> error s' = Some (fail (0 + i))"
    by (elim exE conjE)
  then show ?thesis unfolding waits_def fail_def by (intro exI [of _ s'] exI [of _ m]) simp
qed

lemma StepWaitForAllocation_REST_loop_never_allocated:
  assumes "\<forall>k<n. \<forall>st. GetApplicationState_resp env k (App_UID app) = Inr st \<longrightarrow>
             Status st \<noteq> ''ALLOCATED''"
  shows "\<exists>s' m. poll_loop (StepWaitForAllocation_REST_tick env app) StepWaitForAllocation_timeout
                   n 0 l s = (ActionHalt, s') \<and>
           m \<le> n \<and> requests s' = requests s @ replicate m (GetApplicationState (App_UID app)) \<and>
           error s' \<noteq> None \<and>
           ((error s' = Some (Errorf ''allocation timeout'' [])) =
            (\<forall>k<n. \<exists>st. GetApplicationState_resp env k (App_UID app) = Inr st \<and>
               Status st \<notin> {''ERROR'', ''DEALLOCATED'', ''RECALLED''})) \<and>
           (error s' = Some (Errorf ''allocation timeout'' []) \<longrightarrow> m = n) \<and>
           (\<forall>i<n. (\<forall>j<i. \<exists>st. GetApplicationState_resp env j (App_UID app) = Inr st \<and>
                        Status st \<notin> {''ERROR'', ''DEALLOCATED'', ''RECALLED''}) \<and>
                  \<not> (\<exists>st. GetApplicationState_resp env i (App_UID app) = Inr st \<and>
                        Status st \<notin> {''ERROR'', ''DEALLOCATED'', ''RECALLED''}) \<longrightarrow>
              m = Suc i \<and>
              error s' = Some (case GetApplicationState_resp env i (App_UID app) of
                  Inl err \<Rightarrow> Errorf ''failed to get application state: %v'' [ArgV err]
                | Inr st \<Rightarrow> Errorf ''application failed: %s'' [ArgS (Status st)]))"
proof -
  define waits where "waits k = (\<exists>st. GetApplicationState_resp env k (App_UID app) = Inr st \<and>
    Status st \<notin> {''ERROR'', ''DEALLOCATED'', ''RECALLED''})" for k
  define allocated where "allocated k = (\<exists>st. GetApplicationState_resp env k (App_UID app) = Inr st \<and>
    Status st = ''ALLOCATED'')" for k
  define fail where "fail k = (case GetApplicationState_resp env k (App_UID app) of
      Inl err \<Rightarrow> Errorf ''failed to get application state: %v'' [ArgV err]
    | Inr st \<Rightarrow> Errorf ''application failed: %s'' [ArgS (Status st)])" for k
  have halts0: "\<exists>s1. StepWaitForAllocation_REST_tick env app k l s = Return (ActionHalt, s1) \<and>
      error s1 = Some (fail k) \<and>
      requests s1 = requests s @ [GetApplicationState (App_UID app)]"
    if "\<not> waits k" "\<not> allocated k" for k l s
  proof (cases "GetApplicationState_resp env k (App_UID app)")
    case (Inl err)
    with StepWaitForAllocation_REST_tick_cases [of env k app l s, THEN conjunct1]
    show ?thesis by (auto simp: fail_def)
  next
    case (Inr st)
    with that have "Status st \<in> {''ERROR'', ''DEALLOCATED'', ''RECALLED''}"
      by (auto simp: waits_def)
    with Inr StepWaitForAllocation_REST_tick_cases [of env k app l s, THEN conjunct2, THEN conjunct1]
    show ?thesis by (auto simp: fail_def)
  qed
  have again0: "\<exists>l1 s1. StepWaitForAllocation_REST_tick env app k l s = Again l1 s1 \<and>
      requests s1 = requests s @ [GetApplicationState (App_UID app)]"
    if "waits k" "\<not> allocated k" for k l s
  proof -
    from that obtain st where st: "GetApplicationState_resp env k (App_UID app) = Inr st"
      "Status st \<notin> {''ALLOCATED'', ''ERROR'', ''DEALLOCATED'', ''RECALLED''}"
      by (auto simp: waits_def allocated_def)
    with StepWaitForAllocation_REST_tick_cases [of env k app l s, THEN conjunct2, THEN conjunct2]
    show ?thesis by blast
  qed
  have never: "\<forall>j<n. \<not> allocated (0 + j)"
    using assms by (auto simp: allocated_def)
  have halts: "\<forall>k l s. \<not> waits k \<and> \<not> allocated k \<longrightarrow>
      (\<exists>s1. StepWaitForAllocation_REST_tick env app k l s = Return (ActionHalt, s1) \<and>
        error s1 = Some (fail k) \<and>
        requests s1 = requests s @ [GetApplicationState (App_UID app)])"
    using halts0 by blast
  have nt: "\<forall>k. fail k \<noteq> Errorf ''allocation timeout'' []"
    by (simp add: fail_def split: sum.splits)
  have again: "\<forall>k l s. waits k \<and> \<not> allocated k \<longrightarrow>
      (\<exists>l1 s1. StepWaitForAllocation_REST_tick env app k l s = Again l1 s1 \<and>
        requests s1 = requests s @ [GetApplicationState (App_UID app)])"
    using again0 by blast
  from wait_loop_never_allocated [OF halts nt again never, of l s]
  obtain s' m where
    "poll_loop (StepWaitForAllocation_REST_tick env app) StepWaitForAllocation_timeout n 0 l s = (ActionHalt, s')"
    "m \<le> n" "requests s' = requests s @ replicate m (GetApplicationState (App_UID app))"
    "error s' \<noteq> None"
    "(error s' = Some (Errorf ''allocation timeout'' [])) = (\<forall>j<n. waits (0 + j))"
    "(\<forall>j<n. waits (0 + j)) \<longrightarrow> m = n"
    "\<forall>i<n. (\<forall>j<i. waits (0 + j)) \<and> \<not> waits (0 + i) \<longrightarrow>
       m = Suc i \<and> error s' = Some (fail (0 + i))"
    by (elim exE conjE)
  then show ?thesis unfolding waits_def fail_def by (intro exI [of _ s'] exI [of _ m]) simp
qed


text \<open>
  C9 (as amended). In a world whose scheduler takes the ticker \<open>n\<close> times before the
  deadline of the configured allocation timeout, and in which none of the first \<open>n\<close>
  status requests answers \<^verbatim>\<open>ALLOCATED\<close>, the wait step (in both versions) returns, and
  halts, with an error recorded, after at most \<open>n\<close> status requests. The error is the
  "allocation timeout" error exactly when each of the \<open>n\<close> requests succeeded with a
  status that is not one of the version's terminal failures (then all \<open>n\<close> requests
  were made). Otherwise, with \<open>i\<close> the first request that failed or answered with a
  terminal failure, the step made \<open>i + 1\<close> requests and the error is that of request
  \<open>i\<close>: "failed to get application state" with the error of the request, or
  "application failed" with the status.
\<close>

theorem StepWaitForAllocation_timeout_enforced:
  assumes "api_client s = Some client"
    and "application s = Some app"
    and "\<forall>k<select_ticks env (allocationTimeoutDuration (config s)) (5 * Second).
           \<forall>st. GetApplicationState_resp env k (App_UID app) = Inr st \<longrightarrow>
             Status st \<noteq> ApplicationState_ALLOCATED"
    and "\<forall>k<select_ticks env_REST (allocationTimeoutDuration (config s)) (5 * Second).
           \<forall>st. GetApplicationState_resp env_REST k (App_UID app) = Inr st \<longrightarrow>
             Status st \<noteq> ''ALLOCATED''"
  shows "(\<exists>s' m. StepWaitForAllocation_Run env s = Some (ActionHalt, s') \<and>
            m \<le> select_ticks env (allocationTimeoutDuration (config s)) (5 * Second) \<and>
            requests s' = requests s @ replicate m (GetApplicationState (App_UID app)) \<and>
            error s' \<noteq> None \<and>
            ((error s' = Some (Errorf ''allocation timeout'' [])) =
             (\<forall>k<select_ticks env (allocationTimeoutDuration (config s)) (5 * Second).
                \<exists>st. GetApplicationState_resp env k (App_UID app) = Inr st \<and>
                  Status st \<notin> {ApplicationState_ERROR, ApplicationState_DEALLOCATED,
                             ApplicationState_DEALLOCATE})) \<and>
            (error s' = Some (Errorf ''allocation timeout'' []) \<longrightarrow>
               m = select_ticks env (allocationTimeoutDuration (config s)) (5 * Second)) \<and>
            (\<forall>i<select_ticks env (allocationTimeoutDuration (config s)) (5 * Second).
               (\<forall>j<i. \<exists>st. GetApplicationState_resp env j (App_UID app) = Inr st \<and>
                     Status st \<notin> {ApplicationState_ERROR, ApplicationState_DEALLOCATED,
                             ApplicationState_DEALLOCATE}) \<and>
               \<not> (\<exists>st. GetApplicationState_resp env i (App_UID app) = Inr st \<and>
                     Status st \<notin> {ApplicationState_ERROR, ApplicationState_DEALLOCATED,
                             ApplicationState_DEALLOCATE}) \<longrightarrow>
               m = Suc i \<and>
               error s' = Some (case GetApplicationState_resp env i (App_UID app) of
                   Inl err \<Rightarrow> Errorf ''failed to get application state: %v'' [ArgV err]
                 | Inr st \<Rightarrow> Errorf ''application failed: %s'' [ArgS (Status_String (Status st))]))) \<and>
         (\<exists>s' m. StepWaitForAllocation_REST_Run env_REST s = Some (ActionHalt, s') \<and>
            m \<le> select_ticks env_REST (allocationTimeoutDuration (config s)) (5 * Second) \<and>
            requests s' = requests s @ replicate m (GetApplicationState (App_UID app)) \<and>
            error s' \<noteq> None \<and>
            ((error s' = Some (Errorf ''allocation timeout'' [])) =
             (\<forall>k<select_ticks env_REST (allocationTimeoutDuration (config s)) (5 * Second).
                \<exists>st. GetApplicationState_resp env_REST k (App_UID app) = Inr st \<and>
                  Status st \<notin> {''ERROR'', ''DEALLOCATED'', ''RECALLED''})) \<and>
            (error s' = Some (Errorf ''allocation timeout'' []) \<longrightarrow>
               m = select_ticks env_REST (allocationTimeoutDuration (config s)) (5 * Second)) \<and>
            (\<forall>i<select_ticks env_REST (allocationTimeoutDuration (config s)) (5 * Second).
               (\<forall>j<i. \<exists>st. GetApplicationState_resp env_REST j (App_UID app) = Inr st \<and>
                     Status st \<notin> {''ERROR'', ''DEALLOCATED'', ''RECALLED''}) \<and>
               \<not> (\<exists>st. GetApplicationState_resp env_REST i (App_UID app) = Inr st \<and>
                     Status st \<notin> {''ERROR'', ''DEALLOCATED'', ''RECALLED''}) \<longrightarrow>
               m = Suc i \<and>
               error s' = Some (case GetApplicationState_resp env_REST i (App_UID app) of
                   Inl err \<Rightarrow> Errorf ''failed to get application state: %v'' [ArgV err]
                 | Inr st \<Rightarrow> Errorf ''application failed: %s'' [ArgS (Status st)])))"
proof
  let ?s1 = "ui_Say (Plain ''Waiting for application to be allocated...'') s"
  have r: "requests ?s1 = requests s" by (simp add: bag_defs)
  have "StepWaitForAllocation_Run env s =
      Some (poll_loop (StepWaitForAllocation_tick env app) StepWaitForAllocation_timeout
        (select_ticks env (allocationTimeoutDuration (config s)) (5 * Second)) 0
        (UNRECOGNIZED 0) ?s1)"
    using assms(1,2) by (simp add: StepWaitForAllocation_Run_def)
  with StepWaitForAllocation_loop_never_allocated [OF assms(3), of "UNRECOGNIZED 0" ?s1]
  show "\<exists>s' m. StepWaitForAllocation_Run env s = Some (ActionHalt, s') \<and>
            m \<le> select_ticks env (allocationTimeoutDuration (config s)) (5 * Second) \<and>
            requests s' = requests s @ replicate m (GetApplicationState (App_UID app)) \<and>
            error s' \<noteq> None \<and>
            ((error s' = Some (Errorf ''allocation timeout'' [])) =
             (\<forall>k<select_ticks env (allocationTimeoutDuration (config s)) (5 * Second).
                \<exists>st. GetApplicationState_resp env k (App_UID app) = Inr st \<and>
                  Status st \<notin> {ApplicationState_ERROR, ApplicationState_DEALLOCATED,
                             ApplicationState_DEALLOCATE})) \<and>
            (error s' = Some (Errorf ''allocation timeout'' []) \<longrightarrow>
               m = select_ticks env (allocationTimeoutDuration (config s)) (5 * Second)) \<and>
            (\<forall>i<select_ticks env (allocationTimeoutDuration (config s)) (5 * Second).
               (\<forall>j<i. \<exists>st. GetApplicationState_resp env j (App_UID app) = Inr st \<and>
                     Status st \<notin> {ApplicationState_ERROR, ApplicationState_DEALLOCATED,
                             ApplicationState_DEALLOCATE}) \<and>
               \<not> (\<exists>st. GetApplicationState_resp env i (App_UID app) = Inr st \<and>
                     Status st \<notin> {ApplicationState_ERROR, ApplicationState_DEALLOCATED,
                             ApplicationState_DEALLOCATE}) \<longrightarrow>
               m = Suc i \<and>
               error s' = Some (case GetApplicationState_resp env i (App_UID app) of
                   Inl err \<Rightarrow> Errorf ''failed to get application state: %v'' [ArgV err]
                 | Inr st \<Rightarrow> Errorf ''application failed: %s'' [ArgS (Status_String (Status st))]))"
    unfolding r by simp
next
  let ?s1 = "ui_Say (Plain ''Waiting for application to be allocated...'') s"
  have r: "requests ?s1 = requests s" by (simp add: bag_defs)
  have "StepWaitForAllocation_REST_Run env_REST s =
      Some (poll_loop (StepWaitForAllocation_REST_tick env_REST app) StepWaitForAllocation_timeout
        (select_ticks env_REST (allocationTimeoutDuration (config s)) (5 * Second)) 0 [] ?s1)"
    using assms(1,2) by (simp add: StepWaitForAllocation_REST_Run_def)
  with StepWaitForAllocation_REST_loop_never_allocated [OF assms(4), of "[]" ?s1]
  show "\<exists>s' m. StepWaitForAllocation_REST_Run env_REST s = Some (ActionHalt, s') \<and>
            m \<le> select_ticks env_REST (allocationTimeoutDuration (config s)) (5 * Second) \<and>
            requests s' = requests s @ replicate m (GetApplicationState (App_UID app)) \<and>
            error s' \<noteq> None \<and>
            ((error s' = Some (Errorf ''allocation timeout'' [])) =
             (\<forall>k<select_ticks env_REST (allocationTimeoutDuration (config s)) (5 * Second).
                \<exists>st. GetApplicationState_resp env_REST k (App_UID app) = Inr st \<and>
                  Status st \<notin> {''ERROR'', ''DEALLOCATED'', ''RECALLED''})) \<and>
            (error s' = Some (Errorf ''allocation timeout'' []) \<longrightarrow>
               m = select_ticks env_REST (allocationTimeoutDuration (config s)) (5 * Second)) \<and>
            (\<forall>i<select_ticks env_REST (allocationTimeoutDuration (config s)) (5 * Second).
               (\<forall>j<i. \<exists>st. GetApplicationState_resp env_REST j (App_UID app) = Inr st \<and>
                     Status st \<notin> {''ERROR'', ''DEALLOCATED'', ''RECALLED''}) \<and>
               \<not> (\<exists>st. GetApplicationState_resp env_REST i (App_UID app) = Inr st \<and>
                     Status st \<notin> {''ERROR'', ''DEALLOCATED'', ''RECALLED''}) \<longrightarrow>
               m = Suc i \<and>
               error s' = Some (case GetApplicationState_resp env_REST i (App_UID app) of
                   Inl err \<Rightarrow> Errorf ''failed to get application state: %v'' [ArgV err]
                 | Inr st \<Rightarrow> Errorf ''application failed: %s'' [ArgS (Status st)]))"
    unfolding r by simp
qed

text \<open>
  C9 as stated fails on a status sequence that never reaches \<^verbatim>\<open>ALLOCATED\<close> but reaches
  \<^verbatim>\<open>ERROR\<close>: the step halts with the error "application failed", not with the timeout
  error.
\<close>

theorem StepWaitForAllocation_timeout_enforced_counterexample:
  "map_option fst
     (StepWaitForAllocation_Run (example_world (\<lambda>k. ApplicationState_ERROR))
        example_bag_allocated) = Some ActionHalt \<and>
   map_option (error \<circ> snd)
     (StepWaitForAllocation_Run (example_world (\<lambda>k. ApplicationState_ERROR))
        example_bag_allocated) =
     Some (Some (Errorf ''application failed: %s'' [ArgS ''ERROR''])) \<and>
   map_option fst
     (StepWaitForAllocation_REST_Run (example_world (\<lambda>k. ''ERROR'')) example_bag_allocated) =
     Some ActionHalt \<and>
   map_option (error \<circ> snd)
     (StepWaitForAllocation_REST_Run (example_world (\<lambda>k. ''ERROR'')) example_bag_allocated) =
     Some (Some (Errorf ''application failed: %s'' [ArgS ''ERROR'']))"
proof -
  let ?env = "example_world (\<lambda>k. ApplicationState_ERROR)"
  let ?envR = "example_world (\<lambda>k. ''ERROR'')"
  let ?s1 = "ui_Say (Plain ''Waiting for application to be allocated...'') example_bag_allocated"
  have n: "select_ticks (example_world st)
      (allocationTimeoutDuration (config example_bag_allocated)) (5 * Second) = 120"
    for st :: "nat \<Rightarrow> 's"
    by (simp add: example_defs Minute_def Second_def)
  have h: "api_client example_bag_allocated =
      Some (NewAPIClient ''https://fish.example:8001/grpc'' ''packer'' ''secret'')"
    "application example_bag_allocated = Some example_app"
    by (simp_all add: example_defs)
  have r: "GetApplicationState_resp (example_world st) k uid =
      Inr \<lparr>Status = st k, Description = []\<rparr>" for st :: "nat \<Rightarrow> 's" and k uid
    by (simp add: example_world_def)
  have run: "StepWaitForAllocation_Run ?env example_bag_allocated =
      Some (poll_loop (StepWaitForAllocation_tick ?env example_app)
        StepWaitForAllocation_timeout 120 0 (UNRECOGNIZED 0) ?s1)"
    by (simp add: StepWaitForAllocation_Run_def h n)
  have runR: "StepWaitForAllocation_REST_Run ?envR example_bag_allocated =
      Some (poll_loop (StepWaitForAllocation_REST_tick ?envR example_app)
        StepWaitForAllocation_timeout 120 0 [] ?s1)"
    by (simp add: StepWaitForAllocation_REST_Run_def h n)
  from StepWaitForAllocation_tick_cases
    [of ?env 0 example_app "UNRECOGNIZED 0" ?s1, THEN conjunct2, THEN conjunct1]
  obtain s1 where s1: "StepWaitForAllocation_tick ?env example_app 0 (UNRECOGNIZED 0) ?s1 =
      Return (ActionHalt, s1)"
    "error s1 = Some (Errorf ''application failed: %s'' [ArgS ''ERROR''])"
    by (auto simp: r)
  from StepWaitForAllocation_REST_tick_cases
    [of ?envR 0 example_app "[]" ?s1, THEN conjunct2, THEN conjunct1]
  obtain s2 where s2: "StepWaitForAllocation_REST_tick ?envR example_app 0 [] ?s1 =
      Return (ActionHalt, s2)"
    "error s2 = Some (Errorf ''application failed: %s'' [ArgS ''ERROR''])"
    by (auto simp: r)
  have "poll_loop (StepWaitForAllocation_tick ?env example_app)
      StepWaitForAllocation_timeout 120 0 (UNRECOGNIZED 0) ?s1 = (ActionHalt, s1)"
    by (subst poll_loop_unfold) (simp add: s1)
  moreover have "poll_loop (StepWaitForAllocation_REST_tick ?envR example_app)
      StepWaitForAllocation_timeout 120 0 [] ?s1 = (ActionHalt, s2)"
    by (subst poll_loop_unfold) (simp add: s2)
  ultimately show ?thesis
    by (simp add: run runR s1 s2)
qed

theorem StepWaitForAllocation_timeout_enforced_witness:
  "select_ticks (example_world (\<lambda>k. ApplicationState_NEW))
     (allocationTimeoutDuration (config example_bag_allocated)) (5 * Second) = 120 \<and>
   (\<exists>s'. StepWaitForAllocation_Run (example_world (\<lambda>k. ApplicationState_NEW))
            example_bag_allocated = Some (ActionHalt, s') \<and>
      requests s' = replicate 120 (GetApplicationState ''app-1'') \<and>
      error s' = Some (Errorf ''allocation timeout'' [])) \<and>
   (\<exists>s'. StepWaitForAllocation_REST_Run (example_world (\<lambda>k. ''ELECTED''))
            example_bag_allocated = Some (ActionHalt, s') \<and>
      requests s' = replicate 120 (GetApplicationState ''app-1'') \<and>
      error s' = Some (Errorf ''allocation timeout'' [])) \<and>
   (\<exists>s'. StepWaitForAllocation_Run
            (example_world (\<lambda>k. if k = 2 then ApplicationState_DEALLOCATE
                                else ApplicationState_ELECTED))
            example_bag_allocated = Some (ActionHalt, s') \<and>
      requests s' = replicate 3 (GetApplicationState ''app-1'') \<and>
      error s' = Some (Errorf ''application failed: %s'' [ArgS ''DEALLOCATE''])) \<and>
   (\<exists>s'. StepWaitForAllocation_REST_Run
            (example_world (\<lambda>k. if k = 1 then ''RECALLED'' else ''NEW''))
            example_bag_allocated = Some (ActionHalt, s') \<and>
      requests s' = replicate 2 (GetApplicationState ''app-1'') \<and>
      error s' = Some (Errorf ''application failed: %s'' [ArgS ''RECALLED'']))"
proof -
  let ?env = "example_world (\<lambda>k. ApplicationState_NEW)"
  let ?envR = "example_world (\<lambda>k. ''ELECTED'')"
  let ?envF = "example_world (\<lambda>k. if k = 2 then ApplicationState_DEALLOCATE
                                   else ApplicationState_ELECTED)"
  let ?envRF = "example_world (\<lambda>k. if k = 1 then ''RECALLED'' else ''NEW'')"
  have n: "select_ticks (example_world st)
      (allocationTimeoutDuration (config example_bag_allocated)) (5 * Second) = 120"
    for st :: "nat \<Rightarrow> 's"
    by (simp add: example_defs Minute_def Second_def)
  have h1: "api_client example_bag_allocated =
      Some (NewAPIClient ''https://fish.example:8001/grpc'' ''packer'' ''secret'')"
    by (simp add: example_defs)
  have h2: "application example_bag_allocated = Some example_app"
    by (simp add: example_defs)
  have r: "GetApplicationState_resp (example_world st) k uid =
      Inr \<lparr>Status = st k, Description = []\<rparr>" for st :: "nat \<Rightarrow> 's" and k uid
    by (simp add: example_world_def)
  have h3: "\<forall>k<select_ticks ?env (allocationTimeoutDuration (config example_bag_allocated))
        (5 * Second).
      \<forall>st. GetApplicationState_resp ?env k (App_UID example_app) = Inr st \<longrightarrow>
        Status st \<noteq> ApplicationState_ALLOCATED"
    by (auto simp: r)
  have h4: "\<forall>k<select_ticks ?envR (allocationTimeoutDuration (config example_bag_allocated))
        (5 * Second).
      \<forall>st. GetApplicationState_resp ?envR k (App_UID example_app) = Inr st \<longrightarrow>
        Status st \<noteq> ''ALLOCATED''"
    by (auto simp: r)
  have h3F: "\<forall>k<select_ticks ?envF (allocationTimeoutDuration (config example_bag_allocated))
        (5 * Second).
      \<forall>st. GetApplicationState_resp ?envF k (App_UID example_app) = Inr st \<longrightarrow>
        Status st \<noteq> ApplicationState_ALLOCATED"
    by (auto simp: r)
  have h4F: "\<forall>k<select_ticks ?envRF (allocationTimeoutDuration (config example_bag_allocated))
        (5 * Second).
      \<forall>st. GetApplicationState_resp ?envRF k (App_UID example_app) = Inr st \<longrightarrow>
        Status st \<noteq> ''ALLOCATED''"
    by (auto simp: r)
  have v: "requests example_bag_allocated = []" "App_UID example_app = ''app-1''"
    by (simp_all add: example_defs)
  from StepWaitForAllocation_timeout_enforced [OF h1 h2 h3 h4]
  obtain s' m sR mR where a:
    "StepWaitForAllocation_Run ?env example_bag_allocated = Some (ActionHalt, s')"
    "requests s' = requests example_bag_allocated @
       replicate m (GetApplicationState (App_UID example_app))"
    "m \<le> 120" "error s' = Some (Errorf ''allocation timeout'' []) \<longrightarrow> m = 120"
    "(error s' = Some (Errorf ''allocation timeout'' [])) =
     (\<forall>k<120. \<exists>st. GetApplicationState_resp ?env k (App_UID example_app) = Inr st \<and>
        Status st \<notin> {ApplicationState_ERROR, ApplicationState_DEALLOCATED,
                      ApplicationState_DEALLOCATE})"
    "StepWaitForAllocation_REST_Run ?envR example_bag_allocated = Some (ActionHalt, sR)"
    "requests sR = requests example_bag_allocated @
       replicate mR (GetApplicationState (App_UID example_app))"
    "mR \<le> 120" "error sR = Some (Errorf ''allocation timeout'' []) \<longrightarrow> mR = 120"
    "(error sR = Some (Errorf ''allocation timeout'' [])) =
     (\<forall>k<120. \<exists>st. GetApplicationState_resp ?envR k (App_UID example_app) = Inr st \<and>
        Status st \<notin> {''ERROR'', ''DEALLOCATED'', ''RECALLED''})"
    unfolding n by (elim exE conjE)
  have w: "\<forall>k<120. \<exists>st. GetApplicationState_resp ?env k (App_UID example_app) = Inr st \<and>
      Status st \<notin> {ApplicationState_ERROR, ApplicationState_DEALLOCATED,
                    ApplicationState_DEALLOCATE}"
    by (simp add: r)
  have wR: "\<forall>k<120. \<exists>st. GetApplicationState_resp ?envR k (App_UID example_app) = Inr st \<and>
      Status st \<notin> {''ERROR'', ''DEALLOCATED'', ''RECALLED''}"
    by (simp add: r)
  from a(5) w have e: "error s' = Some (Errorf ''allocation timeout'' [])" by simp
  from a(10) wR have eR: "error sR = Some (Errorf ''allocation timeout'' [])" by simp
  from a(4) e have m: "m = 120" by simp
  from a(9) eR have mR: "mR = 120" by simp
  have w1: "\<exists>s'. StepWaitForAllocation_Run ?env example_bag_allocated = Some (ActionHalt, s') \<and>
      requests s' = replicate 120 (GetApplicationState ''app-1'') \<and>
      error s' = Some (Errorf ''allocation timeout'' [])"
    using a(1,2) e m by (intro exI [of _ s']) (simp add: v)
  have w2: "\<exists>s'. StepWaitForAllocation_REST_Run ?envR example_bag_allocated =
        Some (ActionHalt, s') \<and>
      requests s' = replicate 120 (GetApplicationState ''app-1'') \<and>
      error s' = Some (Errorf ''allocation timeout'' [])"
    using a(6,7) eR mR by (intro exI [of _ sR]) (simp add: v)
  from StepWaitForAllocation_timeout_enforced [OF h1 h2 h3F h4F]
  obtain t' q tR qR where b:
    "StepWaitForAllocation_Run ?envF example_bag_allocated = Some (ActionHalt, t')"
    "requests t' = requests example_bag_allocated @
       replicate q (GetApplicationState (App_UID example_app))"
    "\<forall>i<120.
       (\<forall>j<i. \<exists>st. GetApplicationState_resp ?envF j (App_UID example_app) = Inr st \<and>
          Status st \<notin> {ApplicationState_ERROR, ApplicationState_DEALLOCATED,
                        ApplicationState_DEALLOCATE}) \<and>
       \<not> (\<exists>st. GetApplicationState_resp ?envF i (App_UID example_app) = Inr st \<and>
          Status st \<notin> {ApplicationState_ERROR, ApplicationState_DEALLOCATED,
                        ApplicationState_DEALLOCATE}) \<longrightarrow>
       q = Suc i \<and>
       error t' = Some (case GetApplicationState_resp ?envF i (App_UID example_app) of
           Inl err \<Rightarrow> Errorf ''failed to get application state: %v'' [ArgV err]
         | Inr st \<Rightarrow> Errorf ''application failed: %s'' [ArgS (Status_String (Status st))])"
    "StepWaitForAllocation_REST_Run ?envRF example_bag_allocated = Some (ActionHalt, tR)"
    "requests tR = requests example_bag_allocated @
       replicate qR (GetApplicationState (App_UID example_app))"
    "\<forall>i<120.
       (\<forall>j<i. \<exists>st. GetApplicationState_resp ?envRF j (App_UID example_app) = Inr st \<and>
          Status st \<notin> {''ERROR'', ''DEALLOCATED'', ''RECALLED''}) \<and>
       \<not> (\<exists>st. GetApplicationState_resp ?envRF i (App_UID example_app) = Inr st \<and>
          Status st \<notin> {''ERROR'', ''DEALLOCATED'', ''RECALLED''}) \<longrightarrow>
       qR = Suc i \<and>
       error tR = Some (case GetApplicationState_resp ?envRF i (App_UID example_app) of
           Inl err \<Rightarrow> Errorf ''failed to get application state: %v'' [ArgV err]
         | Inr st \<Rightarrow> Errorf ''application failed: %s'' [ArgS (Status st)])"
    unfolding n by (elim exE conjE)
  have j2: "(\<forall>j<2. P j) = (P 0 \<and> P (Suc 0))" for P :: "nat \<Rightarrow> bool"
    by (auto simp: less_Suc_eq numeral_2_eq_2)
  have j1: "(\<forall>j<Suc 0. P j) = P 0" for P :: "nat \<Rightarrow> bool"
    by simp
  from b(3) [THEN spec, of 2]
  have f: "q = 3 \<and> error t' = Some (Errorf ''application failed: %s'' [ArgS ''DEALLOCATE''])"
    by (simp add: r j2)
  from b(6) [THEN spec, of "Suc 0"]
  have fR: "qR = 2 \<and> error tR = Some (Errorf ''application failed: %s'' [ArgS ''RECALLED''])"
    by (simp add: r)
  have w3: "\<exists>s'. StepWaitForAllocation_Run ?envF example_bag_allocated = Some (ActionHalt, s') \<and>
      requests s' = replicate 3 (GetApplicationState ''app-1'') \<and>
      error s' = Some (Errorf ''application failed: %s'' [ArgS ''DEALLOCATE''])"
    using b(1,2) f by (intro exI [of _ t']) (simp add: v)
  have w4: "\<exists>s'. StepWaitForAllocation_REST_Run ?envRF example_bag_allocated =
        Some (ActionHalt, s') \<and>
      requests s' = replicate 2 (GetApplicationState ''app-1'') \<and>
      error s' = Some (Errorf ''application failed: %s'' [ArgS ''RECALLED''])"
    using b(4,5) fR by (intro exI [of _ tR]) (simp add: v)
  from n [of "\<lambda>k. ApplicationState_NEW"] w1 w2 w3 w4 show ?thesis by (intro conjI)
qed


section \<open>Setup-Remote-Access: polling and its two bounds\<close>

lemma bag_simps:
  "config (ui_Say m s) = config s"
  "generated_data (ui_Say m s) = generated_data s"
  "api_client (ui_Say m s) = api_client s"
  "subscribe_stream (ui_Say m s) = subscribe_stream s"
  "selected_label (ui_Say m s) = selected_label s"
  "application (ui_Say m s) = application s"
  "application_resource (ui_Say m s) = application_resource s"
  "ssh_host (ui_Say m s) = ssh_host s"
  "ssh_port (ui_Say m s) = ssh_port s"
  "ssh_username (ui_Say m s) = ssh_username s"
  "ssh_access (ui_Say m s) = ssh_access s"
  "image_task (ui_Say m s) = image_task s"
  "image_results (ui_Say m s) = image_results s"
  "error (ui_Say m s) = error s"
  "requests (ui_Say m s) = requests s"
  "config (ui_Error m s) = config s"
  "generated_data (ui_Error m s) = generated_data s"
  "api_client (ui_Error m s) = api_client s"
  "subscribe_stream (ui_Error m s) = subscribe_stream s"
  "selected_label (ui_Error m s) = selected_label s"
  "application (ui_Error m s) = application s"
  "application_resource (ui_Error m s) = application_resource s"
  "ssh_host (ui_Error m s) = ssh_host s"
  "ssh_port (ui_Error m s) = ssh_port s"
  "ssh_username (ui_Error m s) = ssh_username s"
  "ssh_access (ui_Error m s) = ssh_access s"
  "image_task (ui_Error m s) = image_task s"
  "image_results (ui_Error m s) = image_results s"
  "error (ui_Error m s) = error s"
  "requests (ui_Error m s) = requests s"
  "config (ui_Message m s) = config s"
  "generated_data (ui_Message m s) = generated_data s"
  "api_client (ui_Message m s) = api_client s"
  "subscribe_stream (ui_Message m s) = subscribe_stream s"
  "selected_label (ui_Message m s) = selected_label s"
  "application (ui_Message m s) = application s"
  "application_resource (ui_Message m s) = application_resource s"
  "ssh_host (ui_Message m s) = ssh_host s"
  "ssh_port (ui_Message m s) = ssh_port s"
  "ssh_username (ui_Message m s) = ssh_username s"
  "ssh_access (ui_Message m s) = ssh_access s"
  "image_task (ui_Message m s) = image_task s"
  "image_results (ui_Message m s) = image_results s"
  "error (ui_Message m s) = error s"
  "requests (ui_Message m s) = requests s"
  "ui (Put_error e s) = ui s"
  "config (Put_error e s) = config s"
  "generated_data (Put_error e s) = generated_data s"
  "api_client (Put_error e s) = api_client s"
  "subscribe_stream (Put_error e s) = subscribe_stream s"
  "selected_label (Put_error e s) = selected_label s"
  "application (Put_error e s) = application s"
  "application_resource (Put_error e s) = application_resource s"
  "ssh_host (Put_error e s) = ssh_host s"
  "ssh_port (Put_error e s) = ssh_port s"
  "ssh_username (Put_error e s) = ssh_username s"
  "ssh_access (Put_error e s) = ssh_access s"
  "image_task (Put_error e s) = image_task s"
  "image_results (Put_error e s) = image_results s"
  "requests (Put_error e s) = requests s"
  "ui (remote_call r s) = ui s"
  "config (remote_call r s) = config s"
  "generated_data (remote_call r s) = generated_data s"
  "api_client (remote_call r s) = api_client s"
  "subscribe_stream (remote_call r s) = subscribe_stream s"
  "selected_label (remote_call r s) = selected_label s"
  "application (remote_call r s) = application s"
  "application_resource (remote_call r s) = application_resource s"
  "ssh_host (remote_call r s) = ssh_host s"
  "ssh_port (remote_call r s) = ssh_port s"
  "ssh_username (remote_call r s) = ssh_username s"
  "ssh_access (remote_call r s) = ssh_access s"
  "image_task (remote_call r s) = image_task s"
  "image_results (remote_call r s) = image_results s"
  "error (remote_call r s) = error s"
  "ui (ui_Say m s) = ui s @ [Say m]"
  "ui (ui_Error m s) = ui s @ [Error m]"
  "ui (ui_Message m s) = ui s @ [Message m]"
  "error (Put_error e s) = Some e"
  "requests (remote_call r s) = requests s @ [r]"
  by (simp_all add: bag_defs)

lemma StepSetupSSH_address_result:
  "\<exists>sshHost sshPort s2. StepSetupSSH_address address s = ((sshHost, sshPort), s2) \<and>
     requests s2 = requests s \<and> error s2 = error s \<and> generated_data s2 = generated_data s \<and>
     config s2 = config s \<and> api_client s2 = api_client s \<and> application s2 = application s \<and>
     application_resource s2 = application_resource s \<and> selected_label s2 = selected_label s"
  by (cases "ParseSSHAddress address")
    (auto simp: StepSetupSSH_address_def bag_simps Let_def)

lemma StepSetupSSH_generated_frame:
  "requests (StepSetupSSH_generated h p s) = requests s"
  "error (StepSetupSSH_generated h p s) = error s"
  "config (StepSetupSSH_generated h p s) = config s"
  "api_client (StepSetupSSH_generated h p s) = api_client s"
  "application (StepSetupSSH_generated h p s) = application s"
  "application_resource (StepSetupSSH_generated h p s) = application_resource s"
  "selected_label (StepSetupSSH_generated h p s) = selected_label s"
  "generated_data (StepSetupSSH_generated h p s) =
     (generated_data s)(''SSHHost'' \<mapsto> AString h, ''SSHPort'' \<mapsto> AString (Itoa p))"
  by (simp_all add: StepSetupSSH_generated_def Let_def)

lemma StepSetupSSH_polling_tick_cases:
  "(retryCount + 1 > maxRetries \<longrightarrow>
      (\<exists>s1. StepSetupSSH_polling_tick env resource maxRetries k retryCount s =
              Return (ActionHalt, s1) \<and>
         error s1 = Some (Errorf ''SSH access availability retry limit exceeded'' []) \<and>
         requests s1 = requests s)) \<and>
   (\<forall>err. retryCount + 1 \<le> maxRetries \<and>
         GetApplicationResourceAccess_resp env k (Res_UID resource) = Inl err \<longrightarrow>
      (\<exists>s1. StepSetupSSH_polling_tick env resource maxRetries k retryCount s =
              Return (ActionHalt, s1) \<and>
         error s1 = Some (Errorf ''failed to get SSH access credentials: %v'' [ArgV err]) \<and>
         requests s1 = requests s @ [GetApplicationResourceAccess (Res_UID resource)])) \<and>
   (retryCount + 1 \<le> maxRetries \<and>
         GetApplicationResourceAccess_resp env k (Res_UID resource) = Inr None \<longrightarrow>
      (\<exists>s1. StepSetupSSH_polling_tick env resource maxRetries k retryCount s =
              Again (retryCount + 1) s1 \<and>
         error s1 = error s \<and>
         requests s1 = requests s @ [GetApplicationResourceAccess (Res_UID resource)])) \<and>
   (\<forall>access. retryCount + 1 \<le> maxRetries \<and>
         GetApplicationResourceAccess_resp env k (Res_UID resource) = Inr (Some access) \<longrightarrow>
      (\<exists>s1. StepSetupSSH_polling_tick env resource maxRetries k retryCount s =
              Return (ActionContinue, s1) \<and>
         error s1 = error s \<and>
         requests s1 = requests s @ [GetApplicationResourceAccess (Res_UID resource)]))"
proof (intro conjI allI impI)
  fix access
  assume a: "retryCount + 1 \<le> maxRetries \<and>
    GetApplicationResourceAccess_resp env k (Res_UID resource) = Inr (Some access)"
  let ?S = "ui_Say (Plain ''SSH access is available'')
        (remote_call (GetApplicationResourceAccess (Res_UID resource))
          (ui_Say (Sprintf ''Checking SSH access availability (attempt %d/%d)...''
             [ArgD (retryCount + 1), ArgD maxRetries]) s))"
  from StepSetupSSH_address_result [of "Acc_Address access" ?S]
  obtain h p s2 where sp: "StepSetupSSH_address (Acc_Address access) ?S = ((h, p), s2)"
    "requests s2 = requests ?S" "error s2 = error ?S"
    by blast
  show "\<exists>s1. StepSetupSSH_polling_tick env resource maxRetries k retryCount s =
        Return (ActionContinue, s1) \<and> error s1 = error s \<and>
      requests s1 = requests s @ [GetApplicationResourceAccess (Res_UID resource)]"
    using a sp(2,3)
    by (simp add: StepSetupSSH_polling_tick_def sp(1) StepSetupSSH_generated_frame bag_simps
        Let_def)
qed (simp_all add: StepSetupSSH_polling_tick_def bag_simps Let_def)


lemma polling_loop_bounds:
  "\<exists>a s' m. poll_loop (StepSetupSSH_polling_tick env resource maxRetries)
               StepSetupSSH_polling_timeout n k retryCount s = (a, s') \<and>
     requests s' = requests s @ replicate m (GetApplicationResourceAccess (Res_UID resource)) \<and>
     m \<le> n \<and> int m \<le> max 0 (maxRetries - retryCount)"
proof (induction n arbitrary: k retryCount s)
  case 0
  show ?case
    by (intro exI [of _ ActionHalt] exI [of _ "snd (StepSetupSSH_polling_timeout s)"]
        exI [of _ 0])
      (simp add: StepSetupSSH_polling_timeout_def bag_simps)
next
  case (Suc n)
  note T = StepSetupSSH_polling_tick_cases [where retryCount = retryCount and maxRetries = maxRetries
      and env = env and resource = resource and k = k and s = s]
  show ?case
  proof (cases "retryCount + 1 > maxRetries")
    case True
    with T obtain s1 where "StepSetupSSH_polling_tick env resource maxRetries k retryCount s =
        Return (ActionHalt, s1)" "requests s1 = requests s"
      by blast
    then show ?thesis
      by (intro exI [of _ ActionHalt] exI [of _ s1] exI [of _ 0]) simp
  next
    case False
    then have le: "retryCount + 1 \<le> maxRetries" by simp
    show ?thesis
    proof (cases "GetApplicationResourceAccess_resp env k (Res_UID resource)")
      case (Inl err)
      with T le obtain s1 where "StepSetupSSH_polling_tick env resource maxRetries k retryCount s =
          Return (ActionHalt, s1)"
        "requests s1 = requests s @ [GetApplicationResourceAccess (Res_UID resource)]"
        by blast
      then show ?thesis using le
        by (intro exI [of _ ActionHalt] exI [of _ s1] exI [of _ 1]) simp
    next
      case (Inr access)
      show ?thesis
      proof (cases access)
        case (Some acc)
        with T le Inr obtain s1 where
          "StepSetupSSH_polling_tick env resource maxRetries k retryCount s =
            Return (ActionContinue, s1)"
          "requests s1 = requests s @ [GetApplicationResourceAccess (Res_UID resource)]"
          by blast
        then show ?thesis using le
          by (intro exI [of _ ActionContinue] exI [of _ s1] exI [of _ 1]) simp
      next
        case None
        with T le Inr obtain s1 where s1:
          "StepSetupSSH_polling_tick env resource maxRetries k retryCount s =
            Again (retryCount + 1) s1"
          "requests s1 = requests s @ [GetApplicationResourceAccess (Res_UID resource)]"
          by blast
        from Suc.IH [of "Suc k" "retryCount + 1" s1] obtain a s' m where m:
          "poll_loop (StepSetupSSH_polling_tick env resource maxRetries)
             StepSetupSSH_polling_timeout n (Suc k) (retryCount + 1) s1 = (a, s')"
          "requests s' = requests s1 @
             replicate m (GetApplicationResourceAccess (Res_UID resource))"
          "m \<le> n" "int m \<le> max 0 (maxRetries - (retryCount + 1))"
          by blast
        show ?thesis using s1 m le
          by (intro exI [of _ a] exI [of _ s'] exI [of _ "Suc m"])
            (simp add: replicate_app_Cons_same)
      qed
    qed
  qed
qed

lemma polling_loop_not_available:
  assumes "\<forall>j<min n (nat (maxRetries - retryCount)).
             GetApplicationResourceAccess_resp env (k + j) (Res_UID resource) = Inr None"
  shows "\<exists>s'. poll_loop (StepSetupSSH_polling_tick env resource maxRetries)
               StepSetupSSH_polling_timeout n k retryCount s = (ActionHalt, s') \<and>
     requests s' = requests s @ replicate (min n (nat (maxRetries - retryCount)))
                                  (GetApplicationResourceAccess (Res_UID resource)) \<and>
     error s' = Some (if n \<le> nat (maxRetries - retryCount)
                      then Errorf ''SSH access availability timeout'' []
                      else Errorf ''SSH access availability retry limit exceeded'' [])"
  using assms
proof (induction n arbitrary: k retryCount s)
  case 0
  show ?case
    by (intro exI [of _ "snd (StepSetupSSH_polling_timeout s)"])
      (simp add: StepSetupSSH_polling_timeout_def bag_simps)
next
  case (Suc n)
  note T = StepSetupSSH_polling_tick_cases [where retryCount = retryCount and maxRetries = maxRetries
      and env = env and resource = resource and k = k and s = s]
  show ?case
  proof (cases "retryCount + 1 > maxRetries")
    case True
    with T obtain s1 where "StepSetupSSH_polling_tick env resource maxRetries k retryCount s =
        Return (ActionHalt, s1)" "requests s1 = requests s"
      "error s1 = Some (Errorf ''SSH access availability retry limit exceeded'' [])"
      by blast
    then show ?thesis using True
      by (intro exI [of _ s1]) simp
  next
    case False
    then have le: "retryCount + 1 \<le> maxRetries" by simp
    then have pos: "0 < min (Suc n) (nat (maxRetries - retryCount))" by simp
    with Suc.prems have "GetApplicationResourceAccess_resp env (k + 0) (Res_UID resource) = Inr None"
      by blast
    with T le obtain s1 where s1:
      "StepSetupSSH_polling_tick env resource maxRetries k retryCount s =
        Again (retryCount + 1) s1"
      "requests s1 = requests s @ [GetApplicationResourceAccess (Res_UID resource)]"
      by auto
    have "\<forall>j<min n (nat (maxRetries - (retryCount + 1))).
        GetApplicationResourceAccess_resp env (Suc k + j) (Res_UID resource) = Inr None"
    proof (intro allI impI)
      fix j assume "j < min n (nat (maxRetries - (retryCount + 1)))"
      then have "Suc j < min (Suc n) (nat (maxRetries - retryCount))" by auto
      with Suc.prems have
        "GetApplicationResourceAccess_resp env (k + Suc j) (Res_UID resource) = Inr None"
        by blast
      then show "GetApplicationResourceAccess_resp env (Suc k + j) (Res_UID resource) = Inr None"
        by simp
    qed
    from Suc.IH [OF this, of s1] obtain s' where s':
      "poll_loop (StepSetupSSH_polling_tick env resource maxRetries)
         StepSetupSSH_polling_timeout n (Suc k) (retryCount + 1) s1 = (ActionHalt, s')"
      "requests s' = requests s1 @ replicate (min n (nat (maxRetries - (retryCount + 1))))
         (GetApplicationResourceAccess (Res_UID resource))"
      "error s' = Some (if n \<le> nat (maxRetries - (retryCount + 1))
                        then Errorf ''SSH access availability timeout'' []
                        else Errorf ''SSH access availability retry limit exceeded'' [])"
      by blast
    have m: "min (Suc n) (nat (maxRetries - retryCount)) =
        Suc (min n (nat (maxRetries - (retryCount + 1))))"
      using le by auto
    have c: "(Suc n \<le> nat (maxRetries - retryCount)) = (n \<le> nat (maxRetries - (retryCount + 1)))"
      using le by auto
    show ?thesis using s1 s'
      by (intro exI [of _ s']) (simp add: m c)
  qed
qed

lemma polling_loop_error:
  assumes "k0 < min n (nat (maxRetries - retryCount))"
    and "\<forall>j<k0. GetApplicationResourceAccess_resp env (k + j) (Res_UID resource) = Inr None"
    and "GetApplicationResourceAccess_resp env (k + k0) (Res_UID resource) = Inl err"
  shows "\<exists>s'. poll_loop (StepSetupSSH_polling_tick env resource maxRetries)
               StepSetupSSH_polling_timeout n k retryCount s = (ActionHalt, s') \<and>
     requests s' = requests s @ replicate (Suc k0)
                                  (GetApplicationResourceAccess (Res_UID resource)) \<and>
     error s' = Some (Errorf ''failed to get SSH access credentials: %v'' [ArgV err])"
  using assms
proof (induction k0 arbitrary: n k retryCount s)
  case 0
  then obtain n' where n: "n = Suc n'" and le: "retryCount + 1 \<le> maxRetries"
    by (cases n) auto
  from StepSetupSSH_polling_tick_cases [where retryCount = retryCount and maxRetries = maxRetries
      and env = env and resource = resource and k = k and s = s] le "0.prems"(3)
  obtain s1 where "StepSetupSSH_polling_tick env resource maxRetries k retryCount s =
      Return (ActionHalt, s1)"
    "error s1 = Some (Errorf ''failed to get SSH access credentials: %v'' [ArgV err])"
    "requests s1 = requests s @ [GetApplicationResourceAccess (Res_UID resource)]"
    by auto
  then show ?case unfolding n by (intro exI [of _ s1]) simp
next
  case (Suc k0)
  then obtain n' where n: "n = Suc n'" and le: "retryCount + 1 \<le> maxRetries"
    and k0: "k0 < min n' (nat (maxRetries - (retryCount + 1)))"
    by (cases n) auto
  from Suc.prems(2) have "GetApplicationResourceAccess_resp env (k + 0) (Res_UID resource) = Inr None"
    by blast
  with StepSetupSSH_polling_tick_cases [where retryCount = retryCount and maxRetries = maxRetries
      and env = env and resource = resource and k = k and s = s] le
  obtain s1 where s1:
    "StepSetupSSH_polling_tick env resource maxRetries k retryCount s =
      Again (retryCount + 1) s1"
    "requests s1 = requests s @ [GetApplicationResourceAccess (Res_UID resource)]"
    by auto
  have p2: "\<forall>j<k0. GetApplicationResourceAccess_resp env (Suc k + j) (Res_UID resource) = Inr None"
  proof (intro allI impI)
    fix j assume "j < k0"
    then have "Suc j < Suc k0" by simp
    with Suc.prems(2) have
      "GetApplicationResourceAccess_resp env (k + Suc j) (Res_UID resource) = Inr None"
      by blast
    then show "GetApplicationResourceAccess_resp env (Suc k + j) (Res_UID resource) = Inr None"
      by simp
  qed
  from Suc.prems(3) have p3:
    "GetApplicationResourceAccess_resp env (Suc k + k0) (Res_UID resource) = Inl err"
    by simp
  from Suc.IH [OF k0 p2 p3, of s1] obtain s' where s':
    "poll_loop (StepSetupSSH_polling_tick env resource maxRetries)
       StepSetupSSH_polling_timeout n' (Suc k) (retryCount + 1) s1 = (ActionHalt, s')"
    "requests s' = requests s1 @ replicate (Suc k0)
       (GetApplicationResourceAccess (Res_UID resource))"
    "error s' = Some (Errorf ''failed to get SSH access credentials: %v'' [ArgV err])"
    by blast
  show ?case unfolding n using s1 s'
    by (intro exI [of _ s']) simp
qed


lemma StepSetupSSH_Run_single:
  assumes "api_client s = Some client"
    and "application_resource s = Some resource"
  shows "(\<exists>a s'. StepSetupSSH_Run env s = Some (a, s') \<and>
            requests s' = requests s @ [GetApplicationResourceAccess (Res_UID resource)]) \<and>
         (\<forall>err. GetApplicationResourceAccess_resp env 0 (Res_UID resource) = Inl err \<longrightarrow>
            (\<exists>s'. StepSetupSSH_Run env s = Some (ActionHalt, s') \<and>
               error s' = Some (Errorf ''failed to get SSH access: %v'' [ArgV err]))) \<and>
         (GetApplicationResourceAccess_resp env 0 (Res_UID resource) = Inr None \<longrightarrow>
            (\<exists>s'. StepSetupSSH_Run env s = Some (ActionContinue, s') \<and>
               error s' = error s \<and>
               ssh_host s' = Some (SSHHost (Communicator (config s))) \<and>
               ssh_port s' = Some (SSHPort (Communicator (config s)))))"
proof (intro conjI allI impI)
  show "\<exists>a s'. StepSetupSSH_Run env s = Some (a, s') \<and>
      requests s' = requests s @ [GetApplicationResourceAccess (Res_UID resource)]"
  proof (cases "GetApplicationResourceAccess_resp env 0 (Res_UID resource)")
    case (Inl err)
    with assms show ?thesis
      by (simp add: StepSetupSSH_Run_def bag_simps Let_def)
  next
    case (Inr access)
    let ?S = "ui_Say (Plain ''SSH access credentials retrieved successfully'')
        (remote_call (GetApplicationResourceAccess (Res_UID resource))
          (ui_Say (Plain ''Setting up SSH connectivity...'') s))"
    from StepSetupSSH_address_result [of "GetAddress access" ?S]
    obtain h p s2 where sp: "StepSetupSSH_address (GetAddress access) ?S = ((h, p), s2)"
      "requests s2 = requests ?S"
      by blast
    with assms Inr show ?thesis
      by (simp add: StepSetupSSH_Run_def StepSetupSSH_generated_frame update_Communicator_def
          StepSetupSSH_credentials_frame bag_simps Let_def)
  qed
next
  fix err assume "GetApplicationResourceAccess_resp env 0 (Res_UID resource) = Inl err"
  with assms show "\<exists>s'. StepSetupSSH_Run env s = Some (ActionHalt, s') \<and>
      error s' = Some (Errorf ''failed to get SSH access: %v'' [ArgV err])"
    by (simp add: StepSetupSSH_Run_def bag_simps Let_def)
next
  assume "GetApplicationResourceAccess_resp env 0 (Res_UID resource) = Inr None"
  moreover have "length (strings_Split [] CHR '':'') \<noteq> 2" by simp
  ultimately show "\<exists>s'. StepSetupSSH_Run env s = Some (ActionContinue, s') \<and>
      error s' = error s \<and>
      ssh_host s' = Some (SSHHost (Communicator (config s))) \<and>
      ssh_port s' = Some (SSHPort (Communicator (config s)))"
    using assms
    by (simp add: StepSetupSSH_Run_def StepSetupSSH_address_fallback StepSetupSSH_generated_def
        update_Communicator_def GetAddress_def StepSetupSSH_credentials_frame bag_defs Let_def)
qed

lemma StepSetupSSH_REST_Run_single:
  assumes "api_client s = Some client"
    and "application_resource s = Some resource"
  shows "(\<forall>err. GetApplicationResourceAccess_resp env 0 (Res_UID resource) = Inl err \<longrightarrow>
            (\<exists>s'. StepSetupSSH_REST_Run env s = Some (ActionHalt, s') \<and>
               requests s' = requests s @ [GetApplicationResourceAccess (Res_UID resource)] \<and>
               error s' = Some (Errorf ''failed to get SSH access: %v'' [ArgV err]))) \<and>
         (GetApplicationResourceAccess_resp env 0 (Res_UID resource) = Inr None \<longrightarrow>
            StepSetupSSH_REST_Run env s = None)"
  using assms by (simp add: StepSetupSSH_REST_Run_def bag_simps Let_def)

text \<open>
  C3 (as amended). The polling version of the step asks for the access once per tick
  of a ticker created with a period of ten seconds, under the deadline of the configured
  connection timeout and under the configured retry count: it makes at most as many
  requests as ticks are taken before the deadline (\<open>n\<close>) and at most \<open>maxRetries\<close>
  requests. While the answer is nil the loop goes on, and when it stays nil the step
  halts with the timeout error (if \<open>n\<close> does not exceed the retry count) or with the
  retry-limit error (otherwise). An error of a request halts the step at once, with no
  further request. The two single-request versions have no loop, no timeout and no
  retry count: they make exactly one request, and an error halts the step; on a nil
  answer the version of step_setup_ssh.go does not wait but continues with the
  configured default host and port, and the version on the REST client panics.
\<close>

theorem StepSetupSSH_polling:
  assumes "api_client s = Some client"
    and "application_resource s = Some resource"
    and "n = select_ticks env (connectionTimeoutDuration (config s)) (10 * Second)"
    and "maxRetries = ConnectionRetries (config s)"
  shows "(\<exists>a s' m. StepSetupSSH_polling_Run env s = Some (a, s') \<and>
            requests s' =
              requests s @ replicate m (GetApplicationResourceAccess (Res_UID resource)) \<and>
            m \<le> n \<and> int m \<le> max 0 maxRetries) \<and>
         ((\<forall>j<min n (nat maxRetries).
             GetApplicationResourceAccess_resp env j (Res_UID resource) = Inr None) \<longrightarrow>
          (\<exists>s'. StepSetupSSH_polling_Run env s = Some (ActionHalt, s') \<and>
             requests s' =
               requests s @ replicate (min n (nat maxRetries))
                              (GetApplicationResourceAccess (Res_UID resource)) \<and>
             error s' = Some (if n \<le> nat maxRetries
                              then Errorf ''SSH access availability timeout'' []
                              else Errorf ''SSH access availability retry limit exceeded'' []))) \<and>
         (\<forall>k0 err. k0 < min n (nat maxRetries) \<and>
             (\<forall>j<k0. GetApplicationResourceAccess_resp env j (Res_UID resource) = Inr None) \<and>
             GetApplicationResourceAccess_resp env k0 (Res_UID resource) = Inl err \<longrightarrow>
          (\<exists>s'. StepSetupSSH_polling_Run env s = Some (ActionHalt, s') \<and>
             requests s' =
               requests s @ replicate (Suc k0) (GetApplicationResourceAccess (Res_UID resource)) \<and>
             error s' = Some (Errorf ''failed to get SSH access credentials: %v'' [ArgV err]))) \<and>
         (\<exists>a s'. StepSetupSSH_Run env s = Some (a, s') \<and>
            requests s' = requests s @ [GetApplicationResourceAccess (Res_UID resource)]) \<and>
         (\<forall>err. GetApplicationResourceAccess_resp env 0 (Res_UID resource) = Inl err \<longrightarrow>
            (\<exists>s'. StepSetupSSH_Run env s = Some (ActionHalt, s') \<and>
               error s' = Some (Errorf ''failed to get SSH access: %v'' [ArgV err]))) \<and>
         (GetApplicationResourceAccess_resp env 0 (Res_UID resource) = Inr None \<longrightarrow>
            (\<exists>s'. StepSetupSSH_Run env s = Some (ActionContinue, s') \<and>
               error s' = error s \<and>
               ssh_host s' = Some (SSHHost (Communicator (config s))) \<and>
               ssh_port s' = Some (SSHPort (Communicator (config s))))) \<and>
         (\<forall>err. GetApplicationResourceAccess_resp env 0 (Res_UID resource) = Inl err \<longrightarrow>
            (\<exists>s'. StepSetupSSH_REST_Run env s = Some (ActionHalt, s') \<and>
               requests s' = requests s @ [GetApplicationResourceAccess (Res_UID resource)] \<and>
               error s' = Some (Errorf ''failed to get SSH access: %v'' [ArgV err]))) \<and>
         (GetApplicationResourceAccess_resp env 0 (Res_UID resource) = Inr None \<longrightarrow>
            StepSetupSSH_REST_Run env s = None)"
proof -
  let ?S = "ui_Say (Plain ''Setting up SSH connectivity...'') s"
  have run: "StepSetupSSH_polling_Run env s =
      Some (poll_loop (StepSetupSSH_polling_tick env resource maxRetries)
        StepSetupSSH_polling_timeout n 0 0 ?S)"
    using assms by (simp add: StepSetupSSH_polling_Run_def Let_def)
  have r: "requests ?S = requests s" by (simp add: bag_simps)
  have A: "\<exists>a s' m. StepSetupSSH_polling_Run env s = Some (a, s') \<and>
      requests s' = requests s @ replicate m (GetApplicationResourceAccess (Res_UID resource)) \<and>
      m \<le> n \<and> int m \<le> max 0 maxRetries"
    using polling_loop_bounds [of env resource maxRetries n 0 0 ?S]
    unfolding run r by simp
  have B: "(\<forall>j<min n (nat maxRetries).
        GetApplicationResourceAccess_resp env j (Res_UID resource) = Inr None) \<longrightarrow>
      (\<exists>s'. StepSetupSSH_polling_Run env s = Some (ActionHalt, s') \<and>
         requests s' = requests s @ replicate (min n (nat maxRetries))
                          (GetApplicationResourceAccess (Res_UID resource)) \<and>
         error s' = Some (if n \<le> nat maxRetries
                          then Errorf ''SSH access availability timeout'' []
                          else Errorf ''SSH access availability retry limit exceeded'' []))"
    using polling_loop_not_available [of n maxRetries 0 env 0 resource ?S]
    unfolding run r by simp
  have C: "\<forall>k0 err. k0 < min n (nat maxRetries) \<and>
        (\<forall>j<k0. GetApplicationResourceAccess_resp env j (Res_UID resource) = Inr None) \<and>
        GetApplicationResourceAccess_resp env k0 (Res_UID resource) = Inl err \<longrightarrow>
      (\<exists>s'. StepSetupSSH_polling_Run env s = Some (ActionHalt, s') \<and>
         requests s' =
           requests s @ replicate (Suc k0) (GetApplicationResourceAccess (Res_UID resource)) \<and>
         error s' = Some (Errorf ''failed to get SSH access credentials: %v'' [ArgV err]))"
  proof (intro allI impI)
    fix k0 err
    assume a: "k0 < min n (nat maxRetries) \<and>
      (\<forall>j<k0. GetApplicationResourceAccess_resp env j (Res_UID resource) = Inr None) \<and>
      GetApplicationResourceAccess_resp env k0 (Res_UID resource) = Inl err"
    then have "k0 < min n (nat (maxRetries - 0))"
      "\<forall>j<k0. GetApplicationResourceAccess_resp env (0 + j) (Res_UID resource) = Inr None"
      "GetApplicationResourceAccess_resp env (0 + k0) (Res_UID resource) = Inl err"
      by simp_all
    from polling_loop_error [OF this, of ?S]
    show "\<exists>s'. StepSetupSSH_polling_Run env s = Some (ActionHalt, s') \<and>
      requests s' =
        requests s @ replicate (Suc k0) (GetApplicationResourceAccess (Res_UID resource)) \<and>
      error s' = Some (Errorf ''failed to get SSH access credentials: %v'' [ArgV err])"
      unfolding run r by simp
  qed
  from A B C StepSetupSSH_Run_single [OF assms(1,2), of env]
    StepSetupSSH_REST_Run_single [OF assms(1,2), of env]
  show ?thesis by (intro conjI) (elim conjE, assumption)+
qed


text \<open>
  C3 as stated fails on step_setup_ssh.go: where the access is not yet available at the
  first request and would be at the second, the step makes the one request, does not
  poll again, and continues with the configured default host.
\<close>

theorem StepSetupSSH_polling_counterexample:
  "map_option fst (StepSetupSSH_Run example_Env_access_late example_bag_allocated) =
     Some ActionContinue \<and>
   map_option (requests \<circ> snd) (StepSetupSSH_Run example_Env_access_late example_bag_allocated) =
     Some [GetApplicationResourceAccess ''res-1''] \<and>
   map_option (ssh_host \<circ> snd) (StepSetupSSH_Run example_Env_access_late example_bag_allocated) =
     Some (Some ''127.0.0.1'') \<and>
   map_option (error \<circ> snd) (StepSetupSSH_Run example_Env_access_late example_bag_allocated) =
     Some None"
proof -
  have h: "api_client example_bag_allocated =
      Some (NewAPIClient ''https://fish.example:8001/grpc'' ''packer'' ''secret'')"
    "application_resource example_bag_allocated =
      Some \<lparr>Res_UID = ''res-1'', Res_IPAddr = ''10.0.0.5''\<rparr>"
    by (simp_all add: example_defs)
  have v: "requests example_bag_allocated = []" "error example_bag_allocated = None"
    "SSHHost (Communicator (config example_bag_allocated)) = ''127.0.0.1''"
    by (simp_all add: example_defs)
  have n: "GetApplicationResourceAccess_resp example_Env_access_late 0
      (Res_UID \<lparr>Res_UID = ''res-1'', Res_IPAddr = ''10.0.0.5''\<rparr>) = Inr None"
    by (simp add: example_Env_access_late_def)
  from StepSetupSSH_Run_single [OF h, of example_Env_access_late] n
  obtain a s' s'' where
    "StepSetupSSH_Run example_Env_access_late example_bag_allocated = Some (a, s')"
    "requests s' = requests example_bag_allocated @
       [GetApplicationResourceAccess (Res_UID \<lparr>Res_UID = ''res-1'', Res_IPAddr = ''10.0.0.5''\<rparr>)]"
    "StepSetupSSH_Run example_Env_access_late example_bag_allocated = Some (ActionContinue, s'')"
    "error s'' = error example_bag_allocated"
    "ssh_host s'' = Some (SSHHost (Communicator (config example_bag_allocated)))"
    by (elim conjE exE impE) simp_all
  then show ?thesis by (simp add: v)
qed

theorem StepSetupSSH_polling_witness:
  "select_ticks example_Env_no_access
     (connectionTimeoutDuration (config example_bag_allocated)) (10 * Second) = 180 \<and>
   ConnectionRetries (config example_bag_allocated) = 60 \<and>
   (\<exists>s'. StepSetupSSH_polling_Run example_Env_no_access example_bag_allocated =
            Some (ActionHalt, s') \<and>
      requests s' = replicate 60 (GetApplicationResourceAccess ''res-1'') \<and>
      error s' = Some (Errorf ''SSH access availability retry limit exceeded'' [])) \<and>
   (\<exists>s'. StepSetupSSH_polling_Run example_Env_no_access (example_bag_retries 500) =
            Some (ActionHalt, s') \<and>
      requests s' = replicate 180 (GetApplicationResourceAccess ''res-1'') \<and>
      error s' = Some (Errorf ''SSH access availability timeout'' [])) \<and>
   (\<exists>s'. StepSetupSSH_polling_Run example_Env_access_error example_bag_allocated =
            Some (ActionHalt, s') \<and>
      requests s' = replicate 2 (GetApplicationResourceAccess ''res-1'') \<and>
      error s' = Some (Errorf ''failed to get SSH access credentials: %v''
                         [ArgV (Remote ''unavailable'')])) \<and>
   (\<exists>s'. StepSetupSSH_Run example_Env_no_access example_bag_allocated =
            Some (ActionContinue, s') \<and>
      error s' = None \<and> ssh_host s' = Some ''127.0.0.1'' \<and> ssh_port s' = Some 22) \<and>
   StepSetupSSH_REST_Run example_Env_no_access example_bag_allocated = None"
proof -
  let ?res = "\<lparr>Res_UID = ''res-1'', Res_IPAddr = ''10.0.0.5''\<rparr>"
  have h: "api_client example_bag_allocated =
      Some (NewAPIClient ''https://fish.example:8001/grpc'' ''packer'' ''secret'')"
    "application_resource example_bag_allocated = Some ?res"
    by (simp_all add: example_defs)
  have hr: "api_client (example_bag_retries r) =
      Some (NewAPIClient ''https://fish.example:8001/grpc'' ''packer'' ''secret'')"
    "application_resource (example_bag_retries r) = Some ?res" for r
    by (simp_all add: example_bag_retries_def example_defs)
  have v: "requests example_bag_allocated = []" "error example_bag_allocated = None"
    "SSHHost (Communicator (config example_bag_allocated)) = ''127.0.0.1''"
    "SSHPort (Communicator (config example_bag_allocated)) = 22"
    "ConnectionRetries (config example_bag_allocated) = 60"
    "Res_UID ?res = ''res-1''"
    by (simp_all add: example_defs)
  have vr: "requests (example_bag_retries r) = []"
    "ConnectionRetries (config (example_bag_retries r)) = r" for r
    by (simp_all add: example_bag_retries_def example_defs)
  have n: "select_ticks example_Env_no_access
      (connectionTimeoutDuration (config example_bag_allocated)) (10 * Second) = 180"
    "select_ticks example_Env_access_error
      (connectionTimeoutDuration (config example_bag_allocated)) (10 * Second) = 180"
    "select_ticks example_Env_no_access
      (connectionTimeoutDuration (config (example_bag_retries r))) (10 * Second) = 180" for r
    by (simp_all add: example_Env_no_access_def example_Env_access_error_def
        example_bag_retries_def example_defs Minute_def Second_def)
  have a0: "GetApplicationResourceAccess_resp example_Env_no_access j uid = Inr None" for j uid
    by (simp add: example_Env_no_access_def)
  have a1: "GetApplicationResourceAccess_resp example_Env_access_error 0 uid = Inr None"
    "GetApplicationResourceAccess_resp example_Env_access_error 1 uid =
      Inl (Remote ''unavailable'')"
    "GetApplicationResourceAccess_resp example_Env_access_error (Suc 0) uid =
      Inl (Remote ''unavailable'')" for uid
    by (simp_all add: example_Env_access_error_def)
  note T1 = StepSetupSSH_polling [OF h refl refl, of example_Env_no_access]
  note T2 = StepSetupSSH_polling [OF hr refl refl, of example_Env_no_access 500]
  note T3 = StepSetupSSH_polling [OF h refl refl, of example_Env_access_error]
  have w1: "\<exists>s'. StepSetupSSH_polling_Run example_Env_no_access example_bag_allocated =
        Some (ActionHalt, s') \<and>
      requests s' = replicate 60 (GetApplicationResourceAccess ''res-1'') \<and>
      error s' = Some (Errorf ''SSH access availability retry limit exceeded'' [])"
    using T1 [THEN conjunct2, THEN conjunct1] by (simp add: a0 n v)
  have w2: "\<exists>s'. StepSetupSSH_polling_Run example_Env_no_access (example_bag_retries 500) =
        Some (ActionHalt, s') \<and>
      requests s' = replicate 180 (GetApplicationResourceAccess ''res-1'') \<and>
      error s' = Some (Errorf ''SSH access availability timeout'' [])"
    using T2 [THEN conjunct2, THEN conjunct1] by (simp add: a0 n vr v)
  have w3: "\<exists>s'. StepSetupSSH_polling_Run example_Env_access_error example_bag_allocated =
        Some (ActionHalt, s') \<and>
      requests s' = replicate 2 (GetApplicationResourceAccess ''res-1'') \<and>
      error s' = Some (Errorf ''failed to get SSH access credentials: %v''
                         [ArgV (Remote ''unavailable'')])"
    using T3 [THEN conjunct2, THEN conjunct2, THEN conjunct1, rule_format,
        of 1 "Remote ''unavailable''"]
    by (simp add: a1 n v numeral_2_eq_2)
  have w4: "\<exists>s'. StepSetupSSH_Run example_Env_no_access example_bag_allocated =
        Some (ActionContinue, s') \<and>
      error s' = None \<and> ssh_host s' = Some ''127.0.0.1'' \<and> ssh_port s' = Some 22"
    using T1 [THEN conjunct2, THEN conjunct2, THEN conjunct2, THEN conjunct2, THEN conjunct2,
        THEN conjunct1]
    by (simp add: a0 v)
  have w5: "StepSetupSSH_REST_Run example_Env_no_access example_bag_allocated = None"
    using T1 [THEN conjunct2, THEN conjunct2, THEN conjunct2, THEN conjunct2, THEN conjunct2,
        THEN conjunct2, THEN conjunct2]
    by (simp add: a0)
  from n(1) v(5) w1 w2 w3 w4 w5 show ?thesis by (intro conjI)
qed


end
